(* ===== verification/Prelude.thy ===== *)
theory Prelude
  imports Complex_Main "HOL-Library.Char_ord" "HOL-Library.List_Lexorder" "HOL-Library.Product_Lexorder"
begin

text \<open>
  Shared vocabulary of the training-event development: the time model
  (Odoo \<open>fields.Date\<close> and \<open>fields.Datetime\<close> values as integers), record
  identifiers, the ORM's ordered \<open>search(..., limit=1)\<close> as \<open>first_by\<close>, and
  generic list lemmas the component theories share.
\<close>

section \<open>Time and identifiers\<close>

text \<open>
  A \<open>fields.Date\<close> is a day number (Python's \<open>date.toordinal\<close>), so that
  \<open>(d1 - d2).days\<close> is integer subtraction. A \<open>fields.Datetime\<close> is a
  naive UTC timestamp in whole seconds (Odoo stores datetimes without
  microseconds), so that \<open>(t1 - t2).total_seconds()\<close> is subtraction too.
\<close>

type_synonym date = int
type_synonym datetime = int
type_synonym rec_id = nat
type_synonym user_id = nat
type_synonym partner_id = nat

named_theorems model_simps "equations that evaluate the model on concrete records"

text \<open>\<open>session.date_start.date()\<close>: the calendar day of a timestamp
  (floor division, as Python's proleptic calendar does before the epoch too).\<close>

definition day_of :: "datetime \<Rightarrow> date" where
  "day_of t = t div 86400"

lemma day_of_mono [intro]: "t \<le> u \<Longrightarrow> day_of t \<le> day_of u"
  by (simp add: day_of_def zdiv_mono1)

section \<open>Ordered search with limit 1\<close>

text \<open>
  \<open>Model.search(domain, limit=1)\<close> returns the first record, in the model's
  \<open>_order\<close>, among those matching the domain. \<open>first_by key xs\<close> is that
  record, for the records \<open>xs\<close> already filtered by the domain.
  \<open>sort_key\<close> is stable, as the database's order with the final \<open>id\<close>
  tie-breaker is deterministic.
\<close>

definition first_by :: "('a \<Rightarrow> 'k::linorder) \<Rightarrow> 'a list \<Rightarrow> 'a option" where
  "first_by key xs = (case sort_key key xs of [] \<Rightarrow> None | x # _ \<Rightarrow> Some x)"

lemma first_by_None [simp]: "first_by key xs = None \<longleftrightarrow> xs = []"
proof -
  have "sort_key key xs = [] \<longleftrightarrow> xs = []"
    by (metis length_0_conv length_sort)
  then show ?thesis by (auto simp: first_by_def split: list.splits)
qed

lemma first_by_Some_mem: "first_by key xs = Some x \<Longrightarrow> x \<in> set xs"
  by (auto simp: first_by_def split: list.splits dest: arg_cong [where f = set])

lemma first_by_Some_least:
  assumes "first_by key xs = Some x" and "y \<in> set xs"
  shows "key x \<le> key y"
proof -
  obtain ys where s: "sort_key key xs = x # ys"
    using assms(1) by (auto simp: first_by_def split: list.splits)
  have "sorted (map key (x # ys))"
    using sorted_sort_key [of key xs] s by simp
  moreover have "y \<in> set (x # ys)"
    using assms(2) s by (metis set_sort)
  ultimately show ?thesis by auto
qed

section \<open>Written values\<close>

text \<open>A \<open>write(vals)\<close> changes only the fields present in \<open>vals\<close>:
  \<open>written (vals.get(f)) old\<close> is the field's new value.\<close>

fun written :: "'a option \<Rightarrow> 'a \<Rightarrow> 'a" where
  "written None x = x"
| "written (Some y) x = y"

text \<open>The first failing check of a sequence of checks, as the first raised
  exception aborts the loop that runs them.\<close>

fun first_error :: "'e option list \<Rightarrow> 'e option" where
  "first_error [] = None"
| "first_error (Some e # _) = Some e"
| "first_error (None # es) = first_error es"

lemma first_error_single [simp]: "first_error [e] = e"
  by (cases e) simp_all

lemma first_error_None_iff [simp]: "first_error es = None \<longleftrightarrow> (\<forall>e\<in>set es. e = None)"
  by (induction es rule: first_error.induct) auto

lemma first_error_Some_mem: "first_error es = Some e \<Longrightarrow> Some e \<in> set es"
  by (induction es rule: first_error.induct) auto

text \<open>A write that runs its checks and commits when none fails.\<close>

lemma checks_commit_Inr [simp]:
  "(case first_error es of Some err \<Rightarrow> Inl err | None \<Rightarrow> Inr x) = Inr r \<longleftrightarrow>
   (\<forall>e\<in>set es. e = None) \<and> x = r"
  by (auto split: option.splits dest: first_error_Some_mem)

lemma checks_commit_Inl [simp]:
  "(case first_error es of Some err \<Rightarrow> Inl err | None \<Rightarrow> Inr x) = Inl err \<longleftrightarrow>
   first_error es = Some err"
  by (auto split: option.splits dest: first_error_Some_mem)

section \<open>Generic list lemmas\<close>

lemma distinct_map_eq:
  "distinct (map f xs) \<Longrightarrow> x \<in> set xs \<Longrightarrow> y \<in> set xs \<Longrightarrow> f x = f y \<Longrightarrow> x = y"
  by (auto simp: distinct_map dest: inj_onD)

lemma filter_empty_iff: "filter P xs = [] \<longleftrightarrow> (\<forall>x\<in>set xs. \<not> P x)"
  by (induction xs) auto

lemma distinct_map_filter_keep [intro]:
  "distinct (map f xs) \<Longrightarrow> distinct (map f (filter P xs))"
  by (induction xs) auto

lemma distinct_map_append_new [intro]:
  "distinct (map f xs) \<Longrightarrow> f x \<notin> f ` set xs \<Longrightarrow> distinct (map f (xs @ [x]))"
  by simp

lemma map_replace_keys [simp]:
  "f c = k \<Longrightarrow> map f (map (\<lambda>y. if f y = k then c else y) xs) = map f xs"
  by (induction xs) auto

lemma ball_replace:
  "P c \<Longrightarrow> \<forall>x\<in>set xs. P x \<Longrightarrow> \<forall>x\<in>set (map (\<lambda>y. if f y = k then c else y) xs). P x"
  by auto

lemma ball_replace_iff:
  "(\<forall>x\<in>set (map (\<lambda>y. if f y = k then c else y) xs). P x) \<longleftrightarrow>
   ((\<exists>y\<in>set xs. f y = k) \<longrightarrow> P c) \<and> (\<forall>y\<in>set xs. f y \<noteq> k \<longrightarrow> P y)"
  by auto

lemma set_replace_cases:
  "x \<in> set (map (\<lambda>y. if f y = k then c else y) xs) \<Longrightarrow> x = c \<or> (x \<in> set xs \<and> f x \<noteq> k)"
  by auto

end
