(* ===== verification/Duration.thy ===== *)
theory Duration
  imports Prelude
begin

text \<open>
  The duration calculator: the three \<open>@api.depends\<close> computes that derive a
  duration from a start and an end. \<open>event_duration_days\<close> is
  \<open>TrainingEvent._compute_duration_days\<close>, \<open>wizard_new_duration_days\<close> is
  \<open>TrainingEventCloneWizard._compute_new_duration_days\<close> (the same rule,
  written twice in the source), \<open>session_duration_hours\<close> is
  \<open>TrainingSession._compute_duration_hours\<close>. A missing value is \<open>None\<close>
  (an unset field is falsy in Python).
\<close>

section \<open>Day counts\<close>

definition event_duration_days :: "date option \<Rightarrow> date option \<Rightarrow> int" where
  "event_duration_days ds de =
     (case (ds, de) of
        (Some s, Some e) \<Rightarrow> if s \<le> e then (e - s) + 1 else 0
      | _ \<Rightarrow> 0)"

definition wizard_new_duration_days :: "date option \<Rightarrow> date option \<Rightarrow> int" where
  "wizard_new_duration_days ns ne =
     (case (ns, ne) of
        (Some s, Some e) \<Rightarrow> if s \<le> e then (e - s) + 1 else 0
      | _ \<Rightarrow> 0)"

section \<open>Hours, rounded to two decimals\<close>

text \<open>
  \<open>round(x, 2)\<close> of Python rounds half to even. The hours times 100 are
  \<open>seconds / 36\<close>, so the rounded hundredths are \<open>seconds / 36\<close> rounded
  half to even, computed here on integers. The model is exact rational
  arithmetic; Python's binary float differs from it only when
  \<open>seconds / 36\<close> is exactly a half, where the float's representation error
  decides the direction.
\<close>

definition round_half_even :: "int \<Rightarrow> int \<Rightarrow> int" where
  "round_half_even n d =
     (let q = n div d; r = n mod d
      in if 2 * r < d then q
         else if d < 2 * r then q + 1
         else if even q then q else q + 1)"

definition session_duration_hours :: "datetime option \<Rightarrow> datetime option \<Rightarrow> rat" where
  "session_duration_hours ds de =
     (case (ds, de) of
        (Some s, Some e) \<Rightarrow>
          if s < e then of_int (round_half_even (e - s) 36) / 100 else 0
      | _ \<Rightarrow> 0)"

section \<open>Lemmas\<close>

lemma event_duration_days_Some [simp]:
  "event_duration_days (Some s) (Some e) = (if s \<le> e then e - s + 1 else 0)"
  by (simp add: event_duration_days_def)

lemma event_duration_days_None [simp]:
  "event_duration_days None de = 0" "event_duration_days ds None = 0"
  by (simp_all add: event_duration_days_def split: option.splits)

lemma wizard_new_duration_days_Some [simp]:
  "wizard_new_duration_days (Some s) (Some e) = (if s \<le> e then e - s + 1 else 0)"
  by (simp add: wizard_new_duration_days_def)

lemma session_duration_hours_Some [simp]:
  "session_duration_hours (Some s) (Some e) =
     (if s < e then of_int (round_half_even (e - s) 36) / 100 else 0)"
  by (simp add: session_duration_hours_def)

lemma round_half_even_bounds:
  assumes "0 < d"
  shows "\<bar>2 * (d * round_half_even n d - n)\<bar> \<le> d"
proof -
  define q r where "q = n div d" and "r = n mod d"
  have n: "n = d * q + r" by (simp add: q_def r_def)
  have r: "0 \<le> r" "r < d" using assms by (simp_all add: r_def)
  have "round_half_even n d =
          (if 2 * r < d then q else if d < 2 * r then q + 1 else if even q then q else q + 1)"
    by (simp add: round_half_even_def Let_def q_def r_def)
  with r show ?thesis by (simp add: n algebra_simps abs_le_iff)
qed

lemma round_half_even_exact: "0 < d \<Longrightarrow> n mod d = 0 \<Longrightarrow> round_half_even n d = n div d"
  by (simp add: round_half_even_def)

lemma round_half_even_nonneg: "0 < d \<Longrightarrow> 0 \<le> n \<Longrightarrow> 0 \<le> round_half_even n d"
  by (simp add: round_half_even_def Let_def pos_imp_zdiv_nonneg_iff)

text \<open>C8. The stored \<open>duration_hours\<close> of a session whose end is after its
  start is non-negative and, read in seconds, within 18 seconds (half a
  hundredth of an hour) of the exact length of the session.\<close>

theorem session_duration_hours_accuracy:
  assumes "s < e"
  shows "0 \<le> session_duration_hours (Some s) (Some e) \<and>
         \<bar>3600 * session_duration_hours (Some s) (Some e) - of_int (e - s)\<bar> \<le> 18"
proof -
  define r where "r = round_half_even (e - s) 36"
  have "\<bar>2 * (36 * r - (e - s))\<bar> \<le> 36" unfolding r_def by (rule round_half_even_bounds) simp
  then have "\<bar>36 * r - (e - s)\<bar> \<le> 18" by simp
  then have "(of_int \<bar>36 * r - (e - s)\<bar> :: rat) \<le> of_int 18" by (simp only: of_int_le_iff)
  then have b: "\<bar>36 * of_int r - of_int (e - s)\<bar> \<le> (18 :: rat)" by simp
  have "0 \<le> r" unfolding r_def using assms by (intro round_half_even_nonneg) simp_all
  then show ?thesis using assms b by (simp add: r_def [symmetric])
qed

theorem session_duration_hours_accuracy_witness:
  "session_duration_hours (Some 0) (Some 5400) = 3 / 2 \<and>
   session_duration_hours (Some 0) (Some 100) = 3 / 100 \<and>
   \<bar>3600 * session_duration_hours (Some 0) (Some 100) - of_int (100 - 0)\<bar> \<le> 18"
proof -
  have "0 \<le> session_duration_hours (Some 0) (Some 100) \<and>
        \<bar>3600 * session_duration_hours (Some 0) (Some 100) - of_int (100 - 0)\<bar> \<le> 18"
    by (rule session_duration_hours_accuracy) simp
  then show ?thesis by (simp add: round_half_even_def Let_def)
qed

end
