(* ===== verification/Records.thy ===== *)
theory Records
  imports Prelude Duration
begin

text \<open>
  The persistent state of the addon as the ORM stores it: one record type per
  model (\<open>training.event\<close>, \<open>training.module\<close>, \<open>training.session\<close>,
  \<open>training.participant\<close>), one datatype per selection field, the database
  as one list of rows per table in id order with the tables' id sequences,
  and the error values a write can end with. The one2many reads
  (\<open>module_ids\<close>, \<open>session_ids\<close>), \<open>mapped\<close> and the non-stored
  \<open>session_count\<close> computes are derived here.
\<close>

section \<open>Selection fields\<close>

datatype event_type = Course | Workshop | Seminar | Conference

datatype event_state = Draft | Programmed | Designed | In_progress | In_review | Closed

datatype session_state = Idea | Session_designed | Session_closed

datatype role = Student | Trainer

section \<open>Models\<close>

text \<open>Stored fields only; \<open>ev_duration_days\<close>, \<open>se_event_id\<close> and
  \<open>se_duration_hours\<close> are the stored computed and related fields. Optional
  text fields (\<open>fields.Text\<close>, \<open>fields.Html\<close>) are \<open>string option\<close>.\<close>

record event =
  ev_id :: rec_id
  ev_name :: string
  ev_code :: string
  ev_type :: event_type
  ev_date_start :: date
  ev_date_end :: date
  ev_duration_days :: int
  ev_state :: event_state
  ev_notes :: "string option"
  ev_participant_ids :: "rec_id list"
  ev_active :: bool

record module =
  mo_id :: rec_id
  mo_name :: string
  mo_description :: "string option"
  mo_notes :: "string option"
  mo_event_id :: rec_id
  mo_sequence :: int
  mo_active :: bool

record session =
  se_id :: rec_id
  se_name :: string
  se_module_id :: rec_id
  se_event_id :: rec_id
  se_date_start :: datetime
  se_date_end :: datetime
  se_duration_hours :: rat
  se_description :: "string option"
  se_materials :: "string option"
  se_attachment_ids :: "rec_id list"
  se_trainer_ids :: "user_id list"
  se_state :: session_state
  se_notes :: "string option"
  se_sequence :: int
  se_active :: bool

record participant =
  pa_id :: rec_id
  pa_partner_id :: partner_id
  pa_name :: string
  pa_role :: role
  pa_user_id :: "user_id option"
  pa_notes :: "string option"
  pa_active :: bool

record db =
  events :: "event list"
  modules :: "module list"
  sessions :: "session list"
  participants :: "participant list"
  next_event_id :: rec_id
  next_module_id :: rec_id
  next_session_id :: rec_id
  next_participant_id :: rec_id
  code_seq :: nat

definition empty_db :: db where
  "empty_db = \<lparr>events = [], modules = [], sessions = [], participants = [],
     next_event_id = 1, next_module_id = 1, next_session_id = 1,
     next_participant_id = 1, code_seq = 1\<rparr>"

section \<open>Errors\<close>

text \<open>\<open>ValidationError\<close> raised by an \<open>@api.constrains\<close> method, the
  \<open>IntegrityError\<close> of an SQL constraint (by its name), the
  \<open>MissingError\<close> of a write to a deleted id and the foreign-key violation of
  a \<open>Many2one\<close> to a missing row. Each aborts the transaction.\<close>

datatype verror =
    Event_dates_invalid
  | Session_dates_invalid
  | Session_overlap string datetime datetime
  | Trainer_without_user
  | Student_with_user
  | Clone_dates_invalid
  | Clone_duration_too_short int int

datatype error =
    Validation_error verror
  | Integrity_error string
  | Missing_error
  | Foreign_key_error

section \<open>Lookups and one2many reads\<close>

definition find_event :: "db \<Rightarrow> rec_id \<Rightarrow> event option" where
  "find_event db i = find (\<lambda>e. ev_id e = i) (events db)"

definition find_module :: "db \<Rightarrow> rec_id \<Rightarrow> module option" where
  "find_module db i = find (\<lambda>m. mo_id m = i) (modules db)"

definition find_session :: "db \<Rightarrow> rec_id \<Rightarrow> session option" where
  "find_session db i = find (\<lambda>s. se_id s = i) (sessions db)"

definition find_participant :: "db \<Rightarrow> rec_id \<Rightarrow> participant option" where
  "find_participant db i = find (\<lambda>p. pa_id p = i) (participants db)"

text \<open>The \<open>_order\<close> of each model, with the ORM's final \<open>id\<close> tie-breaker.
  Names are compared in code-point order; the database's collation may order
  them otherwise.\<close>

definition module_order :: "module \<Rightarrow> rec_id \<times> int \<times> string \<times> rec_id" where
  "module_order m = (mo_event_id m, mo_sequence m, mo_name m, mo_id m)"

definition session_order :: "session \<Rightarrow> datetime \<times> int \<times> string \<times> rec_id" where
  "session_order s = (se_date_start s, se_sequence s, se_name s, se_id s)"

text \<open>\<open>event.module_ids\<close> and \<open>module.session_ids\<close>: a one2many read
  returns the active rows of the comodel pointing back, in its \<open>_order\<close>.\<close>

definition module_ids :: "db \<Rightarrow> rec_id \<Rightarrow> module list" where
  "module_ids db e =
     sort_key module_order (filter (\<lambda>m. mo_active m \<and> mo_event_id m = e) (modules db))"

definition session_ids :: "db \<Rightarrow> rec_id \<Rightarrow> session list" where
  "session_ids db m =
     sort_key session_order (filter (\<lambda>s. se_active s \<and> se_module_id s = m) (sessions db))"

text \<open>\<open>recordset.mapped(...)\<close> concatenates and keeps the first copy of each
  record.\<close>

definition mapped_union :: "'a list \<Rightarrow> 'a list" where
  "mapped_union xs = rev (remdups (rev xs))"

definition event_sessions :: "db \<Rightarrow> rec_id \<Rightarrow> session list" where
  "event_sessions db e = mapped_union (concat (map (\<lambda>m. session_ids db (mo_id m)) (module_ids db e)))"

definition module_session_count :: "db \<Rightarrow> rec_id \<Rightarrow> nat" where
  "module_session_count db m = length (session_ids db m)"

definition event_session_count :: "db \<Rightarrow> rec_id \<Rightarrow> nat" where
  "event_session_count db e = length (event_sessions db e)"

section \<open>Lemmas\<close>

lemma find_Some_mem: "find P xs = Some x \<Longrightarrow> x \<in> set xs \<and> P x"
  by (metis find_Some_iff nth_mem)

lemma find_mem_distinct:
  "distinct (map f xs) \<Longrightarrow> x \<in> set xs \<Longrightarrow> find (\<lambda>y. f y = f x) xs = Some x"
  by (induction xs) (auto simp: rev_image_eqI)

lemma find_event_mem: "find_event db i = Some e \<Longrightarrow> e \<in> set (events db) \<and> ev_id e = i"
  unfolding find_event_def by (drule find_Some_mem) simp

lemma find_module_mem: "find_module db i = Some m \<Longrightarrow> m \<in> set (modules db) \<and> mo_id m = i"
  unfolding find_module_def by (drule find_Some_mem) simp

lemma find_session_mem: "find_session db i = Some s \<Longrightarrow> s \<in> set (sessions db) \<and> se_id s = i"
  unfolding find_session_def by (drule find_Some_mem) simp

lemma find_participant_mem: "find_participant db i = Some p \<Longrightarrow> p \<in> set (participants db) \<and> pa_id p = i"
  unfolding find_participant_def by (drule find_Some_mem) simp

lemma find_event_None: "find_event db i = None \<longleftrightarrow> i \<notin> ev_id ` set (events db)"
  by (auto simp: find_event_def find_None_iff)

lemma mapped_union_distinct [simp]: "distinct xs \<Longrightarrow> mapped_union xs = xs"
  by (simp add: mapped_union_def distinct_remdups_id)

lemma set_mapped_union [simp]: "set (mapped_union xs) = set xs"
  by (simp add: mapped_union_def)

lemma length_mapped_union: "length (mapped_union xs) = card (set xs)"
  by (simp add: mapped_union_def length_remdups_card_conv)

lemma set_event_sessions:
  "set (event_sessions db e) =
     {s \<in> set (sessions db). se_active s \<and>
        (\<exists>m\<in>set (modules db). mo_active m \<and> mo_event_id m = e \<and> mo_id m = se_module_id s)}"
  by (auto simp: event_sessions_def module_ids_def session_ids_def)

lemma event_session_count_card: "event_session_count db e = card (set (event_sessions db e))"
  by (simp add: event_session_count_def event_sessions_def length_mapped_union)

lemma distinct_map_sort_key: "distinct (map g xs) \<Longrightarrow> distinct (map g (sort_key f xs))"
  by (metis distinct_map distinct_sort inj_on_def set_sort)

lemma distinct_concat_session_ids:
  assumes "distinct (map se_id (sessions db))"
  shows "distinct (map mo_id ms) \<Longrightarrow> distinct (concat (map (\<lambda>m. session_ids db (mo_id m)) ms))"
proof (induction ms)
  case Nil
  then show ?case by simp
next
  case (Cons m ms)
  have "distinct (session_ids db (mo_id m))"
    using distinct_map_filter_keep [OF assms] by (simp add: session_ids_def distinct_map)
  moreover have "set (session_ids db (mo_id m)) \<inter> set (concat (map (\<lambda>m. session_ids db (mo_id m)) ms)) = {}"
    using Cons.prems by (auto simp: session_ids_def rev_image_eqI)
  ultimately show ?case using Cons by simp
qed

text \<open>C19. On a table with distinct ids, the event's \<open>session_count\<close>
  (\<open>len(mapped("module_ids.session_ids"))\<close>) is the sum of the
  \<open>session_count\<close>s of its modules.\<close>

theorem event_session_count_sum:
  assumes "distinct (map se_id (sessions db))" and "distinct (map mo_id (modules db))"
  shows "event_session_count db e = sum_list (map (\<lambda>m. module_session_count db (mo_id m)) (module_ids db e))"
proof -
  have "distinct (map mo_id (module_ids db e))"
    using distinct_map_filter_keep [OF assms(2)] by (simp add: module_ids_def distinct_map_sort_key)
  with assms(1) have "distinct (concat (map (\<lambda>m. session_ids db (mo_id m)) (module_ids db e)))"
    by (rule distinct_concat_session_ids)
  then show ?thesis
    by (simp add: event_session_count_def event_sessions_def module_session_count_def length_concat comp_def)
qed

lemmas find_defs [model_simps] = find_event_def find_module_def find_session_def find_participant_def

end
