(* ===== verification/Session.thy ===== *)
theory Session
  imports Records
begin

text \<open>
  The overlap validator and the session model's writes
  (src/addons/training_event/models/training_session.py). The constraints are
  \<open>_check_dates\<close> (strict \<open>end > start\<close>) and \<open>_check_overlap\<close> (a search
  for another active session of the same event whose interval meets the
  record's). Odoo runs a model's constraint methods in name order, so
  \<open>_check_dates\<close> before \<open>_check_overlap\<close>, each only when a field it
  names was written. \<open>create_session\<close>, \<open>write_session\<close> and
  \<open>unlink_session\<close> are the ORM's create, write and unlink on the model, the
  stored computes (\<open>event_id\<close> related to \<open>module_id.event_id\<close>,
  \<open>duration_hours\<close>) recomputed as the ORM does, and any error returned as
  \<open>Inl\<close> with the database left as it was (the transaction is rolled back).
\<close>

section \<open>Constraints\<close>

definition session_dates_error :: "session \<Rightarrow> error option" where
  "session_dates_error r =
     (if se_date_end r \<le> se_date_start r then Some (Validation_error Session_dates_invalid)
      else None)"

text \<open>The search domain of \<open>_check_overlap\<close>, for a candidate \<open>c\<close> and the
  record \<open>r\<close> being checked.\<close>

definition overlap_domain :: "session \<Rightarrow> session \<Rightarrow> bool" where
  "overlap_domain r c \<longleftrightarrow>
     se_id c \<noteq> se_id r \<and> se_event_id c = se_event_id r \<and>
     se_date_start c < se_date_end r \<and> se_date_start r < se_date_end c"

text \<open>\<open>self.search(domain, limit=1)\<close>: the search adds the implicit
  \<open>active = True\<close> filter of a model with an \<open>active\<close> field.\<close>

definition overlap_search :: "db \<Rightarrow> session \<Rightarrow> session option" where
  "overlap_search db r =
     first_by session_order (filter (\<lambda>c. se_active c \<and> overlap_domain r c) (sessions db))"

definition check_overlap :: "db \<Rightarrow> session \<Rightarrow> error option" where
  "check_overlap db r =
     (case overlap_search db r of
        None \<Rightarrow> None
      | Some c \<Rightarrow> Some (Validation_error (Session_overlap (se_name c) (se_date_start c) (se_date_end c))))"

text \<open>The constraints the ORM runs after a write: \<open>dates_w\<close> says that
  \<open>date_start\<close> or \<open>date_end\<close> was written, \<open>overlap_w\<close> that one of
  \<open>date_start\<close>, \<open>date_end\<close>, \<open>event_id\<close> was written or recomputed.\<close>

definition session_constraints :: "db \<Rightarrow> bool \<Rightarrow> bool \<Rightarrow> session \<Rightarrow> error option" where
  "session_constraints db dates_w overlap_w r =
     first_error [if dates_w then session_dates_error r else None,
                  if overlap_w then check_overlap db r else None]"

section \<open>Create\<close>

record session_vals =
  sv_name :: string
  sv_module_id :: rec_id
  sv_date_start :: datetime
  sv_date_end :: datetime
  sv_description :: "string option"
  sv_materials :: "string option"
  sv_attachment_ids :: "rec_id list"
  sv_trainer_ids :: "user_id list"
  sv_state :: "session_state option"
  sv_notes :: "string option"
  sv_sequence :: "int option"
  sv_active :: "bool option"

text \<open>The new row: defaults \<open>state = idea\<close>, \<open>sequence = 10\<close>,
  \<open>active = True\<close>; the related \<open>event_id\<close> and the computed
  \<open>duration_hours\<close> are stored with it.\<close>

definition new_session :: "rec_id \<Rightarrow> module \<Rightarrow> session_vals \<Rightarrow> session" where
  "new_session i m v =
     \<lparr>se_id = i, se_name = sv_name v, se_module_id = mo_id m, se_event_id = mo_event_id m,
      se_date_start = sv_date_start v, se_date_end = sv_date_end v,
      se_duration_hours = session_duration_hours (Some (sv_date_start v)) (Some (sv_date_end v)),
      se_description = sv_description v, se_materials = sv_materials v,
      se_attachment_ids = sv_attachment_ids v, se_trainer_ids = sv_trainer_ids v,
      se_state = written (sv_state v) Idea, se_notes = sv_notes v,
      se_sequence = written (sv_sequence v) 10, se_active = written (sv_active v) True\<rparr>"

definition create_session :: "db \<Rightarrow> session_vals \<Rightarrow> error + db \<times> rec_id" where
  "create_session db v =
     (case find_module db (sv_module_id v) of
        None \<Rightarrow> Inl Foreign_key_error
      | Some m \<Rightarrow>
          (let r = new_session (next_session_id db) m v;
               db' = db\<lparr>sessions := sessions db @ [r], next_session_id := Suc (next_session_id db)\<rparr>
           in case session_constraints db' True True r of
                Some e \<Rightarrow> Inl e
              | None \<Rightarrow> Inr (db', se_id r)))"

section \<open>Write and unlink\<close>

text \<open>The fields a \<open>write\<close> on a session may carry (\<open>None\<close>: not in
  \<open>vals\<close>). The other text fields behave as \<open>notes\<close> does.\<close>

record session_write =
  sw_name :: "string option"
  sw_module_id :: "rec_id option"
  sw_date_start :: "datetime option"
  sw_date_end :: "datetime option"
  sw_trainer_ids :: "user_id list option"
  sw_state :: "session_state option"
  sw_notes :: "string option option"
  sw_sequence :: "int option"
  sw_active :: "bool option"

definition no_session_write :: session_write where
  "no_session_write = \<lparr>sw_name = None, sw_module_id = None, sw_date_start = None,
     sw_date_end = None, sw_trainer_ids = None, sw_state = None, sw_notes = None,
     sw_sequence = None, sw_active = None\<rparr>"

definition dates_written :: "session_write \<Rightarrow> bool" where
  "dates_written w \<longleftrightarrow> sw_date_start w \<noteq> None \<or> sw_date_end w \<noteq> None"

text \<open>The written row, with \<open>event_id\<close> recomputed from the new module when
  \<open>module_id\<close> is written and \<open>duration_hours\<close> when a date is.\<close>

definition apply_session_write :: "module option \<Rightarrow> session_write \<Rightarrow> session \<Rightarrow> session" where
  "apply_session_write mo w s =
     (let s1 = s\<lparr>se_name := written (sw_name w) (se_name s),
                 se_module_id := written (sw_module_id w) (se_module_id s),
                 se_date_start := written (sw_date_start w) (se_date_start s),
                 se_date_end := written (sw_date_end w) (se_date_end s),
                 se_trainer_ids := written (sw_trainer_ids w) (se_trainer_ids s),
                 se_state := written (sw_state w) (se_state s),
                 se_notes := written (sw_notes w) (se_notes s),
                 se_sequence := written (sw_sequence w) (se_sequence s),
                 se_active := written (sw_active w) (se_active s)\<rparr>;
          s2 = (case mo of None \<Rightarrow> s1 | Some m \<Rightarrow> s1\<lparr>se_event_id := mo_event_id m\<rparr>)
      in if dates_written w
         then s2\<lparr>se_duration_hours :=
                   session_duration_hours (Some (se_date_start s2)) (Some (se_date_end s2))\<rparr>
         else s2)"

definition replace_session :: "db \<Rightarrow> session \<Rightarrow> db" where
  "replace_session db s' =
     db\<lparr>sessions := map (\<lambda>x. if se_id x = se_id s' then s' else x) (sessions db)\<rparr>"

text \<open>The new module of a write, when \<open>module_id\<close> is written: a missing
  row is a foreign-key violation.\<close>

definition written_module :: "db \<Rightarrow> session_write \<Rightarrow> error + module option" where
  "written_module db w =
     (case sw_module_id w of
        None \<Rightarrow> Inr None
      | Some mid \<Rightarrow> (case find_module db mid of None \<Rightarrow> Inl Foreign_key_error | Some m \<Rightarrow> Inr (Some m)))"

definition write_session :: "db \<Rightarrow> rec_id \<Rightarrow> session_write \<Rightarrow> error + db" where
  "write_session db i w =
     (case find_session db i of
        None \<Rightarrow> Inl Missing_error
      | Some s \<Rightarrow>
          (case written_module db w of
             Inl e \<Rightarrow> Inl e
           | Inr mo \<Rightarrow>
               (let s' = apply_session_write mo w s;
                    db' = replace_session db s'
                in case session_constraints db' (dates_written w)
                          (dates_written w \<or> sw_module_id w \<noteq> None) s' of
                     Some e \<Rightarrow> Inl e
                   | None \<Rightarrow> Inr db')))"

definition unlink_session :: "db \<Rightarrow> rec_id \<Rightarrow> error + db" where
  "unlink_session db i =
     (case find_session db i of
        None \<Rightarrow> Inl Missing_error
      | Some _ \<Rightarrow> Inr (db\<lparr>sessions := filter (\<lambda>x. se_id x \<noteq> i) (sessions db)\<rparr>))"

section \<open>Lemmas\<close>

lemma overlap_domain_touching:
  "se_date_start c = se_date_end r \<or> se_date_end c = se_date_start r \<Longrightarrow> \<not> overlap_domain r c"
  by (auto simp: overlap_domain_def)

lemma overlap_domain_sym: "overlap_domain r c \<longleftrightarrow> overlap_domain c r"
  by (auto simp: overlap_domain_def)

lemma check_overlap_None_iff:
  "check_overlap db r = None \<longleftrightarrow> (\<forall>c\<in>set (sessions db). se_active c \<longrightarrow> \<not> overlap_domain r c)"
proof -
  have "overlap_search db r = None \<longleftrightarrow> (\<forall>c\<in>set (sessions db). se_active c \<longrightarrow> \<not> overlap_domain r c)"
    by (auto simp: overlap_search_def filter_empty_iff)
  then show ?thesis by (auto simp: check_overlap_def split: option.splits)
qed

lemma check_overlap_Some:
  assumes "check_overlap db r = Some e"
  shows "\<exists>c\<in>set (sessions db). se_active c \<and> overlap_domain r c \<and>
           e = Validation_error (Session_overlap (se_name c) (se_date_start c) (se_date_end c)) \<and>
           (\<forall>c'\<in>set (sessions db). se_active c' \<and> overlap_domain r c' \<longrightarrow> session_order c \<le> session_order c')"
proof -
  obtain c where c: "overlap_search db r = Some c"
    and e: "e = Validation_error (Session_overlap (se_name c) (se_date_start c) (se_date_end c))"
    using assms by (auto simp: check_overlap_def split: option.splits)
  from c have "c \<in> set (filter (\<lambda>c. se_active c \<and> overlap_domain r c) (sessions db))"
    unfolding overlap_search_def by (rule first_by_Some_mem)
  moreover have "\<forall>c'\<in>set (sessions db). se_active c' \<and> overlap_domain r c' \<longrightarrow> session_order c \<le> session_order c'"
    using c first_by_Some_least unfolding overlap_search_def by fastforce
  ultimately show ?thesis using e by auto
qed

lemma session_constraints_create:
  "session_constraints db True True r =
     (if se_date_end r \<le> se_date_start r then Some (Validation_error Session_dates_invalid)
      else check_overlap db r)"
  by (simp add: session_constraints_def session_dates_error_def)

lemma new_session_fields [simp]:
  "se_id (new_session i m v) = i" "se_event_id (new_session i m v) = mo_event_id m"
  "se_date_start (new_session i m v) = sv_date_start v" "se_date_end (new_session i m v) = sv_date_end v"
  "se_module_id (new_session i m v) = mo_id m"
  "se_duration_hours (new_session i m v) =
     session_duration_hours (Some (sv_date_start v)) (Some (sv_date_end v))"
  "se_active (new_session i m v) = written (sv_active v) True"
  by (simp_all add: new_session_def)

text \<open>Overlap check against the table with the new row appended: the row
  itself is excluded by its id.\<close>

lemma check_overlap_append_self:
  "check_overlap (db\<lparr>sessions := sessions db @ [r], next_session_id := n\<rparr>) r = None \<longleftrightarrow>
   (\<forall>c\<in>set (sessions db). se_active c \<longrightarrow> \<not> overlap_domain r c)"
  by (auto simp: check_overlap_None_iff overlap_domain_def)

lemma create_session_Inr:
  assumes "create_session db v = Inr (db', i)"
  obtains m where "find_module db (sv_module_id v) = Some m"
    and "sv_date_start v < sv_date_end v"
    and "\<forall>c\<in>set (sessions db). se_active c \<and> se_id c \<noteq> next_session_id db \<and>
            se_event_id c = mo_event_id m \<longrightarrow>
            \<not> (se_date_start c < sv_date_end v \<and> sv_date_start v < se_date_end c)"
    and "i = next_session_id db"
    and "db' = db\<lparr>sessions := sessions db @ [new_session (next_session_id db) m v],
                 next_session_id := Suc (next_session_id db)\<rparr>"
proof -
  obtain m where m: "find_module db (sv_module_id v) = Some m"
    using assms by (auto simp: create_session_def split: option.splits)
  let ?r = "new_session (next_session_id db) m v"
  let ?db' = "db\<lparr>sessions := sessions db @ [?r], next_session_id := Suc (next_session_id db)\<rparr>"
  have c: "session_constraints ?db' True True ?r = None" and r: "db' = ?db'" "i = next_session_id db"
    using assms m by (auto simp: create_session_def Let_def split: option.splits)
  then have d: "sv_date_start v < sv_date_end v" and ov: "check_overlap ?db' ?r = None"
    by (auto simp: session_constraints_create split: if_splits)
  from ov have "\<forall>c\<in>set (sessions db). se_active c \<and> se_id c \<noteq> next_session_id db \<and>
            se_event_id c = mo_event_id m \<longrightarrow>
            \<not> (se_date_start c < sv_date_end v \<and> sv_date_start v < se_date_end c)"
    unfolding check_overlap_append_self by (auto simp: overlap_domain_def)
  with m d r show ?thesis using that by blast
qed

text \<open>C1. Creating a session commits exactly when its module exists, its end is
  after its start, and no other active session of the module's event has an
  interval meeting the new one (sessions that only touch at an endpoint do
  not overlap); the row is then appended with the next id.\<close>

theorem create_session_ok:
  "create_session db v = Inr (db', i) \<longleftrightarrow>
   (\<exists>m. find_module db (sv_module_id v) = Some m \<and>
        sv_date_start v < sv_date_end v \<and>
        (\<forall>c\<in>set (sessions db). se_active c \<and> se_id c \<noteq> next_session_id db \<and>
            se_event_id c = mo_event_id m \<longrightarrow>
            \<not> (se_date_start c < sv_date_end v \<and> sv_date_start v < se_date_end c)) \<and>
        i = next_session_id db \<and>
        db' = db\<lparr>sessions := sessions db @ [new_session (next_session_id db) m v],
                 next_session_id := Suc (next_session_id db)\<rparr>)"
proof (cases "find_module db (sv_module_id v)")
  case None
  then show ?thesis by (simp add: create_session_def)
next
  case (Some m)
  let ?r = "new_session (next_session_id db) m v"
  let ?db' = "db\<lparr>sessions := sessions db @ [?r], next_session_id := Suc (next_session_id db)\<rparr>"
  have ov: "check_overlap ?db' ?r = None \<longleftrightarrow>
      (\<forall>c\<in>set (sessions db). se_active c \<and> se_id c \<noteq> next_session_id db \<and>
            se_event_id c = mo_event_id m \<longrightarrow>
            \<not> (se_date_start c < sv_date_end v \<and> sv_date_start v < se_date_end c))"
    unfolding check_overlap_append_self by (auto simp: overlap_domain_def)
  show ?thesis
  proof (cases "check_overlap ?db' ?r")
    case None
    with Some ov show ?thesis
      by (auto simp: create_session_def session_constraints_create Let_def)
  next
    case (Some e)
    with \<open>find_module db (sv_module_id v) = Some m\<close> ov show ?thesis
      by (auto simp: create_session_def session_constraints_create Let_def)
  qed
qed

lemma create_session_no_module:
  "find_module db (sv_module_id v) = None \<Longrightarrow> create_session db v = Inl Foreign_key_error"
  by (simp add: create_session_def)

lemma create_session_bad_dates:
  "find_module db (sv_module_id v) = Some m \<Longrightarrow> sv_date_end v \<le> sv_date_start v \<Longrightarrow>
   create_session db v = Inl (Validation_error Session_dates_invalid)"
  by (simp add: create_session_def session_constraints_create Let_def)

text \<open>C17. A create that meets an active session of the same event is
  rejected, and the error names the first such session in the model's
  \<open>_order\<close> (start, sequence, name, id): the one \<open>search(limit=1)\<close>
  returns.\<close>

theorem create_session_overlap:
  assumes "find_module db (sv_module_id v) = Some m" and "sv_date_start v < sv_date_end v"
    and "c \<in> set (sessions db)" and "se_active c" and "se_id c \<noteq> next_session_id db"
    and "se_event_id c = mo_event_id m"
    and "se_date_start c < sv_date_end v" and "sv_date_start v < se_date_end c"
  shows "\<exists>c0\<in>set (sessions db). se_active c0 \<and> se_event_id c0 = mo_event_id m \<and>
           se_date_start c0 < sv_date_end v \<and> sv_date_start v < se_date_end c0 \<and>
           create_session db v =
             Inl (Validation_error (Session_overlap (se_name c0) (se_date_start c0) (se_date_end c0))) \<and>
           (\<forall>c'\<in>set (sessions db). se_active c' \<and> se_id c' \<noteq> next_session_id db \<and>
              se_event_id c' = mo_event_id m \<and>
              se_date_start c' < sv_date_end v \<and> sv_date_start v < se_date_end c' \<longrightarrow>
              session_order c0 \<le> session_order c')"
proof -
  let ?r = "new_session (next_session_id db) m v"
  let ?db' = "db\<lparr>sessions := sessions db @ [?r], next_session_id := Suc (next_session_id db)\<rparr>"
  have "check_overlap ?db' ?r \<noteq> None"
    using assms by (auto simp: check_overlap_append_self overlap_domain_def)
  then obtain e where e: "check_overlap ?db' ?r = Some e" by blast
  then obtain c0 where c0: "c0 \<in> set (sessions ?db')" "se_active c0" "overlap_domain ?r c0"
    and ee: "e = Validation_error (Session_overlap (se_name c0) (se_date_start c0) (se_date_end c0))"
    and least: "\<forall>c'\<in>set (sessions ?db'). se_active c' \<and> overlap_domain ?r c' \<longrightarrow>
                  session_order c0 \<le> session_order c'"
    by (blast dest: check_overlap_Some)
  have "c0 \<in> set (sessions db)" using c0 by (auto simp: overlap_domain_def)
  moreover have "create_session db v = Inl e"
    using assms(1,2) e by (simp add: create_session_def session_constraints_create Let_def)
  moreover have "\<forall>c'\<in>set (sessions db). se_active c' \<and> se_id c' \<noteq> next_session_id db \<and>
              se_event_id c' = mo_event_id m \<and>
              se_date_start c' < sv_date_end v \<and> sv_date_start v < se_date_end c' \<longrightarrow>
              session_order c0 \<le> session_order c'"
    using least by (auto simp: overlap_domain_def)
  ultimately show ?thesis using c0 ee assms(1) by (auto simp: overlap_domain_def)
qed

lemma write_session_Inr:
  assumes "write_session db i w = Inr db'"
  obtains s mo where "find_session db i = Some s" and "written_module db w = Inr mo"
    and "db' = replace_session db (apply_session_write mo w s)"
    and "session_constraints db' (dates_written w) (dates_written w \<or> sw_module_id w \<noteq> None)
           (apply_session_write mo w s) = None"
  using assms by (auto simp: write_session_def Let_def split: option.splits sum.splits)

lemma apply_session_write_fields [simp]:
  "se_id (apply_session_write mo w s) = se_id s"
  "se_date_start (apply_session_write mo w s) = written (sw_date_start w) (se_date_start s)"
  "se_date_end (apply_session_write mo w s) = written (sw_date_end w) (se_date_end s)"
  "se_module_id (apply_session_write mo w s) = written (sw_module_id w) (se_module_id s)"
  "se_event_id (apply_session_write mo w s) = (case mo of None \<Rightarrow> se_event_id s | Some m \<Rightarrow> mo_event_id m)"
  "se_active (apply_session_write mo w s) = written (sw_active w) (se_active s)"
  "se_duration_hours (apply_session_write mo w s) =
     (if dates_written w
      then session_duration_hours (Some (written (sw_date_start w) (se_date_start s)))
             (Some (written (sw_date_end w) (se_date_end s)))
      else se_duration_hours s)"
  by (simp_all add: apply_session_write_def Let_def split: option.splits)

lemma written_module_cases:
  assumes "written_module db w = Inr mo"
  shows "(sw_module_id w = None \<and> mo = None) \<or>
   (\<exists>m. sw_module_id w = Some (mo_id m) \<and> mo = Some m \<and> m \<in> set (modules db))"
proof (cases "sw_module_id w")
  case None
  then show ?thesis using assms by (simp add: written_module_def)
next
  case (Some mid)
  with assms obtain m where "find_module db mid = Some m" "mo = Some m"
    by (auto simp: written_module_def split: option.splits)
  then have "m \<in> set (modules db)" "mo_id m = mid"
    by (auto simp: find_module_def dest: find_Some_mem)
  with Some \<open>mo = Some m\<close> show ?thesis by auto
qed

lemma no_session_write_sel [simp]:
  "sw_name no_session_write = None" "sw_module_id no_session_write = None"
  "sw_date_start no_session_write = None" "sw_date_end no_session_write = None"
  "sw_trainer_ids no_session_write = None" "sw_state no_session_write = None"
  "sw_notes no_session_write = None" "sw_sequence no_session_write = None"
  "sw_active no_session_write = None"
  by (simp_all add: no_session_write_def)

lemma apply_session_write_active_only:
  "apply_session_write None (no_session_write\<lparr>sw_active := Some b\<rparr>) s = s\<lparr>se_active := b\<rparr>"
  by (simp add: apply_session_write_def dates_written_def)

text \<open>C13. Archiving or unarchiving a session writes only \<open>active\<close>, a field
  neither constraint names, so the write runs no check at all.\<close>

lemma write_session_set_active:
  "find_session db i = Some s \<Longrightarrow>
   write_session db i (no_session_write\<lparr>sw_active := Some b\<rparr>) =
     Inr (replace_session db (s\<lparr>se_active := b\<rparr>))"
  by (simp add: write_session_def written_module_def session_constraints_def
      apply_session_write_active_only dates_written_def)

lemma apply_session_write_dates:
  "apply_session_write None (no_session_write\<lparr>sw_date_start := Some a, sw_date_end := Some b\<rparr>) s =
     s\<lparr>se_date_start := a, se_date_end := b, se_duration_hours := session_duration_hours (Some a) (Some b)\<rparr>"
  by (simp add: apply_session_write_def dates_written_def)

lemma write_session_dates:
  assumes "find_session db i = Some s"
  shows "write_session db i (no_session_write\<lparr>sw_date_start := Some a, sw_date_end := Some b\<rparr>) =
      (let s' = s\<lparr>se_date_start := a, se_date_end := b,
                  se_duration_hours := session_duration_hours (Some a) (Some b)\<rparr>
       in if b \<le> a then Inl (Validation_error Session_dates_invalid)
          else case check_overlap (replace_session db s') s' of
                 Some e \<Rightarrow> Inl e | None \<Rightarrow> Inr (replace_session db s'))"
  by (simp add: write_session_def assms written_module_def apply_session_write_dates dates_written_def
      session_constraints_create Let_def del: session_duration_hours_Some)

text \<open>C16. Rescheduling a session (a write of both dates) commits exactly when
  the new end is after the new start and no other active session of the
  same event meets the new slot; the row gets the dates and the recomputed
  duration.\<close>

theorem write_session_reschedule:
  assumes s: "find_session db i = Some s"
  shows "write_session db i (no_session_write\<lparr>sw_date_start := Some a, sw_date_end := Some b\<rparr>) = Inr db' \<longleftrightarrow>
           a < b \<and>
           (\<forall>c\<in>set (sessions db). se_active c \<and> se_id c \<noteq> i \<and> se_event_id c = se_event_id s \<longrightarrow>
               \<not> (se_date_start c < b \<and> a < se_date_end c)) \<and>
           db' = replace_session db
                   (s\<lparr>se_date_start := a, se_date_end := b,
                       se_duration_hours := session_duration_hours (Some a) (Some b)\<rparr>)"
proof -
  let ?s' = "s\<lparr>se_date_start := a, se_date_end := b, se_duration_hours := session_duration_hours (Some a) (Some b)\<rparr>"
  have i: "se_id s = i" and mem: "s \<in> set (sessions db)" using find_session_mem [OF s] by simp_all
  have ov: "check_overlap (replace_session db ?s') ?s' = None \<longleftrightarrow>
      (\<forall>c\<in>set (sessions db). se_active c \<and> se_id c \<noteq> i \<and> se_event_id c = se_event_id s \<longrightarrow>
         \<not> (se_date_start c < b \<and> a < se_date_end c))"
    using i by (auto simp: check_overlap_None_iff replace_session_def ball_replace_iff overlap_domain_def)
  show ?thesis
    unfolding write_session_dates [OF s] Let_def ov [symmetric] by (cases "check_overlap (replace_session db ?s') ?s'") auto
qed

text \<open>C18. On a table with distinct ids, deleting a session lowers an event's
  \<open>session_count\<close> by one when the session was counted for the event (active,
  in an active module of the event) and leaves it unchanged otherwise.\<close>

theorem unlink_session_count:
  assumes d: "distinct (map se_id (sessions db))" and s: "find_session db i = Some s"
    and u: "unlink_session db i = Inr db'"
  shows "event_session_count db' e =
           (if s \<in> set (event_sessions db e) then event_session_count db e - 1
            else event_session_count db e)"
proof -
  have s': "s \<in> set (sessions db)" "se_id s = i" using find_session_mem [OF s] by simp_all
  have db': "db' = db\<lparr>sessions := filter (\<lambda>x. se_id x \<noteq> i) (sessions db)\<rparr>"
    using u s by (simp add: unlink_session_def)
  define Q where "Q (x :: session) \<longleftrightarrow> se_active x \<and>
      (\<exists>m\<in>set (modules db). mo_active m \<and> mo_event_id m = e \<and> mo_id m = se_module_id x)" for x
  have uniq: "x \<in> set (sessions db) \<Longrightarrow> se_id x = i \<Longrightarrow> x = s" for x
    using distinct_map_eq [OF d _ s'(1)] s'(2) by simp
  have "set (event_sessions db' e) = {x \<in> set (sessions db). se_id x \<noteq> i \<and> Q x}"
    unfolding set_event_sessions Q_def by (auto simp: db')
  also have "\<dots> = {x \<in> set (sessions db). Q x} - {s}"
  proof (rule set_eqI)
    fix x
    show "x \<in> {x \<in> set (sessions db). se_id x \<noteq> i \<and> Q x} \<longleftrightarrow> x \<in> {x \<in> set (sessions db). Q x} - {s}"
      using uniq [of x] s'(2) by blast
  qed
  also have "{x \<in> set (sessions db). Q x} = set (event_sessions db e)"
    unfolding set_event_sessions Q_def ..
  finally have "set (event_sessions db' e) = set (event_sessions db e) - {s}" .
  then show ?thesis by (simp add: event_session_count_card)
qed

end
