(* ===== verification/Event.thy ===== *)
theory Event
  imports Session
begin

text \<open>
  The event and module models' writes
  (src/addons/training_event/models/training_event.py and training_module.py):
  create, write and unlink of \<open>training.event\<close> with its \<open>_check_dates\<close>
  constraint, its SQL constraint \<open>unique(code)\<close> and the stored
  \<open>duration_days\<close>; create, write and unlink of \<open>training.module\<close>, where
  moving a module to another event recomputes the stored related
  \<open>event_id\<close> of its sessions and so re-runs their \<open>_check_overlap\<close>.
  Unlink cascades as the \<open>ondelete="cascade"\<close> foreign keys do.
\<close>

section \<open>Event\<close>

text \<open>The \<open>ir.sequence\<close> of code \<open>training.event\<close> is defined in the
  addon's data files, not under src/; its format is taken from the tests
  (codes start with \<open>EVT/\<close>) and the counter is \<open>code_seq\<close>.\<close>

fun decimal :: "nat \<Rightarrow> string" where
  "decimal n = (if n < 10 then [char_of (48 + n)] else decimal (n div 10) @ [char_of (48 + n mod 10)])"

definition seq_code :: "nat \<Rightarrow> string" where
  "seq_code n = ''EVT/'' @ decimal n"

record event_vals =
  evv_name :: string
  evv_code :: "string option"
  evv_type :: event_type
  evv_date_start :: date
  evv_date_end :: date
  evv_state :: "event_state option"
  evv_notes :: "string option"
  evv_participant_ids :: "rec_id list"
  evv_active :: "bool option"

definition event_dates_error :: "event \<Rightarrow> error option" where
  "event_dates_error e =
     (if ev_date_end e < ev_date_start e then Some (Validation_error Event_dates_invalid) else None)"

definition code_unique_error :: "db \<Rightarrow> event \<Rightarrow> error option" where
  "code_unique_error db e =
     (if \<exists>x\<in>set (events db). ev_id x \<noteq> ev_id e \<and> ev_code x = ev_code e
      then Some (Integrity_error ''training_event_code_unique'') else None)"

definition participants_fk_error :: "db \<Rightarrow> rec_id list \<Rightarrow> error option" where
  "participants_fk_error db ps =
     (if \<forall>p\<in>set ps. p \<in> pa_id ` set (participants db) then None else Some Foreign_key_error)"

text \<open>The row \<open>create\<close> inserts: the code from \<open>vals\<close> or the sequence
  (the default lambda runs only when \<open>code\<close> is missing), \<open>state = draft\<close>
  and \<open>active = True\<close> by default, the stored \<open>duration_days\<close>. A many2many
  value is a set of ids.\<close>

definition new_event :: "rec_id \<Rightarrow> string \<Rightarrow> event_vals \<Rightarrow> event" where
  "new_event i code v =
     \<lparr>ev_id = i, ev_name = evv_name v, ev_code = code, ev_type = evv_type v,
      ev_date_start = evv_date_start v, ev_date_end = evv_date_end v,
      ev_duration_days = event_duration_days (Some (evv_date_start v)) (Some (evv_date_end v)),
      ev_state = written (evv_state v) Draft, ev_notes = evv_notes v,
      ev_participant_ids = remdups (evv_participant_ids v),
      ev_active = written (evv_active v) True\<rparr>"

definition create_event :: "db \<Rightarrow> event_vals \<Rightarrow> error + db \<times> rec_id" where
  "create_event db v =
     (let code = written (evv_code v) (seq_code (code_seq db));
          seq' = (case evv_code v of None \<Rightarrow> Suc (code_seq db) | Some _ \<Rightarrow> code_seq db);
          e = new_event (next_event_id db) code v
      in case first_error [code_unique_error db e,
                           participants_fk_error db (ev_participant_ids e),
                           event_dates_error e] of
           Some err \<Rightarrow> Inl err
         | None \<Rightarrow> Inr (db\<lparr>events := events db @ [e], next_event_id := Suc (next_event_id db),
                          code_seq := seq'\<rparr>, ev_id e))"

record event_write =
  ew_name :: "string option"
  ew_code :: "string option"
  ew_type :: "event_type option"
  ew_date_start :: "date option"
  ew_date_end :: "date option"
  ew_state :: "event_state option"
  ew_notes :: "string option option"
  ew_participant_ids :: "rec_id list option"
  ew_active :: "bool option"

definition no_event_write :: event_write where
  "no_event_write = \<lparr>ew_name = None, ew_code = None, ew_type = None, ew_date_start = None,
     ew_date_end = None, ew_state = None, ew_notes = None, ew_participant_ids = None,
     ew_active = None\<rparr>"

definition apply_event_write :: "event_write \<Rightarrow> event \<Rightarrow> event" where
  "apply_event_write w e =
     (let e1 = e\<lparr>ev_name := written (ew_name w) (ev_name e),
                 ev_code := written (ew_code w) (ev_code e),
                 ev_type := written (ew_type w) (ev_type e),
                 ev_date_start := written (ew_date_start w) (ev_date_start e),
                 ev_date_end := written (ew_date_end w) (ev_date_end e),
                 ev_state := written (ew_state w) (ev_state e),
                 ev_notes := written (ew_notes w) (ev_notes e),
                 ev_participant_ids := written (map_option remdups (ew_participant_ids w))
                                          (ev_participant_ids e),
                 ev_active := written (ew_active w) (ev_active e)\<rparr>
      in if ew_date_start w \<noteq> None \<or> ew_date_end w \<noteq> None
         then e1\<lparr>ev_duration_days := event_duration_days (Some (ev_date_start e1)) (Some (ev_date_end e1))\<rparr>
         else e1)"

definition write_event :: "db \<Rightarrow> rec_id \<Rightarrow> event_write \<Rightarrow> error + db" where
  "write_event db i w =
     (case find_event db i of
        None \<Rightarrow> Inl Missing_error
      | Some e \<Rightarrow>
          (let e' = apply_event_write w e
           in case first_error [if ew_code w \<noteq> None then code_unique_error db e' else None,
                                if ew_participant_ids w \<noteq> None
                                then participants_fk_error db (ev_participant_ids e') else None,
                                if ew_date_start w \<noteq> None \<or> ew_date_end w \<noteq> None
                                then event_dates_error e' else None] of
                Some err \<Rightarrow> Inl err
              | None \<Rightarrow> Inr (db\<lparr>events := map (\<lambda>x. if ev_id x = i then e' else x) (events db)\<rparr>)))"

text \<open>Unlink removes the event, the modules of the event
  (\<open>training.module.event_id\<close>, \<open>ondelete="cascade"\<close>) and the sessions of
  those modules (\<open>training.session.module_id\<close>, \<open>ondelete="cascade"\<close>).\<close>

definition unlink_event :: "db \<Rightarrow> rec_id \<Rightarrow> error + db" where
  "unlink_event db i =
     (case find_event db i of
        None \<Rightarrow> Inl Missing_error
      | Some _ \<Rightarrow>
          (let gone = mo_id ` set (filter (\<lambda>m. mo_event_id m = i) (modules db))
           in Inr (db\<lparr>events := filter (\<lambda>e. ev_id e \<noteq> i) (events db),
                      modules := filter (\<lambda>m. mo_event_id m \<noteq> i) (modules db),
                      sessions := filter (\<lambda>s. se_module_id s \<notin> gone) (sessions db)\<rparr>)))"

definition event_dates_written :: "event_write \<Rightarrow> bool" where
  "event_dates_written w \<longleftrightarrow> ew_date_start w \<noteq> None \<or> ew_date_end w \<noteq> None"

text \<open>\<open>_get_calendar_state_colors\<close>: the colour of each state in the calendar
  views, the code's dictionary as an association list in its order.\<close>

definition calendar_state_colors :: "(event_state \<times> string) list" where
  "calendar_state_colors =
     [(Draft, ''gray''), (Programmed, ''blue''), (Designed, ''light-green''), (In_progress, ''green''),
      (In_review, ''orange''), (Closed, ''dark-gray'')]"

section \<open>Module\<close>

record module_vals =
  mv_name :: string
  mv_event_id :: rec_id
  mv_description :: "string option"
  mv_notes :: "string option"
  mv_sequence :: "int option"
  mv_active :: "bool option"

definition create_module :: "db \<Rightarrow> module_vals \<Rightarrow> error + db \<times> rec_id" where
  "create_module db v =
     (case find_event db (mv_event_id v) of
        None \<Rightarrow> Inl Foreign_key_error
      | Some _ \<Rightarrow>
          (let m = \<lparr>mo_id = next_module_id db, mo_name = mv_name v,
                    mo_description = mv_description v, mo_notes = mv_notes v,
                    mo_event_id = mv_event_id v, mo_sequence = written (mv_sequence v) 10,
                    mo_active = written (mv_active v) True\<rparr>
           in Inr (db\<lparr>modules := modules db @ [m], next_module_id := Suc (next_module_id db)\<rparr>, mo_id m)))"

record module_write =
  mw_name :: "string option"
  mw_description :: "string option option"
  mw_notes :: "string option option"
  mw_event_id :: "rec_id option"
  mw_sequence :: "int option"
  mw_active :: "bool option"

definition apply_module_write :: "module_write \<Rightarrow> module \<Rightarrow> module" where
  "apply_module_write w m =
     m\<lparr>mo_name := written (mw_name w) (mo_name m),
       mo_description := written (mw_description w) (mo_description m),
       mo_notes := written (mw_notes w) (mo_notes m),
       mo_event_id := written (mw_event_id w) (mo_event_id m),
       mo_sequence := written (mw_sequence w) (mo_sequence m),
       mo_active := written (mw_active w) (mo_active m)\<rparr>"

text \<open>Writing \<open>event_id\<close> on a module recomputes the stored related field
  \<open>event_id\<close> of every session of the module, archived ones too, and the
  ORM validates the constraints on the recomputed field: \<open>_check_overlap\<close>
  runs for each of those sessions, in table order.\<close>

definition resync_sessions :: "rec_id \<Rightarrow> rec_id \<Rightarrow> session list \<Rightarrow> session list" where
  "resync_sessions mid e ss = map (\<lambda>s. if se_module_id s = mid then s\<lparr>se_event_id := e\<rparr> else s) ss"

definition write_module :: "db \<Rightarrow> rec_id \<Rightarrow> module_write \<Rightarrow> error + db" where
  "write_module db i w =
     (case find_module db i of
        None \<Rightarrow> Inl Missing_error
      | Some m \<Rightarrow>
          (case mw_event_id w of
             None \<Rightarrow> Inr (db\<lparr>modules := map (\<lambda>x. if mo_id x = i then apply_module_write w m else x)
                                           (modules db)\<rparr>)
           | Some e \<Rightarrow>
               (case find_event db e of
                  None \<Rightarrow> Inl Foreign_key_error
                | Some _ \<Rightarrow>
                    (let db' = db\<lparr>modules := map (\<lambda>x. if mo_id x = i then apply_module_write w m else x)
                                                 (modules db),
                                  sessions := resync_sessions i e (sessions db)\<rparr>;
                         moved = filter (\<lambda>s. se_module_id s = i) (sessions db')
                     in case first_error (map (check_overlap db') moved) of
                          Some err \<Rightarrow> Inl err
                        | None \<Rightarrow> Inr db'))))"

definition unlink_module :: "db \<Rightarrow> rec_id \<Rightarrow> error + db" where
  "unlink_module db i =
     (case find_module db i of
        None \<Rightarrow> Inl Missing_error
      | Some _ \<Rightarrow> Inr (db\<lparr>modules := filter (\<lambda>m. mo_id m \<noteq> i) (modules db),
                         sessions := filter (\<lambda>s. se_module_id s \<noteq> i) (sessions db)\<rparr>))"

section \<open>Lemmas\<close>

lemma new_event_fields [simp]:
  "ev_id (new_event i c v) = i" "ev_code (new_event i c v) = c"
  "ev_name (new_event i c v) = evv_name v" "ev_type (new_event i c v) = evv_type v"
  "ev_date_start (new_event i c v) = evv_date_start v" "ev_date_end (new_event i c v) = evv_date_end v"
  "ev_duration_days (new_event i c v) = event_duration_days (Some (evv_date_start v)) (Some (evv_date_end v))"
  "ev_state (new_event i c v) = written (evv_state v) Draft"
  "ev_participant_ids (new_event i c v) = remdups (evv_participant_ids v)"
  "ev_notes (new_event i c v) = evv_notes v" "ev_active (new_event i c v) = written (evv_active v) True"
  by (simp_all add: new_event_def)

lemma create_event_default_code:
  assumes "evv_code v = None" and "seq_code (code_seq db) \<notin> ev_code ` set (events db)"
    and "set (evv_participant_ids v) \<subseteq> pa_id ` set (participants db)"
    and "evv_date_start v \<le> evv_date_end v"
  shows "create_event db v =
           Inr (db\<lparr>events := events db @ [new_event (next_event_id db) (seq_code (code_seq db)) v],
                   next_event_id := Suc (next_event_id db), code_seq := Suc (code_seq db)\<rparr>,
                next_event_id db)"
proof -
  have "\<forall>x\<in>set (events db). ev_code x \<noteq> seq_code (code_seq db)" using assms(2) by force
  then show ?thesis using assms(1,3,4)
    by (auto simp: create_event_def code_unique_error_def participants_fk_error_def
        event_dates_error_def Let_def)
qed

lemma create_event_Inr:
  assumes "create_event db v = Inr (db', i)"
  shows "\<exists>code seq'. db' = db\<lparr>events := events db @ [new_event (next_event_id db) code v],
                       next_event_id := Suc (next_event_id db), code_seq := seq'\<rparr> \<and>
           i = next_event_id db \<and> evv_date_start v \<le> evv_date_end v \<and>
           set (evv_participant_ids v) \<subseteq> pa_id ` set (participants db) \<and>
           (\<forall>x\<in>set (events db). ev_id x \<noteq> next_event_id db \<longrightarrow> ev_code x \<noteq> code)"
proof -
  let ?code = "written (evv_code v) (seq_code (code_seq db))"
  let ?seq = "case evv_code v of None \<Rightarrow> Suc (code_seq db) | Some _ \<Rightarrow> code_seq db"
  from assms have "db' = db\<lparr>events := events db @ [new_event (next_event_id db) ?code v],
                       next_event_id := Suc (next_event_id db), code_seq := ?seq\<rparr> \<and>
           i = next_event_id db \<and> evv_date_start v \<le> evv_date_end v \<and>
           set (evv_participant_ids v) \<subseteq> pa_id ` set (participants db) \<and>
           (\<forall>x\<in>set (events db). ev_id x \<noteq> next_event_id db \<longrightarrow> ev_code x \<noteq> ?code)"
    by (auto simp: create_event_def event_dates_error_def code_unique_error_def
        participants_fk_error_def Let_def split: if_splits)
  then show ?thesis by blast
qed

lemma apply_event_write_fields [simp]:
  "ev_id (apply_event_write w e) = ev_id e"
  "ev_code (apply_event_write w e) = written (ew_code w) (ev_code e)"
  "ev_date_start (apply_event_write w e) = written (ew_date_start w) (ev_date_start e)"
  "ev_date_end (apply_event_write w e) = written (ew_date_end w) (ev_date_end e)"
  "ev_participant_ids (apply_event_write w e) =
     written (map_option remdups (ew_participant_ids w)) (ev_participant_ids e)"
  "ev_duration_days (apply_event_write w e) =
     (if event_dates_written w
      then event_duration_days (Some (written (ew_date_start w) (ev_date_start e)))
             (Some (written (ew_date_end w) (ev_date_end e)))
      else ev_duration_days e)"
  by (simp_all add: apply_event_write_def event_dates_written_def Let_def)

lemma write_event_Inr:
  assumes "write_event db i w = Inr db'"
  obtains e where "find_event db i = Some e"
    and "db' = db\<lparr>events := map (\<lambda>x. if ev_id x = i then apply_event_write w e else x) (events db)\<rparr>"
    and "ew_code w \<noteq> None \<Longrightarrow> code_unique_error db (apply_event_write w e) = None"
    and "ew_participant_ids w \<noteq> None \<Longrightarrow> participants_fk_error db (ev_participant_ids (apply_event_write w e)) = None"
    and "event_dates_written w \<Longrightarrow> event_dates_error (apply_event_write w e) = None"
  using assms by (auto simp: write_event_def event_dates_written_def Let_def split: option.splits if_splits)

lemma no_event_write_sel [simp]:
  "ew_name no_event_write = None" "ew_code no_event_write = None" "ew_type no_event_write = None"
  "ew_date_start no_event_write = None" "ew_date_end no_event_write = None"
  "ew_state no_event_write = None" "ew_notes no_event_write = None"
  "ew_participant_ids no_event_write = None" "ew_active no_event_write = None"
  by (simp_all add: no_event_write_def)

lemma apply_module_write_fields [simp]:
  "mo_id (apply_module_write w m) = mo_id m"
  "mo_event_id (apply_module_write w m) = written (mw_event_id w) (mo_event_id m)"
  by (simp_all add: apply_module_write_def)

lemma resync_sessions_fields [simp]:
  "map se_id (resync_sessions mid e ss) = map se_id ss"
  "map se_module_id (resync_sessions mid e ss) = map se_module_id ss"
  by (induction ss) (simp_all add: resync_sessions_def)

lemma set_resync_sessions:
  "x \<in> set (resync_sessions mid e ss) \<longleftrightarrow>
   (\<exists>s\<in>set ss. (se_module_id s = mid \<and> x = s\<lparr>se_event_id := e\<rparr>) \<or> (se_module_id s \<noteq> mid \<and> x = s))"
  by (auto simp: resync_sessions_def)

lemma resync_sessions_mem:
  assumes "s \<in> set (resync_sessions mid e ss)"
  obtains x where "x \<in> set ss" and "s = (if se_module_id x = mid then x\<lparr>se_event_id := e\<rparr> else x)"
  using assms unfolding resync_sessions_def set_map by blast

lemma resync_sessions_moved:
  "s \<in> set (resync_sessions mid e ss) \<Longrightarrow> se_module_id s = mid \<Longrightarrow> se_event_id s = e"
  by (erule resync_sessions_mem) (simp split: if_splits)

lemma resync_sessions_kept:
  "s \<in> set (resync_sessions mid e ss) \<Longrightarrow> se_module_id s \<noteq> mid \<Longrightarrow> s \<in> set ss"
  by (erule resync_sessions_mem) (simp split: if_splits)

lemma write_module_Inr:
  assumes "write_module db i w = Inr db'"
  obtains m where "find_module db i = Some m" and "mw_event_id w = None"
    and "db' = db\<lparr>modules := map (\<lambda>x. if mo_id x = i then apply_module_write w m else x) (modules db)\<rparr>"
  | m e where "find_module db i = Some m" and "mw_event_id w = Some e"
    and "find_event db e \<noteq> None"
    and "db' = db\<lparr>modules := map (\<lambda>x. if mo_id x = i then apply_module_write w m else x) (modules db),
                  sessions := resync_sessions i e (sessions db)\<rparr>"
    and "\<forall>s\<in>set (sessions db'). se_module_id s = i \<longrightarrow> check_overlap db' s = None"
  using assms by (auto simp: write_module_def Let_def split: option.splits)

text \<open>C10. Writing \<open>event_id\<close> on a module moves its sessions, archived ones
  too: every session of the module now carries the new event and passes
  the overlap check against the new event's sessions; no session is added,
  removed or reordered, and the other sessions are unchanged.\<close>

theorem write_module_moves_sessions:
  assumes "write_module db i w = Inr db'" and "mw_event_id w = Some e"
  shows "map se_id (sessions db') = map se_id (sessions db) \<and>
         (\<forall>s\<in>set (sessions db'). se_module_id s = i \<longrightarrow> se_event_id s = e \<and> check_overlap db' s = None) \<and>
         (\<forall>s\<in>set (sessions db'). se_module_id s \<noteq> i \<longrightarrow> s \<in> set (sessions db))"
  using assms(1)
proof (cases rule: write_module_Inr)
  case 1
  from 1(2) assms(2) show ?thesis by simp
next
  case (2 m e')
  from 2(2,4) assms(2) have S: "sessions db' = resync_sessions i e (sessions db)" by simp
  show ?thesis
    using 2(5) resync_sessions_moved [of _ i e "sessions db"] resync_sessions_kept [of _ i e "sessions db"]
    by (simp add: S)
qed

text \<open>C14. \<open>code\<close> is declared \<open>readonly=True\<close>, which the ORM's \<open>write\<close>
  does not enforce (only the client does): a write of a new code that no
  other event has commits and replaces the code.\<close>

theorem write_event_code:
  assumes "find_event db i = Some e"
    and "\<forall>x\<in>set (events db). ev_id x \<noteq> i \<longrightarrow> ev_code x \<noteq> c"
  shows "write_event db i (no_event_write\<lparr>ew_code := Some c\<rparr>) =
           Inr (db\<lparr>events := map (\<lambda>x. if ev_id x = i then e\<lparr>ev_code := c\<rparr> else x) (events db)\<rparr>)"
proof -
  have a: "apply_event_write (no_event_write\<lparr>ew_code := Some c\<rparr>) e = e\<lparr>ev_code := c\<rparr>"
    by (simp add: apply_event_write_def no_event_write_def)
  have "ev_id e = i" using find_event_mem [OF assms(1)] by simp
  then have "code_unique_error db (e\<lparr>ev_code := c\<rparr>) = None"
    using assms(2) by (auto simp: code_unique_error_def)
  then show ?thesis using assms(1) by (simp add: write_event_def a Let_def)
qed

text \<open>Every state has a colour in the calendar, and no two states share one.\<close>

lemma calendar_state_colors_total:
  "(\<exists>c. map_of calendar_state_colors s = Some c) \<and> distinct (map snd calendar_state_colors) \<and>
   distinct (map fst calendar_state_colors)"
  by (cases s) (simp_all add: calendar_state_colors_def)

text \<open>C23. The event's dates are checked when it is saved, not when its
  duration is computed: a create whose end is before its start is rejected,
  and every created event has its end on or after its start and
  \<open>duration_days\<close> the number of days from start to end, both
  included.\<close>

theorem create_event_dates:
  "(evv_date_end v < evv_date_start v \<longrightarrow> (\<exists>err. create_event db v = Inl err)) \<and>
   (create_event db v = Inr (db', i) \<longrightarrow>
      evv_date_start v \<le> evv_date_end v \<and> ev_id (last (events db')) = i \<and>
      ev_duration_days (last (events db')) = evv_date_end v - evv_date_start v + 1)"
proof (rule conjI; rule impI)
  assume lt: "evv_date_end v < evv_date_start v"
  show "\<exists>err. create_event db v = Inl err"
  proof -
    have "create_event db v \<noteq> Inr (db1, i1)" for db1 i1
      using lt by (auto dest: create_event_Inr)
    then show ?thesis by (cases "create_event db v") auto
  qed
next
  assume "create_event db v = Inr (db', i)"
  from create_event_Inr [OF this] obtain code seq' where
    db': "db' = db\<lparr>events := events db @ [new_event (next_event_id db) code v],
                    next_event_id := Suc (next_event_id db), code_seq := seq'\<rparr>"
    and i: "i = next_event_id db" and le: "evv_date_start v \<le> evv_date_end v" by blast
  show "evv_date_start v \<le> evv_date_end v \<and> ev_id (last (events db')) = i \<and>
      ev_duration_days (last (events db')) = evv_date_end v - evv_date_start v + 1"
    using le by (simp add: db' i)
qed

text \<open>C24. Neither model has a transition graph on its \<open>state\<close>: from any
  state, a write of \<open>state\<close> alone to any value commits on an event and on a
  session, and changes that field only.\<close>

theorem state_writes_unconstrained:
  "(find_event db i = Some e \<longrightarrow>
      write_event db i (no_event_write\<lparr>ew_state := Some st\<rparr>) =
        Inr (db\<lparr>events := map (\<lambda>x. if ev_id x = i then e\<lparr>ev_state := st\<rparr> else x) (events db)\<rparr>)) \<and>
   (find_session db j = Some s \<longrightarrow>
      write_session db j (no_session_write\<lparr>sw_state := Some ss\<rparr>) =
        Inr (replace_session db (s\<lparr>se_state := ss\<rparr>)))"
proof (intro conjI impI)
  assume "find_event db i = Some e"
  then show "write_event db i (no_event_write\<lparr>ew_state := Some st\<rparr>) =
      Inr (db\<lparr>events := map (\<lambda>x. if ev_id x = i then e\<lparr>ev_state := st\<rparr> else x) (events db)\<rparr>)"
    by (simp add: write_event_def apply_event_write_def)
next
  assume "find_session db j = Some s"
  then show "write_session db j (no_session_write\<lparr>sw_state := Some ss\<rparr>) =
      Inr (replace_session db (s\<lparr>se_state := ss\<rparr>))"
    by (simp add: write_session_def written_module_def session_constraints_def apply_session_write_def
        dates_written_def)
qed

end
