(* ===== verification/Clone.thy ===== *)
theory Clone
  imports Event
begin

text \<open>
  The clone workflow (src/addons/training_event/wizard/training_event_clone_wizard.py
  and \<open>TrainingEvent.action_clone_event\<close>): the transient wizard, its
  computed \<open>new_duration_days\<close>, its two constraints, and
  \<open>action_clone\<close>, which is \<open>event.copy(default)\<close>. Odoo's \<open>copy\<close> reads
  the fields whose \<open>copy\<close> attribute is true, overrides them with
  \<open>default\<close> and creates the new row: \<open>code\<close> is \<open>copy=False\<close> (so the
  sequence gives a new one), computed fields are recomputed, and
  \<open>module_ids\<close>, a one2many, is \<open>copy=False\<close> by default, so no module or
  session is copied.
\<close>

section \<open>Wizard\<close>

record clone_wizard =
  wz_event_id :: rec_id
  wz_new_name :: string
  wz_new_date_start :: date
  wz_new_date_end :: date

definition wizard_new_duration :: "clone_wizard \<Rightarrow> int" where
  "wizard_new_duration w = wizard_new_duration_days (Some (wz_new_date_start w)) (Some (wz_new_date_end w))"

definition wizard_dates_error :: "clone_wizard \<Rightarrow> error option" where
  "wizard_dates_error w =
     (if wz_new_date_end w < wz_new_date_start w then Some (Validation_error Clone_dates_invalid)
      else None)"

text \<open>\<open>_check_duration\<close>: skipped when \<open>new_duration_days\<close> is 0 (falsy).\<close>

definition wizard_duration_error :: "event \<Rightarrow> clone_wizard \<Rightarrow> error option" where
  "wizard_duration_error e w =
     (if wizard_new_duration w \<noteq> 0 \<and> wizard_new_duration w < ev_duration_days e
      then Some (Validation_error (Clone_duration_too_short (wizard_new_duration w) (ev_duration_days e)))
      else None)"

text \<open>Creating the wizard runs both constraints (\<open>_check_dates\<close> before
  \<open>_check_duration\<close>); its \<open>event_id\<close> is a required many2one.\<close>

definition create_wizard :: "db \<Rightarrow> clone_wizard \<Rightarrow> error + clone_wizard" where
  "create_wizard db w =
     (case find_event db (wz_event_id w) of
        None \<Rightarrow> Inl Foreign_key_error
      | Some e \<Rightarrow>
          (case first_error [wizard_dates_error w, wizard_duration_error e w] of
             Some err \<Rightarrow> Inl err
           | None \<Rightarrow> Inr w))"

text \<open>\<open>action_clone_event\<close>: the wizard's defaults from the context.\<close>

definition clone_wizard_defaults :: "event \<Rightarrow> clone_wizard" where
  "clone_wizard_defaults e =
     \<lparr>wz_event_id = ev_id e, wz_new_name = ev_name e @ '' (Copia)'',
      wz_new_date_start = ev_date_start e, wz_new_date_end = ev_date_end e\<rparr>"

section \<open>Copy\<close>

text \<open>The values \<open>copy\<close> passes to \<open>create\<close>: the copied fields
  (\<open>event_type\<close>, \<open>notes\<close>, \<open>active\<close>), the defaults of
  \<open>action_clone\<close> (\<open>name\<close>, dates, \<open>state = draft\<close>, and \<open>[(5, 0, 0)]\<close>
  for \<open>participant_ids\<close>, which clears the copied set), no \<open>code\<close>.\<close>

definition copy_vals :: "event \<Rightarrow> clone_wizard \<Rightarrow> event_vals" where
  "copy_vals e w =
     \<lparr>evv_name = wz_new_name w, evv_code = None, evv_type = ev_type e,
      evv_date_start = wz_new_date_start w, evv_date_end = wz_new_date_end w,
      evv_state = Some Draft, evv_notes = ev_notes e, evv_participant_ids = [],
      evv_active = Some (ev_active e)\<rparr>"

definition action_clone :: "db \<Rightarrow> clone_wizard \<Rightarrow> error + db \<times> rec_id" where
  "action_clone db w =
     (case find_event db (wz_event_id w) of
        None \<Rightarrow> Inl Missing_error
      | Some e \<Rightarrow> create_event db (copy_vals e w))"

text \<open>The whole workflow: the wizard is created (its constraints run), then
  its button runs \<open>action_clone\<close>.\<close>

definition clone_event :: "db \<Rightarrow> clone_wizard \<Rightarrow> error + db \<times> rec_id" where
  "clone_event db w =
     (case create_wizard db w of
        Inl err \<Rightarrow> Inl err
      | Inr w' \<Rightarrow> action_clone db w')"

section \<open>Lemmas\<close>

lemma create_wizard_Inr_iff:
  "create_wizard db w = Inr w' \<longleftrightarrow>
   (\<exists>e. find_event db (wz_event_id w) = Some e \<and> wz_new_date_start w \<le> wz_new_date_end w \<and>
        ev_duration_days e \<le> wz_new_date_end w - wz_new_date_start w + 1 \<and> w' = w)"
  by (auto simp: create_wizard_def wizard_dates_error_def wizard_duration_error_def
      wizard_new_duration_def split: option.splits)

theorem clone_event_ok:
  assumes "find_event db (wz_event_id w) = Some e"
    and "wz_new_date_start w \<le> wz_new_date_end w"
    and "ev_duration_days e \<le> wz_new_date_end w - wz_new_date_start w + 1"
    and "seq_code (code_seq db) \<notin> ev_code ` set (events db)"
  shows "clone_event db w =
           Inr (db\<lparr>events := events db @ [new_event (next_event_id db) (seq_code (code_seq db)) (copy_vals e w)],
                   next_event_id := Suc (next_event_id db), code_seq := Suc (code_seq db)\<rparr>,
                next_event_id db)"
proof -
  have "create_wizard db w = Inr w" using assms(1-3) by (simp add: create_wizard_Inr_iff)
  moreover have "create_event db (copy_vals e w) = Inr (db\<lparr>events := events db @ [new_event (next_event_id db) (seq_code (code_seq db)) (copy_vals e w)],
                   next_event_id := Suc (next_event_id db), code_seq := Suc (code_seq db)\<rparr>,
                next_event_id db)"
    using assms(2,4) by (intro create_event_default_code) (simp_all add: copy_vals_def)
  ultimately show ?thesis using assms(1) by (simp add: clone_event_def action_clone_def)
qed

text \<open>C12. The wizard refuses a new period shorter than the source event,
  naming both durations in days.\<close>

lemma clone_event_too_short:
  assumes "find_event db (wz_event_id w) = Some e"
    and "wz_new_date_start w \<le> wz_new_date_end w"
    and "wz_new_date_end w - wz_new_date_start w + 1 < ev_duration_days e"
  shows "clone_event db w =
           Inl (Validation_error (Clone_duration_too_short (wz_new_date_end w - wz_new_date_start w + 1)
                                   (ev_duration_days e)))"
  using assms by (simp add: clone_event_def create_wizard_def wizard_dates_error_def
      wizard_duration_error_def wizard_new_duration_def)

lemma clone_event_bad_dates:
  assumes "find_event db (wz_event_id w) = Some e" and "wz_new_date_end w < wz_new_date_start w"
  shows "clone_event db w = Inl (Validation_error Clone_dates_invalid)"
  using assms by (simp add: clone_event_def create_wizard_def wizard_dates_error_def)

lemma clone_event_Inr:
  assumes "clone_event db w = Inr (db', i)"
  obtains e where "find_event db (wz_event_id w) = Some e"
    and "create_event db (copy_vals e w) = Inr (db', i)"
    and "wz_new_date_start w \<le> wz_new_date_end w"
    and "ev_duration_days e \<le> wz_new_date_end w - wz_new_date_start w + 1"
proof -
  obtain w' where "create_wizard db w = Inr w'" and a: "action_clone db w' = Inr (db', i)"
    using assms by (auto simp: clone_event_def split: sum.splits)
  then obtain e where "find_event db (wz_event_id w) = Some e" "w' = w"
    "wz_new_date_start w \<le> wz_new_date_end w"
    "ev_duration_days e \<le> wz_new_date_end w - wz_new_date_start w + 1"
    by (auto simp: create_wizard_Inr_iff)
  with a show ?thesis using that by (simp add: action_clone_def)
qed

text \<open>C5. A committed clone appends one event: the new event has the
  wizard's name and dates, state draft, no participants, the source event's
  type, notes and archive flag, a code no existing event has, and a duration
  no shorter than the source's; the participants table is unchanged.\<close>

theorem clone_event_result:
  assumes "clone_event db w = Inr (db', i)"
    and "\<forall>x\<in>set (events db). ev_id x < next_event_id db"
  shows "\<exists>e ne. find_event db (wz_event_id w) = Some e \<and> events db' = events db @ [ne] \<and>
           ev_id ne = i \<and> ev_name ne = wz_new_name w \<and>
           ev_date_start ne = wz_new_date_start w \<and> ev_date_end ne = wz_new_date_end w \<and>
           ev_duration_days e \<le> ev_duration_days ne \<and>
           ev_state ne = Draft \<and> ev_participant_ids ne = [] \<and>
           ev_type ne = ev_type e \<and> ev_notes ne = ev_notes e \<and> ev_active ne = ev_active e \<and>
           ev_code ne \<notin> ev_code ` set (events db) \<and> participants db' = participants db"
proof -
  obtain e where e: "find_event db (wz_event_id w) = Some e"
    and c: "create_event db (copy_vals e w) = Inr (db', i)"
    and d: "wz_new_date_start w \<le> wz_new_date_end w"
    and l: "ev_duration_days e \<le> wz_new_date_end w - wz_new_date_start w + 1"
    using assms(1) by (rule clone_event_Inr)
  from create_event_Inr [OF c] obtain code seq' where
    db': "db' = db\<lparr>events := events db @ [new_event (next_event_id db) code (copy_vals e w)],
                       next_event_id := Suc (next_event_id db), code_seq := seq'\<rparr>"
    and i: "i = next_event_id db"
    and fresh: "\<forall>x\<in>set (events db). ev_id x \<noteq> next_event_id db \<longrightarrow> ev_code x \<noteq> code"
    by blast
  have "\<forall>x\<in>set (events db). ev_code x \<noteq> code" using fresh assms(2) by fastforce
  then show ?thesis
    using e d l by (auto simp: db' i copy_vals_def)
qed

text \<open>No module is copied (\<open>module_ids\<close> is a One2many without
  \<open>copy=True\<close>, which \<open>copy()\<close> skips): after a committed clone the new
  event has no module and no session, whatever the source event had. The
  addon's \<open>test_clone_event_success\<close> expects the opposite.\<close>

lemma clone_event_no_modules:
  assumes "clone_event db w = Inr (db', i)"
    and "\<forall>m\<in>set (modules db). mo_event_id m \<noteq> next_event_id db"
  shows "module_ids db' i = [] \<and> event_session_count db' i = 0"
proof -
  obtain e where "create_event db (copy_vals e w) = Inr (db', i)"
    using assms(1) by (rule clone_event_Inr)
  from create_event_Inr [OF this] have "modules db' = modules db" and "i = next_event_id db"
    by auto
  with assms(2) have "module_ids db' i = []"
    by (auto simp: module_ids_def filter_empty_iff)
  then show ?thesis by (simp add: event_session_count_def event_sessions_def mapped_union_def)
qed

text \<open>C15. The wizard opened by \<open>action_clone_event\<close> on a well-formed
  event passes its own constraints unchanged: its defaults (same dates,
  name with the suffix \<open> (Copia)\<close>) are a valid clone request.\<close>

lemma clone_wizard_defaults_ok:
  assumes "find_event db (ev_id e) = Some e" and "ev_date_start e \<le> ev_date_end e"
    and "ev_duration_days e = event_duration_days (Some (ev_date_start e)) (Some (ev_date_end e))"
  shows "create_wizard db (clone_wizard_defaults e) = Inr (clone_wizard_defaults e)"
  using assms by (simp add: create_wizard_Inr_iff clone_wizard_defaults_def)

end
