(* ===== verification/Participant.thy ===== *)
theory Participant
  imports Records
begin

text \<open>
  The participant model (src/addons/training_event/models/training_participant.py):
  the SQL constraint \<open>unique(partner_id, role)\<close> and the constraint
  \<open>_check_trainer_user\<close> (a trainer has a user, a student has none), on
  create and write; unlink removes the row and, as a many2many relation table
  cascades, the participant from every event's \<open>participant_ids\<close>. The
  stored related \<open>name\<close> is the contact's name at the time of the write.
\<close>

section \<open>Constraints\<close>

definition check_trainer_user :: "participant \<Rightarrow> error option" where
  "check_trainer_user p =
     (if pa_role p = Trainer \<and> pa_user_id p = None then Some (Validation_error Trainer_without_user)
      else if pa_role p = Student \<and> pa_user_id p \<noteq> None then Some (Validation_error Student_with_user)
      else None)"

definition partner_role_unique_error :: "db \<Rightarrow> participant \<Rightarrow> error option" where
  "partner_role_unique_error db p =
     (if \<exists>x\<in>set (participants db). pa_id x \<noteq> pa_id p \<and> pa_partner_id x = pa_partner_id p \<and> pa_role x = pa_role p
      then Some (Integrity_error ''training_participant_partner_role_unique'') else None)"

section \<open>Create, write, unlink\<close>

record participant_vals =
  pv_partner_id :: partner_id
  pv_partner_name :: string
  pv_role :: role
  pv_user_id :: "user_id option"
  pv_notes :: "string option"
  pv_active :: "bool option"

definition new_participant :: "rec_id \<Rightarrow> participant_vals \<Rightarrow> participant" where
  "new_participant i v =
     \<lparr>pa_id = i, pa_partner_id = pv_partner_id v, pa_name = pv_partner_name v, pa_role = pv_role v,
      pa_user_id = pv_user_id v, pa_notes = pv_notes v, pa_active = written (pv_active v) True\<rparr>"

definition create_participant :: "db \<Rightarrow> participant_vals \<Rightarrow> error + db \<times> rec_id" where
  "create_participant db v =
     (let p = new_participant (next_participant_id db) v
      in case first_error [partner_role_unique_error db p, check_trainer_user p] of
           Some err \<Rightarrow> Inl err
         | None \<Rightarrow> Inr (db\<lparr>participants := participants db @ [p],
                          next_participant_id := Suc (next_participant_id db)\<rparr>, pa_id p))"

record participant_write =
  pw_partner :: "(partner_id \<times> string) option"
  pw_role :: "role option"
  pw_user_id :: "user_id option option"
  pw_notes :: "string option option"
  pw_active :: "bool option"

definition apply_participant_write :: "participant_write \<Rightarrow> participant \<Rightarrow> participant" where
  "apply_participant_write w p =
     p\<lparr>pa_partner_id := written (map_option fst (pw_partner w)) (pa_partner_id p),
       pa_name := written (map_option snd (pw_partner w)) (pa_name p),
       pa_role := written (pw_role w) (pa_role p),
       pa_user_id := written (pw_user_id w) (pa_user_id p),
       pa_notes := written (pw_notes w) (pa_notes p),
       pa_active := written (pw_active w) (pa_active p)\<rparr>"

text \<open>The row update hits the unique index when \<open>partner_id\<close> or \<open>role\<close>
  changes; \<open>_check_trainer_user\<close> runs when \<open>role\<close> or \<open>user_id\<close> is
  written.\<close>

definition write_participant :: "db \<Rightarrow> rec_id \<Rightarrow> participant_write \<Rightarrow> error + db" where
  "write_participant db i w =
     (case find_participant db i of
        None \<Rightarrow> Inl Missing_error
      | Some p \<Rightarrow>
          (let p' = apply_participant_write w p
           in case first_error [if pw_partner w \<noteq> None \<or> pw_role w \<noteq> None
                                then partner_role_unique_error db p' else None,
                                if pw_role w \<noteq> None \<or> pw_user_id w \<noteq> None
                                then check_trainer_user p' else None] of
                Some err \<Rightarrow> Inl err
              | None \<Rightarrow> Inr (db\<lparr>participants := map (\<lambda>x. if pa_id x = i then p' else x) (participants db)\<rparr>)))"

definition unlink_participant :: "db \<Rightarrow> rec_id \<Rightarrow> error + db" where
  "unlink_participant db i =
     (case find_participant db i of
        None \<Rightarrow> Inl Missing_error
      | Some _ \<Rightarrow> Inr (db\<lparr>participants := filter (\<lambda>p. pa_id p \<noteq> i) (participants db),
                         events := map (\<lambda>e. e\<lparr>ev_participant_ids := filter (\<lambda>x. x \<noteq> i) (ev_participant_ids e)\<rparr>)
                                       (events db)\<rparr>))"

section \<open>Lemmas\<close>

lemma check_trainer_user_None_iff:
  "check_trainer_user p = None \<longleftrightarrow> (pa_role p = Trainer \<longleftrightarrow> pa_user_id p \<noteq> None)"
  by (cases "pa_role p") (auto simp: check_trainer_user_def)

lemma new_participant_fields [simp]:
  "pa_id (new_participant i v) = i" "pa_partner_id (new_participant i v) = pv_partner_id v"
  "pa_role (new_participant i v) = pv_role v" "pa_user_id (new_participant i v) = pv_user_id v"
  by (simp_all add: new_participant_def)

lemma create_participant_Inr_iff:
  "create_participant db v = Inr (db', i) \<longleftrightarrow>
   partner_role_unique_error db (new_participant (next_participant_id db) v) = None \<and>
   check_trainer_user (new_participant (next_participant_id db) v) = None \<and>
   i = next_participant_id db \<and>
   db' = db\<lparr>participants := participants db @ [new_participant (next_participant_id db) v],
            next_participant_id := Suc (next_participant_id db)\<rparr>"
  by (auto simp: create_participant_def Let_def)

text \<open>C9. A participant is created exactly when no other row has the same contact
  and role and its role agrees with its user: a trainer has a user, a student
  has none.\<close>

theorem create_participant_ok:
  "create_participant db v = Inr (db', i) \<longleftrightarrow>
   (\<forall>x\<in>set (participants db). pa_id x \<noteq> next_participant_id db \<longrightarrow>
       pa_partner_id x \<noteq> pv_partner_id v \<or> pa_role x \<noteq> pv_role v) \<and>
   (pv_role v = Trainer \<longleftrightarrow> pv_user_id v \<noteq> None) \<and>
   i = next_participant_id db \<and>
   db' = db\<lparr>participants := participants db @ [new_participant (next_participant_id db) v],
            next_participant_id := Suc (next_participant_id db)\<rparr>"
  by (auto simp: create_participant_def partner_role_unique_error_def check_trainer_user_None_iff
      new_participant_def Let_def)

theorem create_participant_ok_witness:
  "create_participant empty_db
      \<lparr>pv_partner_id = 7, pv_partner_name = ''Docente'', pv_role = Trainer, pv_user_id = Some 3,
       pv_notes = None, pv_active = None\<rparr> =
     Inr (empty_db\<lparr>participants := [new_participant 1
             \<lparr>pv_partner_id = 7, pv_partner_name = ''Docente'', pv_role = Trainer, pv_user_id = Some 3,
              pv_notes = None, pv_active = None\<rparr>], next_participant_id := 2\<rparr>, 1) \<and>
   (\<forall>db' i. create_participant empty_db
      \<lparr>pv_partner_id = 7, pv_partner_name = ''Allievo'', pv_role = Student, pv_user_id = Some 3,
       pv_notes = None, pv_active = None\<rparr> \<noteq> Inr (db', i))"
  using create_participant_ok by (simp add: empty_db_def)

end
