(* ===== verification/Invariant.thy ===== *)
theory Invariant
  imports Clone Participant
begin

text \<open>
  The database invariant the addon's writes maintain, split by concern
  (\<open>wf_ids\<close>, \<open>wf_refs\<close>, \<open>wf_stored\<close>, \<open>wf_checked\<close>), and the
  scheduling invariant \<open>no_overlap\<close>, with one preservation lemma per
  operation.
\<close>

section \<open>Invariants\<close>

text \<open>Ids: the rows of a table have distinct ids, all below the table's
  sequence.\<close>

definition wf_ids :: "db \<Rightarrow> bool" where
  "wf_ids db \<longleftrightarrow>
     distinct (map ev_id (events db)) \<and> (\<forall>e\<in>set (events db). ev_id e < next_event_id db) \<and>
     distinct (map mo_id (modules db)) \<and> (\<forall>m\<in>set (modules db). mo_id m < next_module_id db) \<and>
     distinct (map se_id (sessions db)) \<and> (\<forall>s\<in>set (sessions db). se_id s < next_session_id db) \<and>
     distinct (map pa_id (participants db)) \<and>
     (\<forall>p\<in>set (participants db). pa_id p < next_participant_id db)"

text \<open>Referential integrity of the foreign keys.\<close>

definition wf_refs :: "db \<Rightarrow> bool" where
  "wf_refs db \<longleftrightarrow>
     (\<forall>m\<in>set (modules db). mo_event_id m \<in> ev_id ` set (events db)) \<and>
     (\<forall>s\<in>set (sessions db). se_module_id s \<in> mo_id ` set (modules db)) \<and>
     (\<forall>e\<in>set (events db). set (ev_participant_ids e) \<subseteq> pa_id ` set (participants db))"

text \<open>Stored computed and related fields agree with what they are computed
  from: \<open>duration_days\<close>, \<open>duration_hours\<close>, and the denormalised
  \<open>session.event_id = session.module_id.event_id\<close>.\<close>

definition wf_stored :: "db \<Rightarrow> bool" where
  "wf_stored db \<longleftrightarrow>
     (\<forall>e\<in>set (events db).
        ev_duration_days e = event_duration_days (Some (ev_date_start e)) (Some (ev_date_end e))) \<and>
     (\<forall>s\<in>set (sessions db).
        se_duration_hours s = session_duration_hours (Some (se_date_start s)) (Some (se_date_end s))) \<and>
     (\<forall>s\<in>set (sessions db). \<forall>m\<in>set (modules db).
        mo_id m = se_module_id s \<longrightarrow> se_event_id s = mo_event_id m)"

text \<open>What the constraints check: event and session dates, unique codes,
  unique (contact, role) pairs, trainers with a user and students without.\<close>

definition wf_checked :: "db \<Rightarrow> bool" where
  "wf_checked db \<longleftrightarrow>
     (\<forall>e\<in>set (events db). ev_date_start e \<le> ev_date_end e) \<and>
     (\<forall>s\<in>set (sessions db). se_date_start s < se_date_end s) \<and>
     (\<forall>x\<in>set (events db). \<forall>y\<in>set (events db). ev_id x \<noteq> ev_id y \<longrightarrow> ev_code x \<noteq> ev_code y) \<and>
     (\<forall>p\<in>set (participants db). check_trainer_user p = None) \<and>
     (\<forall>p\<in>set (participants db). \<forall>q\<in>set (participants db). pa_id p \<noteq> pa_id q \<longrightarrow>
        pa_partner_id p \<noteq> pa_partner_id q \<or> pa_role p \<noteq> pa_role q)"

definition wf_db :: "db \<Rightarrow> bool" where
  "wf_db db \<longleftrightarrow> wf_ids db \<and> wf_refs db \<and> wf_stored db \<and> wf_checked db"

text \<open>No two active sessions of the same event overlap.\<close>

definition no_overlap :: "db \<Rightarrow> bool" where
  "no_overlap db \<longleftrightarrow>
     (\<forall>s\<in>set (sessions db). \<forall>c\<in>set (sessions db). se_active s \<longrightarrow> se_active c \<longrightarrow> \<not> overlap_domain s c)"

text \<open>A write of \<open>active = True\<close> alone (unarchiving): the only write after
  which the ORM does not run \<open>_check_overlap\<close> although the row may
  re-enter its search domain.\<close>

definition bare_unarchive :: "session_write \<Rightarrow> bool" where
  "bare_unarchive w \<longleftrightarrow> sw_active w = Some True \<and> \<not> dates_written w \<and> sw_module_id w = None"

section \<open>Lemmas\<close>

lemma wf_empty_db: "wf_db empty_db"
  by (simp add: wf_db_def wf_ids_def wf_refs_def wf_stored_def wf_checked_def empty_db_def)

lemma no_overlap_empty_db: "no_overlap empty_db"
  by (simp add: no_overlap_def empty_db_def)

subsection \<open>Sessions\<close>

lemma wf_db_add_session:
  assumes "wf_db db" and "se_id r = next_session_id db"
    and "se_module_id r \<in> mo_id ` set (modules db)"
    and "\<forall>m\<in>set (modules db). mo_id m = se_module_id r \<longrightarrow> se_event_id r = mo_event_id m"
    and "se_duration_hours r = session_duration_hours (Some (se_date_start r)) (Some (se_date_end r))"
    and "se_date_start r < se_date_end r"
  shows "wf_db (db\<lparr>sessions := sessions db @ [r], next_session_id := Suc (next_session_id db)\<rparr>)"
    (is "wf_db ?db'")
proof -
  have "wf_ids ?db'"
  proof -
    have "\<forall>s\<in>set (sessions db). se_id s < next_session_id db"
      using assms(1) by (simp add: wf_db_def wf_ids_def)
    then show ?thesis using assms(1,2) by (auto simp: wf_db_def wf_ids_def)
  qed
  moreover have "wf_refs ?db'"
    using assms(1,3) by (simp add: wf_db_def wf_refs_def)
  moreover have "wf_stored ?db'"
    using assms(1,4,5) by (simp add: wf_db_def wf_stored_def)
  moreover have "wf_checked ?db'"
    using assms(1,6) by (simp add: wf_db_def wf_checked_def)
  ultimately show ?thesis by (simp add: wf_db_def)
qed

lemma create_session_wf:
  assumes "wf_db db" and "create_session db v = Inr (db', i)"
  shows "wf_db db'"
proof -
  obtain m where m: "find_module db (sv_module_id v) = Some m"
    and d: "sv_date_start v < sv_date_end v"
    and db': "db' = db\<lparr>sessions := sessions db @ [new_session (next_session_id db) m v],
                 next_session_id := Suc (next_session_id db)\<rparr>"
    using assms(2) by (rule create_session_Inr) blast
  have mem: "m \<in> set (modules db)" using m unfolding find_module_def by (blast dest: find_Some_mem)
  have dm: "distinct (map mo_id (modules db))" using assms(1) by (simp add: wf_db_def wf_ids_def)
  have "\<forall>m'\<in>set (modules db). mo_id m' = mo_id m \<longrightarrow> mo_event_id m = mo_event_id m'"
    using distinct_map_eq [OF dm _ mem] by metis
  then show ?thesis unfolding db'
    by (intro wf_db_add_session [OF assms(1)]) (simp_all add: d rev_image_eqI [OF mem])
qed

lemma no_overlap_add_session:
  assumes "no_overlap db"
    and "\<forall>c\<in>set (sessions db). se_active r \<longrightarrow> se_active c \<longrightarrow> \<not> overlap_domain r c"
  shows "no_overlap (db\<lparr>sessions := sessions db @ [r], next_session_id := n\<rparr>)"
  unfolding no_overlap_def
proof (intro ballI impI)
  fix s c
  assume s: "s \<in> set (sessions (db\<lparr>sessions := sessions db @ [r], next_session_id := n\<rparr>))"
    and c: "c \<in> set (sessions (db\<lparr>sessions := sessions db @ [r], next_session_id := n\<rparr>))"
    and a: "se_active s" "se_active c"
  consider "s \<in> set (sessions db)" "c \<in> set (sessions db)" | "s = r" "c \<in> set (sessions db)"
    | "s \<in> set (sessions db)" "c = r" | "s = r" "c = r"
    using s c by auto
  then show "\<not> overlap_domain s c"
  proof cases
    case 1
    with assms(1) a show ?thesis by (simp add: no_overlap_def)
  next
    case 2
    with assms(2) a show ?thesis by simp
  next
    case 3
    with assms(2) a show ?thesis by (simp add: overlap_domain_sym [of s])
  next
    case 4
    then show ?thesis by (simp add: overlap_domain_def)
  qed
qed

lemma create_session_no_overlap:
  assumes "wf_db db" and "no_overlap db" and "create_session db v = Inr (db', i)"
  shows "no_overlap db'"
proof -
  obtain m where free: "\<forall>c\<in>set (sessions db). se_active c \<and> se_id c \<noteq> next_session_id db \<and>
            se_event_id c = mo_event_id m \<longrightarrow>
            \<not> (se_date_start c < sv_date_end v \<and> sv_date_start v < se_date_end c)"
    and db': "db' = db\<lparr>sessions := sessions db @ [new_session (next_session_id db) m v],
                 next_session_id := Suc (next_session_id db)\<rparr>"
    using assms(3) by (rule create_session_Inr) blast
  have ids: "\<forall>c\<in>set (sessions db). se_id c \<noteq> next_session_id db"
    using assms(1) by (fastforce simp: wf_db_def wf_ids_def)
  have "\<forall>c\<in>set (sessions db). se_active (new_session (next_session_id db) m v) \<longrightarrow> se_active c \<longrightarrow>
          \<not> overlap_domain (new_session (next_session_id db) m v) c"
    using free ids by (auto simp: overlap_domain_def)
  then show ?thesis unfolding db' using assms(2) by (rule no_overlap_add_session [rotated])
qed

lemma wf_db_replace_session:
  assumes wf: "wf_db db" and s: "s \<in> set (sessions db)" and id: "se_id s' = se_id s"
    and ref: "se_module_id s' \<in> mo_id ` set (modules db)"
    and sync: "\<forall>m\<in>set (modules db). mo_id m = se_module_id s' \<longrightarrow> se_event_id s' = mo_event_id m"
    and dur: "se_duration_hours s' = session_duration_hours (Some (se_date_start s')) (Some (se_date_end s'))"
    and dates: "se_date_start s' < se_date_end s'"
  shows "wf_db (replace_session db s')"
proof -
  let ?ss = "map (\<lambda>x. if se_id x = se_id s' then s' else x) (sessions db)"
  have db': "replace_session db s' = db\<lparr>sessions := ?ss\<rparr>" by (simp add: replace_session_def)
  have "wf_ids (db\<lparr>sessions := ?ss\<rparr>)"
  proof -
    have "se_id s' < next_session_id db" using wf s id by (simp add: wf_db_def wf_ids_def)
    then have "\<forall>x\<in>set ?ss. se_id x < next_session_id db"
      using wf by (intro ball_replace) (simp_all add: wf_db_def wf_ids_def)
    moreover have "map se_id ?ss = map se_id (sessions db)"
      by (rule map_replace_keys) (rule refl)
    ultimately show ?thesis using wf unfolding wf_db_def wf_ids_def by (simp del: map_map)
  qed
  moreover have "wf_refs (db\<lparr>sessions := ?ss\<rparr>)"
  proof -
    have "\<forall>x\<in>set ?ss. se_module_id x \<in> mo_id ` set (modules db)"
      using wf ref by (intro ball_replace) (simp_all add: wf_db_def wf_refs_def)
    then show ?thesis using wf by (simp add: wf_db_def wf_refs_def)
  qed
  moreover have "wf_stored (db\<lparr>sessions := ?ss\<rparr>)"
  proof -
    have "\<forall>x\<in>set ?ss. se_duration_hours x = session_duration_hours (Some (se_date_start x)) (Some (se_date_end x))"
      using wf dur by (intro ball_replace) (simp_all add: wf_db_def wf_stored_def)
    moreover have "\<forall>x\<in>set ?ss. \<forall>m\<in>set (modules db). mo_id m = se_module_id x \<longrightarrow> se_event_id x = mo_event_id m"
      using wf sync by (intro ball_replace) (simp_all add: wf_db_def wf_stored_def)
    ultimately show ?thesis using wf by (simp add: wf_db_def wf_stored_def)
  qed
  moreover have "wf_checked (db\<lparr>sessions := ?ss\<rparr>)"
  proof -
    have "\<forall>x\<in>set ?ss. se_date_start x < se_date_end x"
      using wf dates by (intro ball_replace) (simp_all add: wf_db_def wf_checked_def)
    then show ?thesis using wf by (simp add: wf_db_def wf_checked_def)
  qed
  ultimately show ?thesis unfolding db' by (simp add: wf_db_def)
qed

lemma write_session_wf:
  assumes wf: "wf_db db" and w: "write_session db i w = Inr db'"
  shows "wf_db db'"
proof -
  obtain s mo where f: "find_session db i = Some s" and wm: "written_module db w = Inr mo"
    and db': "db' = replace_session db (apply_session_write mo w s)"
    and ok: "session_constraints db' (dates_written w) (dates_written w \<or> sw_module_id w \<noteq> None)
           (apply_session_write mo w s) = None"
    using w by (rule write_session_Inr)
  let ?s' = "apply_session_write mo w s"
  have s: "s \<in> set (sessions db)" using f by (auto simp: find_session_def dest: find_Some_mem)
  have dm: "distinct (map mo_id (modules db))" using wf by (simp add: wf_db_def wf_ids_def)
  have refsync: "se_module_id ?s' \<in> mo_id ` set (modules db) \<and>
      (\<forall>m\<in>set (modules db). mo_id m = se_module_id ?s' \<longrightarrow> se_event_id ?s' = mo_event_id m)"
    using written_module_cases [OF wm]
  proof
    assume "sw_module_id w = None \<and> mo = None"
    then show ?thesis using wf s by (auto simp: wf_db_def wf_refs_def wf_stored_def)
  next
    assume "\<exists>m. sw_module_id w = Some (mo_id m) \<and> mo = Some m \<and> m \<in> set (modules db)"
    then obtain m where "sw_module_id w = Some (mo_id m)" "mo = Some m" "m \<in> set (modules db)"
      by blast
    then show ?thesis using distinct_map_eq [OF dm] by auto
  qed
  have durdates: "se_duration_hours ?s' = session_duration_hours (Some (se_date_start ?s')) (Some (se_date_end ?s')) \<and>
      se_date_start ?s' < se_date_end ?s'"
  proof (cases "dates_written w")
    case True
    then have "session_dates_error ?s' = None" using ok by (simp add: session_constraints_def)
    with True show ?thesis by (simp add: session_dates_error_def split: if_splits)
  next
    case False
    then have "sw_date_start w = None" "sw_date_end w = None" by (auto simp: dates_written_def)
    with False wf s show ?thesis by (simp add: wf_db_def wf_stored_def wf_checked_def)
  qed
  show ?thesis unfolding db'
    using wf s refsync durdates by (intro wf_db_replace_session) simp_all
qed

lemma overlap_domain_same_slot:
  "se_id a = se_id b \<Longrightarrow> se_event_id a = se_event_id b \<Longrightarrow> se_date_start a = se_date_start b \<Longrightarrow>
   se_date_end a = se_date_end b \<Longrightarrow> overlap_domain a c = overlap_domain b c"
  by (simp add: overlap_domain_def)

lemma no_overlap_replace_session:
  assumes "no_overlap db"
    and "\<forall>c\<in>set (sessions (replace_session db s')). se_active s' \<longrightarrow> se_active c \<longrightarrow> \<not> overlap_domain s' c"
  shows "no_overlap (replace_session db s')"
  unfolding no_overlap_def
proof (intro ballI impI)
  fix x y
  assume x: "x \<in> set (sessions (replace_session db s'))" and y: "y \<in> set (sessions (replace_session db s'))"
    and a: "se_active x" "se_active y"
  have cx: "x = s' \<or> x \<in> set (sessions db)" and cy: "y = s' \<or> y \<in> set (sessions db)"
    using x y by (auto simp: replace_session_def dest: set_replace_cases)
  show "\<not> overlap_domain x y"
  proof (cases "x = s'")
    case True
    with assms(2) y a show ?thesis by simp
  next
    case False
    show ?thesis
    proof (cases "y = s'")
      case True
      with assms(2) x a show ?thesis by (simp add: overlap_domain_sym [of x])
    next
      case False
      with \<open>x \<noteq> s'\<close> cx cy assms(1) a show ?thesis by (simp add: no_overlap_def)
    qed
  qed
qed

text \<open>The write that can break the schedule: one that sets \<open>active\<close> to
  true and writes neither a date nor the module, so that no constraint runs.\<close>

lemma write_session_no_overlap:
  assumes wf: "wf_db db" and no: "no_overlap db" and w: "write_session db i w = Inr db'"
    and nu: "\<not> bare_unarchive w"
  shows "no_overlap db'"
proof -
  obtain s mo where f: "find_session db i = Some s" and wm: "written_module db w = Inr mo"
    and db': "db' = replace_session db (apply_session_write mo w s)"
    and ok: "session_constraints db' (dates_written w) (dates_written w \<or> sw_module_id w \<noteq> None)
           (apply_session_write mo w s) = None"
    using w by (rule write_session_Inr)
  let ?s' = "apply_session_write mo w s"
  have s: "s \<in> set (sessions db)" and si: "se_id s = i"
    using f by (auto simp: find_session_def dest: find_Some_mem)
  have "\<forall>c\<in>set (sessions db'). se_active ?s' \<longrightarrow> se_active c \<longrightarrow> \<not> overlap_domain ?s' c"
  proof (cases "dates_written w \<or> sw_module_id w \<noteq> None")
    case True
    then have "check_overlap db' ?s' = None"
      using ok by (auto simp: session_constraints_def split: if_splits)
    then show ?thesis by (simp add: check_overlap_None_iff)
  next
    case False
    then have nd: "sw_date_start w = None" "sw_date_end w = None" "sw_module_id w = None"
      by (auto simp: dates_written_def)
    then have "mo = None" using written_module_cases [OF wm] by auto
    with nd have same: "\<And>c. overlap_domain ?s' c = overlap_domain s c"
      by (intro overlap_domain_same_slot) simp_all
    have act: "se_active ?s' \<longrightarrow> se_active s"
      using nu False by (cases "sw_active w") (auto simp: bare_unarchive_def)
    show ?thesis
    proof (intro ballI impI)
      fix c assume c: "c \<in> set (sessions db')" and a: "se_active ?s'" "se_active c"
      have "c = ?s' \<or> c \<in> set (sessions db)"
        using c unfolding db' by (auto simp: replace_session_def dest: set_replace_cases)
      then show "\<not> overlap_domain ?s' c"
      proof
        assume "c = ?s'"
        then show ?thesis by (simp add: overlap_domain_def)
      next
        assume "c \<in> set (sessions db)"
        with no s act a same show ?thesis by (simp add: no_overlap_def)
      qed
    qed
  qed
  then show ?thesis unfolding db' using no by (intro no_overlap_replace_session) (simp_all add: db')
qed

subsection \<open>Deletions\<close>

lemma wf_db_filter:
  assumes wf: "wf_db db"
    and refs: "wf_refs (db\<lparr>events := filter Pe (events db), modules := filter Pm (modules db),
                             sessions := filter Ps (sessions db)\<rparr>)"
  shows "wf_db (db\<lparr>events := filter Pe (events db), modules := filter Pm (modules db),
                    sessions := filter Ps (sessions db)\<rparr>)"
proof -
  have "wf_ids (db\<lparr>events := filter Pe (events db), modules := filter Pm (modules db),
                    sessions := filter Ps (sessions db)\<rparr>)"
    using wf by (auto simp: wf_db_def wf_ids_def)
  moreover have "wf_stored (db\<lparr>events := filter Pe (events db), modules := filter Pm (modules db),
                    sessions := filter Ps (sessions db)\<rparr>)"
    using wf by (simp add: wf_db_def wf_stored_def)
  moreover have "wf_checked (db\<lparr>events := filter Pe (events db), modules := filter Pm (modules db),
                    sessions := filter Ps (sessions db)\<rparr>)"
    using wf by (simp add: wf_db_def wf_checked_def)
  ultimately show ?thesis using refs by (simp add: wf_db_def)
qed

lemma no_overlap_filter: "no_overlap db \<Longrightarrow> no_overlap (db\<lparr>sessions := filter P (sessions db)\<rparr>)"
  by (simp add: no_overlap_def)

lemma unlink_session_wf:
  assumes wf: "wf_db db" and u: "unlink_session db i = Inr db'"
  shows "wf_db db'"
proof -
  have db': "db' = db\<lparr>events := filter (\<lambda>_. True) (events db), modules := filter (\<lambda>_. True) (modules db),
                        sessions := filter (\<lambda>x. se_id x \<noteq> i) (sessions db)\<rparr>"
    using u by (simp add: unlink_session_def split: option.splits)
  have "wf_refs db'" using wf unfolding db' by (auto simp: wf_db_def wf_refs_def)
  then show ?thesis unfolding db' using wf by (intro wf_db_filter)
qed

lemma unlink_module_wf:
  assumes wf: "wf_db db" and u: "unlink_module db i = Inr db'"
  shows "wf_db db'"
proof -
  have db': "db' = db\<lparr>events := filter (\<lambda>_. True) (events db), modules := filter (\<lambda>m. mo_id m \<noteq> i) (modules db),
                        sessions := filter (\<lambda>s. se_module_id s \<noteq> i) (sessions db)\<rparr>"
    using u by (simp add: unlink_module_def split: option.splits)
  have "wf_refs db'"
  proof -
    have "\<forall>s\<in>set (sessions db). se_module_id s \<in> mo_id ` set (modules db)"
      using wf by (simp add: wf_db_def wf_refs_def)
    then have "\<forall>s\<in>set (filter (\<lambda>s. se_module_id s \<noteq> i) (sessions db)).
                 se_module_id s \<in> mo_id ` set (filter (\<lambda>m. mo_id m \<noteq> i) (modules db))"
      by fastforce
    then show ?thesis using wf unfolding db' by (auto simp: wf_db_def wf_refs_def)
  qed
  then show ?thesis unfolding db' using wf by (intro wf_db_filter)
qed

lemma unlink_event_wf:
  assumes wf: "wf_db db" and u: "unlink_event db i = Inr db'"
  shows "wf_db db'"
proof -
  let ?gone = "mo_id ` set (filter (\<lambda>m. mo_event_id m = i) (modules db))"
  have db': "db' = db\<lparr>events := filter (\<lambda>e. ev_id e \<noteq> i) (events db),
                        modules := filter (\<lambda>m. mo_event_id m \<noteq> i) (modules db),
                        sessions := filter (\<lambda>s. se_module_id s \<notin> ?gone) (sessions db)\<rparr>"
    using u by (simp add: unlink_event_def Let_def split: option.splits)
  have "wf_refs db'"
  proof -
    have me: "\<forall>m\<in>set (modules db). mo_event_id m \<in> ev_id ` set (events db)"
      and sm: "\<forall>s\<in>set (sessions db). se_module_id s \<in> mo_id ` set (modules db)"
      and pe: "\<forall>e\<in>set (events db). set (ev_participant_ids e) \<subseteq> pa_id ` set (participants db)"
      using wf by (simp_all add: wf_db_def wf_refs_def)
    have "\<forall>m\<in>set (filter (\<lambda>m. mo_event_id m \<noteq> i) (modules db)).
            mo_event_id m \<in> ev_id ` set (filter (\<lambda>e. ev_id e \<noteq> i) (events db))"
      using me by fastforce
    moreover have "\<forall>s\<in>set (filter (\<lambda>s. se_module_id s \<notin> ?gone) (sessions db)).
            se_module_id s \<in> mo_id ` set (filter (\<lambda>m. mo_event_id m \<noteq> i) (modules db))"
      using sm by fastforce
    ultimately show ?thesis using pe unfolding db' by (simp add: wf_refs_def)
  qed
  then show ?thesis unfolding db' using wf by (intro wf_db_filter)
qed

subsection \<open>Events\<close>

lemma no_overlap_sessions_eq: "sessions db' = sessions db \<Longrightarrow> no_overlap db' = no_overlap db"
  by (simp add: no_overlap_def)

lemma create_event_wf:
  assumes wf: "wf_db db" and c: "create_event db v = Inr (db', i)"
  shows "wf_db db'"
proof -
  obtain code seq' where db': "db' = db\<lparr>events := events db @ [new_event (next_event_id db) code v],
                       next_event_id := Suc (next_event_id db), code_seq := seq'\<rparr>"
    and d: "evv_date_start v \<le> evv_date_end v"
    and p: "set (evv_participant_ids v) \<subseteq> pa_id ` set (participants db)"
    and fresh: "\<forall>x\<in>set (events db). ev_id x \<noteq> next_event_id db \<longrightarrow> ev_code x \<noteq> code"
    using create_event_Inr [OF c] by blast
  let ?e = "new_event (next_event_id db) code v"
  have lt: "\<forall>x\<in>set (events db). ev_id x < next_event_id db" using wf by (simp add: wf_db_def wf_ids_def)
  then have codes: "\<forall>x\<in>set (events db). ev_code x \<noteq> code" using fresh by (metis less_not_refl)
  have "wf_ids db'" using wf lt unfolding db' by (auto simp: wf_db_def wf_ids_def)
  moreover have "wf_refs db'" using wf p unfolding db' by (auto simp: wf_db_def wf_refs_def)
  moreover have "wf_stored db'" using wf unfolding db' by (simp add: wf_db_def wf_stored_def)
  moreover have "wf_checked db'"
  proof -
    have "\<forall>x\<in>set (events db @ [?e]). \<forall>y\<in>set (events db @ [?e]). ev_id x \<noteq> ev_id y \<longrightarrow> ev_code x \<noteq> ev_code y"
      using wf codes by (auto simp: wf_db_def wf_checked_def)
    then show ?thesis using wf d unfolding db' by (simp add: wf_db_def wf_checked_def)
  qed
  ultimately show ?thesis by (simp add: wf_db_def)
qed

lemma write_event_wf:
  assumes wf: "wf_db db" and u: "write_event db i w = Inr db'"
  shows "wf_db db'"
proof -
  obtain e where f: "find_event db i = Some e"
    and db': "db' = db\<lparr>events := map (\<lambda>x. if ev_id x = i then apply_event_write w e else x) (events db)\<rparr>"
    and cu: "ew_code w \<noteq> None \<Longrightarrow> code_unique_error db (apply_event_write w e) = None"
    and fk: "ew_participant_ids w \<noteq> None \<Longrightarrow> participants_fk_error db (ev_participant_ids (apply_event_write w e)) = None"
    and dt: "event_dates_written w \<Longrightarrow> event_dates_error (apply_event_write w e) = None"
    using u by (rule write_event_Inr) blast
  let ?e' = "apply_event_write w e"
  let ?es = "map (\<lambda>x. if ev_id x = ev_id ?e' then ?e' else x) (events db)"
  have e: "e \<in> set (events db)" "ev_id e = i" using f by (auto simp: find_event_def dest: find_Some_mem)
  then have db'': "db' = db\<lparr>events := ?es\<rparr>" using db' by simp
  have cases: "\<And>x. x \<in> set ?es \<Longrightarrow> x = ?e' \<or> (x \<in> set (events db) \<and> ev_id x \<noteq> ev_id e)"
    by (auto dest: set_replace_cases)
  have ids: "map ev_id ?es = map ev_id (events db)" by (rule map_replace_keys) (rule refl)
  have "wf_ids db'"
  proof -
    have "\<forall>x\<in>set ?es. ev_id x < next_event_id db"
      using wf e by (intro ball_replace) (auto simp: wf_db_def wf_ids_def)
    with ids wf show ?thesis unfolding db'' wf_db_def wf_ids_def by (simp del: map_map)
  qed
  moreover have "wf_refs db'"
  proof -
    have "set (ev_participant_ids ?e') \<subseteq> pa_id ` set (participants db)"
    proof (cases "ew_participant_ids w")
      case None
      with wf e show ?thesis by (simp add: wf_db_def wf_refs_def)
    next
      case (Some ps)
      with fk show ?thesis by (auto simp: participants_fk_error_def split: if_splits)
    qed
    then have "\<forall>x\<in>set ?es. set (ev_participant_ids x) \<subseteq> pa_id ` set (participants db)"
      using wf by (intro ball_replace) (simp_all add: wf_db_def wf_refs_def)
    moreover have "ev_id ` set ?es = ev_id ` set (events db)"
      using ids by (metis set_map)
    ultimately show ?thesis using wf unfolding db'' wf_db_def wf_refs_def by (simp del: map_map)
  qed
  moreover have "wf_stored db'"
  proof -
    have "ev_duration_days ?e' = event_duration_days (Some (ev_date_start ?e')) (Some (ev_date_end ?e'))"
      using wf e by (cases "event_dates_written w") (auto simp: wf_db_def wf_stored_def event_dates_written_def)
    then have "\<forall>x\<in>set ?es. ev_duration_days x = event_duration_days (Some (ev_date_start x)) (Some (ev_date_end x))"
      using wf by (intro ball_replace) (simp_all add: wf_db_def wf_stored_def)
    then show ?thesis using wf unfolding db'' by (simp add: wf_db_def wf_stored_def)
  qed
  moreover have "wf_checked db'"
  proof -
    have "ev_date_start ?e' \<le> ev_date_end ?e'"
    proof (cases "event_dates_written w")
      case True
      with dt show ?thesis by (auto simp: event_dates_error_def split: if_splits)
    next
      case False
      with wf e show ?thesis by (auto simp: wf_db_def wf_checked_def event_dates_written_def)
    qed
    then have d: "\<forall>x\<in>set ?es. ev_date_start x \<le> ev_date_end x"
      using wf by (intro ball_replace) (simp_all add: wf_db_def wf_checked_def)
    have fresh: "\<forall>x\<in>set (events db). ev_id x \<noteq> ev_id e \<longrightarrow> ev_code x \<noteq> ev_code ?e'"
    proof (cases "ew_code w")
      case None
      with wf e show ?thesis by (auto simp: wf_db_def wf_checked_def)
    next
      case (Some c)
      with cu show ?thesis by (auto simp: code_unique_error_def split: if_splits)
    qed
    have "\<forall>x\<in>set ?es. \<forall>y\<in>set ?es. ev_id x \<noteq> ev_id y \<longrightarrow> ev_code x \<noteq> ev_code y"
    proof (intro ballI impI)
      fix x y assume x: "x \<in> set ?es" and y: "y \<in> set ?es" and ne: "ev_id x \<noteq> ev_id y"
      from cases [OF x] cases [OF y] show "ev_code x \<noteq> ev_code y"
        using fresh ne wf by (auto simp: wf_db_def wf_checked_def)
    qed
    with d show ?thesis using wf unfolding db'' by (simp add: wf_db_def wf_checked_def)
  qed
  ultimately show ?thesis by (simp add: wf_db_def)
qed

subsection \<open>Modules\<close>

lemma create_module_wf:
  assumes wf: "wf_db db" and c: "create_module db v = Inr (db', i)"
  shows "wf_db db'"
proof -
  let ?m = "\<lparr>mo_id = next_module_id db, mo_name = mv_name v,
                    mo_description = mv_description v, mo_notes = mv_notes v,
                    mo_event_id = mv_event_id v, mo_sequence = written (mv_sequence v) 10,
                    mo_active = written (mv_active v) True\<rparr>"
  obtain e where f: "find_event db (mv_event_id v) = Some e"
    and db': "db' = db\<lparr>modules := modules db @ [?m], next_module_id := Suc (next_module_id db)\<rparr>"
    using c by (auto simp: create_module_def Let_def split: option.splits)
  have ev: "mv_event_id v \<in> ev_id ` set (events db)"
    using find_event_mem [OF f] by force
  have lt: "\<forall>x\<in>set (modules db). mo_id x < next_module_id db" using wf by (simp add: wf_db_def wf_ids_def)
  have sm: "\<forall>s\<in>set (sessions db). se_module_id s \<noteq> next_module_id db"
    using wf lt by (fastforce simp: wf_db_def wf_refs_def)
  have "wf_ids db'" using wf lt unfolding db' by (auto simp: wf_db_def wf_ids_def)
  moreover have "wf_refs db'" using wf ev unfolding db' by (auto simp: wf_db_def wf_refs_def)
  moreover have "wf_stored db'" using wf sm unfolding db' by (auto simp: wf_db_def wf_stored_def)
  moreover have "wf_checked db'" using wf unfolding db' by (simp add: wf_db_def wf_checked_def)
  ultimately show ?thesis by (simp add: wf_db_def)
qed

lemma write_module_wf:
  assumes wf: "wf_db db" and u: "write_module db i w = Inr db'"
  shows "wf_db db'"
  using u
proof (cases rule: write_module_Inr)
  case (1 m)
  let ?m' = "apply_module_write w m"
  let ?ms = "map (\<lambda>x. if mo_id x = mo_id ?m' then ?m' else x) (modules db)"
  have m: "m \<in> set (modules db)" "mo_id m = i" using 1 by (auto simp: find_module_def dest: find_Some_mem)
  then have db': "db' = db\<lparr>modules := ?ms\<rparr>" using 1 by simp
  have ids: "map mo_id ?ms = map mo_id (modules db)" by (rule map_replace_keys) (rule refl)
  have cases: "\<And>x. x \<in> set ?ms \<Longrightarrow> x = ?m' \<or> x \<in> set (modules db)" by (auto dest: set_replace_cases)
  have ev': "mo_event_id ?m' = mo_event_id m" using 1 by simp
  have "wf_ids db'"
  proof -
    have "\<forall>x\<in>set ?ms. mo_id x < next_module_id db"
      using wf m by (intro ball_replace) (auto simp: wf_db_def wf_ids_def)
    with ids wf show ?thesis unfolding db' wf_db_def wf_ids_def by (simp del: map_map)
  qed
  moreover have "wf_refs db'"
  proof -
    have "\<forall>x\<in>set ?ms. mo_event_id x \<in> ev_id ` set (events db)"
      using wf m ev' by (intro ball_replace) (auto simp: wf_db_def wf_refs_def)
    moreover have "mo_id ` set ?ms = mo_id ` set (modules db)" using ids by (metis set_map)
    ultimately show ?thesis using wf unfolding db' wf_db_def wf_refs_def by (simp del: map_map)
  qed
  moreover have "wf_stored db'"
  proof -
    have "\<forall>s\<in>set (sessions db). \<forall>x\<in>set ?ms. mo_id x = se_module_id s \<longrightarrow> se_event_id s = mo_event_id x"
    proof (intro ballI impI)
      fix s x assume s: "s \<in> set (sessions db)" and x: "x \<in> set ?ms" and eq: "mo_id x = se_module_id s"
      from cases [OF x] show "se_event_id s = mo_event_id x"
      proof
        assume "x = ?m'"
        then have "mo_id m = se_module_id s" "mo_event_id x = mo_event_id m" using eq ev' by simp_all
        then show ?thesis using wf s m by (auto simp: wf_db_def wf_stored_def)
      next
        assume "x \<in> set (modules db)"
        then show ?thesis using wf s eq by (auto simp: wf_db_def wf_stored_def)
      qed
    qed
    then show ?thesis using wf unfolding db' by (simp add: wf_db_def wf_stored_def)
  qed
  moreover have "wf_checked db'" using wf unfolding db' by (simp add: wf_db_def wf_checked_def)
  ultimately show ?thesis by (simp add: wf_db_def)
next
  case (2 m e)
  let ?m' = "apply_module_write w m"
  let ?ms = "map (\<lambda>x. if mo_id x = mo_id ?m' then ?m' else x) (modules db)"
  let ?ss = "resync_sessions i e (sessions db)"
  have m: "m \<in> set (modules db)" "mo_id m = i" using 2 by (auto simp: find_module_def dest: find_Some_mem)
  then have db': "db' = db\<lparr>modules := ?ms, sessions := ?ss\<rparr>" using 2 by simp
  have ids: "map mo_id ?ms = map mo_id (modules db)" by (rule map_replace_keys) (rule refl)
  have cases: "\<And>x. x \<in> set ?ms \<Longrightarrow> x = ?m' \<or> (x \<in> set (modules db) \<and> mo_id x \<noteq> i)"
    using m by (auto dest: set_replace_cases)
  have ev': "mo_event_id ?m' = e" using 2 by simp
  have e: "e \<in> ev_id ` set (events db)" using 2 by (simp add: find_event_None)
  have sids: "map se_id ?ss = map se_id (sessions db)" "map se_module_id ?ss = map se_module_id (sessions db)"
    by simp_all
  have scases: "\<And>x. x \<in> set ?ss \<Longrightarrow> \<exists>s\<in>set (sessions db). x = s\<lparr>se_event_id := e\<rparr> \<and> se_module_id s = i \<or>
      x = s \<and> se_module_id s \<noteq> i"
    by (auto simp: set_resync_sessions)
  have "wf_ids db'"
  proof -
    have "\<forall>x\<in>set ?ms. mo_id x < next_module_id db"
      using wf m by (intro ball_replace) (auto simp: wf_db_def wf_ids_def)
    moreover have "\<forall>x\<in>set ?ss. se_id x < next_session_id db"
      using wf scases by (fastforce simp: wf_db_def wf_ids_def)
    ultimately show ?thesis using ids sids wf unfolding db' wf_db_def wf_ids_def by (simp del: map_map)
  qed
  moreover have "wf_refs db'"
  proof -
    have "\<forall>x\<in>set ?ms. mo_event_id x \<in> ev_id ` set (events db)"
      using wf ev' e by (intro ball_replace) (auto simp: wf_db_def wf_refs_def)
    moreover have "mo_id ` set ?ms = mo_id ` set (modules db)" using ids by (metis set_map)
    moreover have "\<forall>x\<in>set ?ss. se_module_id x \<in> mo_id ` set (modules db)"
      using wf scases by (fastforce simp: wf_db_def wf_refs_def)
    ultimately show ?thesis using wf unfolding db' wf_db_def wf_refs_def by (simp del: map_map)
  qed
  moreover have "wf_stored db'"
  proof -
    have dm: "distinct (map mo_id (modules db))" using wf by (simp add: wf_db_def wf_ids_def)
    have dur: "\<forall>x\<in>set ?ss. se_duration_hours x = session_duration_hours (Some (se_date_start x)) (Some (se_date_end x))"
      using wf scases by (fastforce simp: wf_db_def wf_stored_def)
    have sync: "\<forall>x\<in>set ?ss. \<forall>y\<in>set ?ms. mo_id y = se_module_id x \<longrightarrow> se_event_id x = mo_event_id y"
    proof (intro ballI impI)
      fix x y assume x: "x \<in> set ?ss" and y: "y \<in> set ?ms" and eq: "mo_id y = se_module_id x"
      obtain s where s: "s \<in> set (sessions db)"
        and sx: "x = s\<lparr>se_event_id := e\<rparr> \<and> se_module_id s = i \<or> x = s \<and> se_module_id s \<noteq> i"
        using scases [OF x] by blast
      show "se_event_id x = mo_event_id y"
        using cases [OF y] sx eq ev' s wf m by (auto simp: wf_db_def wf_stored_def)
    qed
    show ?thesis using wf dur sync unfolding db' by (simp add: wf_db_def wf_stored_def)
  qed
  moreover have "wf_checked db'"
  proof -
    have "\<forall>x\<in>set ?ss. se_date_start x < se_date_end x"
      using wf scases by (fastforce simp: wf_db_def wf_checked_def)
    then show ?thesis using wf unfolding db' by (simp add: wf_db_def wf_checked_def)
  qed
  ultimately show ?thesis by (simp add: wf_db_def)
qed

lemma write_module_no_overlap:
  assumes no: "no_overlap db" and u: "write_module db i w = Inr db'"
  shows "no_overlap db'"
  using u
proof (cases rule: write_module_Inr)
  case (1 m)
  then show ?thesis using no by (simp add: no_overlap_def)
next
  case (2 m e)
  let ?ss = "resync_sessions i e (sessions db)"
  have chk: "\<forall>x\<in>set (sessions db'). se_module_id x = i \<longrightarrow>
      (\<forall>c\<in>set (sessions db'). se_active c \<longrightarrow> \<not> overlap_domain x c)"
    using 2 by (simp add: check_overlap_None_iff)
  have unmoved: "\<And>x. x \<in> set (sessions db') \<Longrightarrow> se_module_id x \<noteq> i \<Longrightarrow> x \<in> set (sessions db)"
    using 2 by (auto simp: set_resync_sessions)
  show ?thesis unfolding no_overlap_def
  proof (intro ballI impI)
    fix x y assume x: "x \<in> set (sessions db')" and y: "y \<in> set (sessions db')"
      and a: "se_active x" "se_active y"
    show "\<not> overlap_domain x y"
    proof (cases "se_module_id x = i")
      case True
      with chk x y a show ?thesis by blast
    next
      case False
      show ?thesis
      proof (cases "se_module_id y = i")
        case True
        with chk x y a show ?thesis by (simp add: overlap_domain_sym [of x])
      next
        case False
        with \<open>se_module_id x \<noteq> i\<close> unmoved x y no a show ?thesis by (simp add: no_overlap_def)
      qed
    qed
  qed
qed

subsection \<open>Participants\<close>

lemma create_participant_wf:
  assumes wf: "wf_db db" and c: "create_participant db v = Inr (db', i)"
  shows "wf_db db'"
proof -
  let ?p = "new_participant (next_participant_id db) v"
  have pu: "partner_role_unique_error db ?p = None" and tc: "check_trainer_user ?p = None"
    and db': "db' = db\<lparr>participants := participants db @ [?p],
            next_participant_id := Suc (next_participant_id db)\<rparr>"
    using c by (simp_all add: create_participant_Inr_iff)
  have pr: "\<forall>x\<in>set (participants db). pa_id x \<noteq> next_participant_id db \<longrightarrow>
       pa_partner_id x \<noteq> pv_partner_id v \<or> pa_role x \<noteq> pv_role v"
    using pu by (auto simp: partner_role_unique_error_def split: if_splits)
  have lt: "\<forall>x\<in>set (participants db). pa_id x < next_participant_id db"
    using wf by (simp add: wf_db_def wf_ids_def)
  have "wf_ids db'" using wf lt unfolding db' by (auto simp: wf_db_def wf_ids_def)
  moreover have "wf_refs db'" using wf unfolding db' by (auto simp: wf_db_def wf_refs_def)
  moreover have "wf_stored db'" using wf unfolding db' by (simp add: wf_db_def wf_stored_def)
  moreover have "wf_checked db'"
  proof -
    have "check_trainer_user ?p = None" by (rule tc)
    moreover have "\<forall>x\<in>set (participants db). pa_partner_id x \<noteq> pv_partner_id v \<or> pa_role x \<noteq> pv_role v"
      using pr lt by (metis less_not_refl)
    ultimately show ?thesis using wf unfolding db' by (auto simp: wf_db_def wf_checked_def)
  qed
  ultimately show ?thesis by (simp add: wf_db_def)
qed

lemma apply_participant_write_fields [simp]:
  "pa_id (apply_participant_write w p) = pa_id p"
  "pa_partner_id (apply_participant_write w p) = written (map_option fst (pw_partner w)) (pa_partner_id p)"
  "pa_role (apply_participant_write w p) = written (pw_role w) (pa_role p)"
  "pa_user_id (apply_participant_write w p) = written (pw_user_id w) (pa_user_id p)"
  by (simp_all add: apply_participant_write_def)

lemma write_participant_wf:
  assumes wf: "wf_db db" and u: "write_participant db i w = Inr db'"
  shows "wf_db db'"
proof -
  obtain p where f: "find_participant db i = Some p"
    and db': "db' = db\<lparr>participants := map (\<lambda>x. if pa_id x = i then apply_participant_write w p else x)
                                        (participants db)\<rparr>"
    and un: "pw_partner w \<noteq> None \<or> pw_role w \<noteq> None \<Longrightarrow>
             partner_role_unique_error db (apply_participant_write w p) = None"
    and tu: "pw_role w \<noteq> None \<or> pw_user_id w \<noteq> None \<Longrightarrow> check_trainer_user (apply_participant_write w p) = None"
    using u by (auto simp: write_participant_def Let_def split: option.splits if_splits)
  let ?p' = "apply_participant_write w p"
  let ?ps = "map (\<lambda>x. if pa_id x = pa_id ?p' then ?p' else x) (participants db)"
  have p: "p \<in> set (participants db)" "pa_id p = i" using find_participant_mem [OF f] by simp_all
  then have db'': "db' = db\<lparr>participants := ?ps\<rparr>" using db' by simp
  have ids: "map pa_id ?ps = map pa_id (participants db)" by (rule map_replace_keys) (rule refl)
  have cases: "\<And>x. x \<in> set ?ps \<Longrightarrow> x = ?p' \<or> (x \<in> set (participants db) \<and> pa_id x \<noteq> pa_id p)"
    by (auto dest: set_replace_cases)
  have "wf_ids db'"
  proof -
    have "\<forall>x\<in>set ?ps. pa_id x < next_participant_id db"
      using wf p by (intro ball_replace) (auto simp: wf_db_def wf_ids_def)
    with ids wf show ?thesis unfolding db'' wf_db_def wf_ids_def by (simp del: map_map)
  qed
  moreover have "wf_refs db'"
  proof -
    have "pa_id ` set ?ps = pa_id ` set (participants db)" using ids by (metis set_map)
    then show ?thesis using wf unfolding db'' wf_db_def wf_refs_def by (simp del: map_map)
  qed
  moreover have "wf_stored db'" using wf unfolding db'' by (simp add: wf_db_def wf_stored_def)
  moreover have "wf_checked db'"
  proof -
    have "check_trainer_user ?p' = None"
    proof (cases "pw_role w \<noteq> None \<or> pw_user_id w \<noteq> None")
      case True
      with tu show ?thesis by blast
    next
      case False
      then have "pa_role ?p' = pa_role p" "pa_user_id ?p' = pa_user_id p" by auto
      with wf p show ?thesis by (auto simp: wf_db_def wf_checked_def check_trainer_user_None_iff)
    qed
    then have t: "\<forall>x\<in>set ?ps. check_trainer_user x = None"
      using wf by (intro ball_replace) (simp_all add: wf_db_def wf_checked_def)
    have fresh: "\<forall>x\<in>set (participants db). pa_id x \<noteq> pa_id p \<longrightarrow>
        pa_partner_id x \<noteq> pa_partner_id ?p' \<or> pa_role x \<noteq> pa_role ?p'"
    proof (cases "pw_partner w \<noteq> None \<or> pw_role w \<noteq> None")
      case True
      with un show ?thesis by (auto simp: partner_role_unique_error_def split: if_splits)
    next
      case False
      then have "pw_partner w = None" "pw_role w = None" by (cases "pw_partner w"; simp)+
      then have "pa_partner_id ?p' = pa_partner_id p" "pa_role ?p' = pa_role p" by simp_all
      with wf p show ?thesis by (auto simp: wf_db_def wf_checked_def)
    qed
    have "\<forall>x\<in>set ?ps. \<forall>y\<in>set ?ps. pa_id x \<noteq> pa_id y \<longrightarrow>
        pa_partner_id x \<noteq> pa_partner_id y \<or> pa_role x \<noteq> pa_role y"
    proof (intro ballI impI)
      fix x y assume x: "x \<in> set ?ps" and y: "y \<in> set ?ps" and ne: "pa_id x \<noteq> pa_id y"
      from cases [OF x] cases [OF y] show "pa_partner_id x \<noteq> pa_partner_id y \<or> pa_role x \<noteq> pa_role y"
        using fresh ne wf by (auto simp: wf_db_def wf_checked_def)
    qed
    with t show ?thesis using wf unfolding db'' by (simp add: wf_db_def wf_checked_def)
  qed
  ultimately show ?thesis by (simp add: wf_db_def)
qed

lemma unlink_participant_wf:
  assumes wf: "wf_db db" and u: "unlink_participant db i = Inr db'"
  shows "wf_db db'"
proof -
  let ?drop = "\<lambda>e. e\<lparr>ev_participant_ids := filter (\<lambda>x. x \<noteq> i) (ev_participant_ids e)\<rparr>"
  have db': "db' = db\<lparr>participants := filter (\<lambda>p. pa_id p \<noteq> i) (participants db),
                        events := map ?drop (events db)\<rparr>"
    using u by (simp add: unlink_participant_def split: option.splits)
  have "wf_ids db'" using wf unfolding db' by (auto simp: wf_db_def wf_ids_def comp_def)
  moreover have "wf_refs db'"
  proof -
    have "\<forall>e\<in>set (events db). set (filter (\<lambda>x. x \<noteq> i) (ev_participant_ids e)) \<subseteq>
            pa_id ` set (filter (\<lambda>p. pa_id p \<noteq> i) (participants db))"
      using wf by (fastforce simp: wf_db_def wf_refs_def)
    moreover have "ev_id ` ?drop ` set (events db) = ev_id ` set (events db)"
      by (simp add: image_comp comp_def)
    ultimately show ?thesis using wf unfolding db' by (simp add: wf_db_def wf_refs_def image_comp)
  qed
  moreover have "wf_stored db'" using wf unfolding db' by (simp add: wf_db_def wf_stored_def)
  moreover have "wf_checked db'" using wf unfolding db' by (simp add: wf_db_def wf_checked_def)
  ultimately show ?thesis by (simp add: wf_db_def)
qed

subsection \<open>Clone\<close>

lemma clone_event_wf:
  assumes wf: "wf_db db" and c: "clone_event db w = Inr (db', i)"
  shows "wf_db db'"
proof -
  obtain e where "create_event db (copy_vals e w) = Inr (db', i)" using c by (rule clone_event_Inr)
  with wf show ?thesis by (rule create_event_wf)
qed

lemma clone_event_sessions: "clone_event db w = Inr (db', i) \<Longrightarrow> sessions db' = sessions db"
proof -
  assume c: "clone_event db w = Inr (db', i)"
  obtain e where "create_event db (copy_vals e w) = Inr (db', i)" using c by (rule clone_event_Inr)
  then show ?thesis by (auto dest: create_event_Inr)
qed

text \<open>C11. Deleting an event deletes exactly its modules and exactly its
  sessions, and the database stays well-formed: the cascades of
  \<open>module.event_id\<close> and \<open>session.module_id\<close> together remove the sessions
  whose stored \<open>event_id\<close> is the event.\<close>

theorem unlink_event_cascade:
  assumes wf: "wf_db db" and u: "unlink_event db i = Inr db'"
  shows "find_event db' i = None \<and>
         set (modules db') = {m \<in> set (modules db). mo_event_id m \<noteq> i} \<and>
         set (sessions db') = {s \<in> set (sessions db). se_event_id s \<noteq> i} \<and> wf_db db'"
proof -
  let ?gone = "mo_id ` set (filter (\<lambda>m. mo_event_id m = i) (modules db))"
  have db': "db' = db\<lparr>events := filter (\<lambda>e. ev_id e \<noteq> i) (events db),
                        modules := filter (\<lambda>m. mo_event_id m \<noteq> i) (modules db),
                        sessions := filter (\<lambda>s. se_module_id s \<notin> ?gone) (sessions db)\<rparr>"
    using u by (simp add: unlink_event_def Let_def split: option.splits)
  have sm: "\<forall>s\<in>set (sessions db). se_module_id s \<in> mo_id ` set (modules db)"
    using wf by (simp add: wf_db_def wf_refs_def)
  have st: "\<forall>s\<in>set (sessions db). \<forall>m\<in>set (modules db). mo_id m = se_module_id s \<longrightarrow> se_event_id s = mo_event_id m"
    using wf by (simp add: wf_db_def wf_stored_def)
  have gone: "se_module_id s \<in> ?gone \<longleftrightarrow> se_event_id s = i" if s: "s \<in> set (sessions db)" for s
  proof
    assume "se_module_id s \<in> ?gone"
    then obtain m where m: "m \<in> set (modules db)" "mo_event_id m = i" "mo_id m = se_module_id s"
      by auto
    have "se_event_id s = mo_event_id m" using st [rule_format, OF s m(1) m(3)] .
    then show "se_event_id s = i" using m(2) by simp
  next
    assume i: "se_event_id s = i"
    from bspec [OF sm s] obtain m where m: "se_module_id s = mo_id m" "m \<in> set (modules db)"
      by (rule imageE)
    have "se_event_id s = mo_event_id m" using st [rule_format, OF s m(2) m(1) [symmetric]] .
    then have "m \<in> set (filter (\<lambda>m. mo_event_id m = i) (modules db))" using m(2) i by simp
    then show "se_module_id s \<in> ?gone" by (rule rev_image_eqI) (simp add: m(1))
  qed
  have "set (sessions db') = {s \<in> set (sessions db). se_module_id s \<notin> ?gone}"
    by (simp add: db')
  also have "\<dots> = {s \<in> set (sessions db). se_event_id s \<noteq> i}" using gone by blast
  finally have S: "set (sessions db') = {s \<in> set (sessions db). se_event_id s \<noteq> i}" .
  have M: "set (modules db') = {m \<in> set (modules db). mo_event_id m \<noteq> i}" by (simp add: db')
  have E: "find_event db' i = None" by (auto simp: db' find_event_None)
  have "wf_db db'" using wf u by (rule unlink_event_wf)
  with S M E show ?thesis by blast
qed

end
