(* ===== verification/System.thy ===== *)
theory System
  imports Invariant
begin

text \<open>
  The addon as a system: the operations a client runs through the ORM as
  one datatype, \<open>step\<close> (one transaction, rolled back on error), \<open>run\<close> (a
  sequence of transactions) and \<open>reachable\<close> (the databases some sequence of
  committed operations reaches), with the preservation of the invariants by
  each step.
\<close>

section \<open>The system: operations and their sequences\<close>

text \<open>The operations a client can run through the ORM, one per
  \<open>create\<close>, \<open>write\<close> and \<open>unlink\<close> of each model and the clone workflow.
  Each runs in its own transaction: a failed one leaves the database as it
  was.\<close>

datatype op =
    Create_event event_vals | Write_event rec_id event_write | Unlink_event rec_id
  | Create_module module_vals | Write_module rec_id module_write | Unlink_module rec_id
  | Create_session session_vals | Write_session rec_id session_write | Unlink_session rec_id
  | Create_participant participant_vals | Write_participant rec_id participant_write
  | Unlink_participant rec_id
  | Clone_event clone_wizard

definition committed :: "error + db \<times> rec_id \<Rightarrow> error + db" where
  "committed r = (case r of Inl e \<Rightarrow> Inl e | Inr (db, _) \<Rightarrow> Inr db)"

fun step :: "db \<Rightarrow> op \<Rightarrow> error + db" where
  "step db (Create_event v) = committed (create_event db v)"
| "step db (Write_event i w) = write_event db i w"
| "step db (Unlink_event i) = unlink_event db i"
| "step db (Create_module v) = committed (create_module db v)"
| "step db (Write_module i w) = write_module db i w"
| "step db (Unlink_module i) = unlink_module db i"
| "step db (Create_session v) = committed (create_session db v)"
| "step db (Write_session i w) = write_session db i w"
| "step db (Unlink_session i) = unlink_session db i"
| "step db (Create_participant v) = committed (create_participant db v)"
| "step db (Write_participant i w) = write_participant db i w"
| "step db (Unlink_participant i) = unlink_participant db i"
| "step db (Clone_event w) = committed (clone_event db w)"

text \<open>A sequence of transactions: each failed one is rolled back.\<close>

fun run :: "db \<Rightarrow> op list \<Rightarrow> db" where
  "run db [] = db"
| "run db (op # ops) = run (case step db op of Inl _ \<Rightarrow> db | Inr db' \<Rightarrow> db') ops"

inductive reachable :: "db \<Rightarrow> bool" where
  init: "reachable empty_db"
| step: "reachable db \<Longrightarrow> step db op = Inr db' \<Longrightarrow> reachable db'"

fun unarchives :: "op \<Rightarrow> bool" where
  "unarchives (Write_session i w) = bare_unarchive w"
| "unarchives _ = False"

text \<open>The pre-migration hook of version 18.0.1.0.0 (\<open>migrate(cr, version)\<close>):
  on a fresh install (\<open>version\<close> empty) it returns at once, and on an
  upgrade it runs \<open>SELECT 1\<close>, which reads and writes no row. Either way the
  database is left as it was.\<close>

definition pre_migrate :: "string option \<Rightarrow> db \<Rightarrow> db" where
  "pre_migrate version db = (case version of None \<Rightarrow> db | Some _ \<Rightarrow> db)"

section \<open>Lemmas\<close>

lemma committed_Inr: "committed r = Inr db' \<longleftrightarrow> (\<exists>i. r = Inr (db', i))"
  by (auto simp: committed_def split: sum.splits)

lemma step_wf:
  assumes "wf_db db" and "step db op = Inr db'"
  shows "wf_db db'"
  using assms
proof (cases op)
  case (Create_event v) with assms show ?thesis by (auto simp: committed_Inr intro: create_event_wf)
next
  case (Write_event i w) with assms show ?thesis by (auto intro: write_event_wf)
next
  case (Unlink_event i) with assms show ?thesis by (auto intro: unlink_event_wf)
next
  case (Create_module v) with assms show ?thesis by (auto simp: committed_Inr intro: create_module_wf)
next
  case (Write_module i w) with assms show ?thesis by (auto intro: write_module_wf)
next
  case (Unlink_module i) with assms show ?thesis by (auto intro: unlink_module_wf)
next
  case (Create_session v) with assms show ?thesis by (auto simp: committed_Inr intro: create_session_wf)
next
  case (Write_session i w) with assms show ?thesis by (auto intro: write_session_wf)
next
  case (Unlink_session i) with assms show ?thesis by (auto intro: unlink_session_wf)
next
  case (Create_participant v) with assms show ?thesis by (auto simp: committed_Inr intro: create_participant_wf)
next
  case (Write_participant i w) with assms show ?thesis by (auto intro: write_participant_wf)
next
  case (Unlink_participant i) with assms show ?thesis by (auto intro: unlink_participant_wf)
next
  case (Clone_event w) with assms show ?thesis by (auto simp: committed_Inr intro: clone_event_wf)
qed

lemma no_overlap_subset:
  "no_overlap db \<Longrightarrow> set (sessions db') \<subseteq> set (sessions db) \<Longrightarrow> no_overlap db'"
  unfolding no_overlap_def by blast

lemma step_no_overlap:
  assumes wf: "wf_db db" and no: "no_overlap db" and s: "step db op = Inr db'"
    and nu: "\<not> unarchives op"
  shows "no_overlap db'"
proof (cases op)
  case (Create_event v)
  with s obtain i where "create_event db v = Inr (db', i)" by (auto simp: committed_Inr)
  then have "sessions db' = sessions db" by (auto dest: create_event_Inr)
  with no show ?thesis by (simp add: no_overlap_def)
next
  case (Write_event i w)
  with s have "sessions db' = sessions db" by (auto elim: write_event_Inr)
  with no show ?thesis by (simp add: no_overlap_def)
next
  case (Unlink_event i)
  with s have "set (sessions db') \<subseteq> set (sessions db)"
    by (auto simp: unlink_event_def Let_def split: option.splits)
  with no show ?thesis by (rule no_overlap_subset)
next
  case (Create_module v)
  with s have "sessions db' = sessions db"
    by (auto simp: committed_Inr create_module_def Let_def split: option.splits)
  with no show ?thesis by (simp add: no_overlap_def)
next
  case (Write_module i w)
  with s no show ?thesis by (auto intro: write_module_no_overlap)
next
  case (Unlink_module i)
  with s have "set (sessions db') \<subseteq> set (sessions db)"
    by (auto simp: unlink_module_def split: option.splits)
  with no show ?thesis by (rule no_overlap_subset)
next
  case (Create_session v)
  with s wf no show ?thesis by (auto simp: committed_Inr intro: create_session_no_overlap)
next
  case (Write_session i w)
  with s wf no nu show ?thesis by (auto intro: write_session_no_overlap)
next
  case (Unlink_session i)
  with s have "set (sessions db') \<subseteq> set (sessions db)"
    by (auto simp: unlink_session_def split: option.splits)
  with no show ?thesis by (rule no_overlap_subset)
next
  case (Create_participant v)
  with s have "sessions db' = sessions db"
    by (auto simp: committed_Inr create_participant_def Let_def split: option.splits)
  with no show ?thesis by (simp add: no_overlap_def)
next
  case (Write_participant i w)
  with s have "sessions db' = sessions db"
    by (auto simp: write_participant_def Let_def split: option.splits)
  with no show ?thesis by (simp add: no_overlap_def)
next
  case (Unlink_participant i)
  with s have "sessions db' = sessions db"
    by (auto simp: unlink_participant_def split: option.splits)
  with no show ?thesis by (simp add: no_overlap_def)
next
  case (Clone_event w)
  with s have "sessions db' = sessions db" by (auto simp: committed_Inr dest: clone_event_sessions)
  with no show ?thesis by (simp add: no_overlap_def)
qed


lemma run_invariants:
  assumes "wf_db db" and "no_overlap db" and "\<forall>op\<in>set ops. \<not> unarchives op"
  shows "wf_db (run db ops) \<and> no_overlap (run db ops)"
  using assms
proof (induction ops arbitrary: db)
  case Nil
  then show ?case by simp
next
  case (Cons op ops)
  let ?db = "case step db op of Inl _ \<Rightarrow> db | Inr db' \<Rightarrow> db'"
  have "wf_db ?db \<and> no_overlap ?db"
    using Cons.prems step_wf step_no_overlap by (cases "step db op") auto
  with Cons.prems show ?case by (simp add: Cons.IH)
qed

end
