(* ===== verification/Tests.thy ===== *)
theory Tests
  imports Clone
begin

text \<open>
  The addon's test suite (src/addons/training_event/tests) replayed on the
  model: each \<open>setUp\<close> is a run of model operations from the empty database,
  and each test a closed theorem about the result. \<open>fields.Date.today()\<close>
  and \<open>fields.Datetime.now()\<close> are fixed to a day (\<open>test_today\<close>) and a
  time on it (\<open>test_now\<close>, 09:00). The facts also serve as the concrete
  inputs at which the theorems of the components are instantiated.
\<close>

section \<open>Running a sequence of creates\<close>

text \<open>\<open>then_create r f\<close>: the next create of a \<open>setUp\<close>, run only when the
  previous one committed, given the id it returned.\<close>

definition then_create :: "error + db \<times> rec_id \<Rightarrow> (db \<Rightarrow> rec_id \<Rightarrow> error + db \<times> rec_id) \<Rightarrow> error + db \<times> rec_id" where
  "then_create r f = (case r of Inl e \<Rightarrow> Inl e | Inr (db, i) \<Rightarrow> f db i)"

lemma then_create_Inr [simp]: "then_create (Inr (db, i)) f = f db i"
  by (simp add: then_create_def)

section \<open>Fixtures\<close>

definition test_today :: date where
  "test_today = 739000"

definition test_now :: datetime where
  "test_now = test_today * 86400 + 9 * 3600"

definition test_event_vals :: "string \<Rightarrow> event_type \<Rightarrow> date \<Rightarrow> date \<Rightarrow> event_vals" where
  "test_event_vals n t ds de =
     \<lparr>evv_name = n, evv_code = None, evv_type = t, evv_date_start = ds, evv_date_end = de,
      evv_state = None, evv_notes = None, evv_participant_ids = [], evv_active = None\<rparr>"

definition test_module_vals :: "string \<Rightarrow> rec_id \<Rightarrow> module_vals" where
  "test_module_vals n e =
     \<lparr>mv_name = n, mv_event_id = e, mv_description = None, mv_notes = None,
      mv_sequence = None, mv_active = None\<rparr>"

definition test_session_vals :: "string \<Rightarrow> rec_id \<Rightarrow> datetime \<Rightarrow> datetime \<Rightarrow> session_vals" where
  "test_session_vals n m ds de =
     \<lparr>sv_name = n, sv_module_id = m, sv_date_start = ds, sv_date_end = de,
      sv_description = None, sv_materials = None, sv_attachment_ids = [], sv_trainer_ids = [],
      sv_state = None, sv_notes = None, sv_sequence = None, sv_active = None\<rparr>"

text \<open>\<open>TestTrainingSession.setUp\<close>: an event of one day and one module.\<close>

definition session_test_setup :: "error + db \<times> rec_id" where
  "session_test_setup =
     then_create (create_event empty_db (test_event_vals ''Evento'' Course test_today test_today))
       (\<lambda>db e. create_module db (test_module_vals ''Modulo'' e))"

text \<open>The states the session tests start from: after \<open>setUp\<close>, and after
  the first session of \<open>test_overlap_validation\<close> (09:00 to 11:00).\<close>

definition session_test_module :: module where
  "session_test_module = \<lparr>mo_id = 1, mo_name = ''Modulo'', mo_description = None, mo_notes = None,
     mo_event_id = 1, mo_sequence = 10, mo_active = True\<rparr>"

definition session_test_db :: db where
  "session_test_db = empty_db\<lparr>
     events := [new_event 1 (seq_code 1) (test_event_vals ''Evento'' Course test_today test_today)],
     modules := [session_test_module], next_event_id := 2, next_module_id := 2, code_seq := 2\<rparr>"

definition overlap_test_db :: db where
  "overlap_test_db = session_test_db\<lparr>
     sessions := [new_session 1 session_test_module
                    (test_session_vals ''Sessione 1'' 1 test_now (test_now + 7200))],
     next_session_id := 2\<rparr>"

text \<open>\<open>TestTrainingEvent.test_event_creation_duration\<close>: a course of three
  days, created with no code, state or active flag.\<close>

definition event_creation_test :: "error + db \<times> rec_id" where
  "event_creation_test = create_event empty_db (test_event_vals ''Evento Test'' Course test_today (test_today + 2))"

text \<open>\<open>TestTrainingEvent.test_session_count_computation\<close>: an event, one
  module, and two sessions of it, 09:00-11:00 and 12:00-14:00.\<close>

definition session_count_test :: "error + db \<times> rec_id" where
  "session_count_test =
     then_create
       (then_create (create_event empty_db (test_event_vals ''Evento con sessioni'' Seminar test_today test_today))
          (\<lambda>db e. create_module db (test_module_vals ''Modulo'' e)))
       (\<lambda>db m. then_create (create_session db (test_session_vals ''Sessione 1'' m test_now (test_now + 7200)))
                 (\<lambda>db _. create_session db (test_session_vals ''Sessione 2'' m (test_now + 10800) (test_now + 18000))))"

text \<open>\<open>test_duration_computation\<close>: a session of one hour and a half.\<close>

definition duration_test_vals :: session_vals where
  "duration_test_vals = test_session_vals ''Sessione'' 1 test_now (test_now + 5400)"

text \<open>\<open>TestCloneWizard.setUp\<close>: an event of three days with one module and
  one two-hour session at the event's first midnight, and the wizard of
  \<open>test_clone_event_success\<close>, thirty days later.\<close>

definition clone_test_event :: event where
  "clone_test_event = new_event 1 (seq_code 1) (test_event_vals ''Evento Base'' Course test_today (test_today + 2))"

definition clone_test_module :: module where
  "clone_test_module = \<lparr>mo_id = 1, mo_name = ''Modulo 1'', mo_description = None, mo_notes = None,
     mo_event_id = 1, mo_sequence = 10, mo_active = True\<rparr>"

definition clone_test_db :: db where
  "clone_test_db = empty_db\<lparr>
     events := [clone_test_event], modules := [clone_test_module],
     sessions := [new_session 1 clone_test_module
                    (test_session_vals ''Sessione'' 1 (test_today * 86400) (test_today * 86400 + 7200))],
     next_event_id := 2, next_module_id := 2, next_session_id := 2, code_seq := 2\<rparr>"

definition test_clone_wizard :: clone_wizard where
  "test_clone_wizard = \<lparr>wz_event_id = 1, wz_new_name = ''Evento Clonato'',
     wz_new_date_start = test_today + 30, wz_new_date_end = test_today + 32\<rparr>"

definition cloned_db :: db where
  "cloned_db = clone_test_db\<lparr>
     events := [clone_test_event, new_event 2 (seq_code 2) (copy_vals clone_test_event test_clone_wizard)],
     next_event_id := 3, code_seq := 3\<rparr>"

text \<open>A move of module 1 to event 2.\<close>

definition move_to_event :: "rec_id \<Rightarrow> module_write" where
  "move_to_event e = \<lparr>mw_name = None, mw_description = None, mw_notes = None, mw_event_id = Some e,
     mw_sequence = None, mw_active = None\<rparr>"

definition moved_db :: db where
  "moved_db = cloned_db\<lparr>modules := [clone_test_module\<lparr>mo_event_id := 2\<rparr>],
                         sessions := resync_sessions 1 2 (sessions cloned_db)\<rparr>"

text \<open>An event with two modules holding one and two sessions (the
  session-count example of the addon's specification; the addon's own
  \<open>test_session_count_computation\<close> has one module with two): sessions at
  09:00-11:00, 12:00-14:00 and 15:00-16:00.\<close>

definition count_test_module :: "rec_id \<Rightarrow> string \<Rightarrow> module" where
  "count_test_module i n = \<lparr>mo_id = i, mo_name = n, mo_description = None, mo_notes = None,
     mo_event_id = 1, mo_sequence = 10, mo_active = True\<rparr>"

definition count_test_session :: "rec_id \<Rightarrow> rec_id \<Rightarrow> datetime \<Rightarrow> datetime \<Rightarrow> session" where
  "count_test_session i mid ds de =
     new_session i (count_test_module mid (if mid = 1 then ''Modulo 1'' else ''Modulo 2''))
       (test_session_vals ''Sessione'' mid ds de)"

definition count_test_db :: db where
  "count_test_db = empty_db\<lparr>
     events := [new_event 1 (seq_code 1) (test_event_vals ''Evento con sessioni'' Seminar test_today test_today)],
     modules := [count_test_module 1 ''Modulo 1'', count_test_module 2 ''Modulo 2''],
     sessions := [count_test_session 1 1 test_now (test_now + 7200),
                  count_test_session 2 2 (test_now + 10800) (test_now + 18000),
                  count_test_session 3 2 (test_now + 21600) (test_now + 25200)],
     next_event_id := 2, next_module_id := 3, next_session_id := 4, code_seq := 2\<rparr>"

text \<open>The day-grouping example of the addon's specification (8.6): sessions
  on day 1 at 09:00-11:00 and 14:00-16:00 and on day 2 at 09:00-10:00.\<close>

definition grouping_example_db :: db where
  "grouping_example_db = empty_db\<lparr>
     events := [new_event 1 (seq_code 1) (test_event_vals ''Evento'' Course test_today (test_today + 1))],
     modules := [count_test_module 1 ''Modulo 1''],
     sessions := [count_test_session 1 1 test_now (test_now + 7200),
                  count_test_session 2 1 (test_now + 18000) (test_now + 25200),
                  count_test_session 3 1 (test_now + 86400) (test_now + 90000)],
     next_event_id := 2, next_module_id := 2, next_session_id := 4, code_seq := 2\<rparr>"

definition reschedule_w :: "datetime \<Rightarrow> datetime \<Rightarrow> session_write" where
  "reschedule_w a b = no_session_write\<lparr>sw_date_start := Some a, sw_date_end := Some b\<rparr>"

lemmas test_defs [model_simps] = test_today_def test_now_def test_event_vals_def
  test_module_vals_def test_session_vals_def session_test_setup_def

section \<open>Tests\<close>

lemma session_test_setup_eval: "session_test_setup = Inr (session_test_db, 1)"
  by (simp add: session_test_setup_def create_event_def create_module_def empty_db_def
      code_unique_error_def participants_fk_error_def event_dates_error_def find_event_def
      test_event_vals_def test_module_vals_def session_test_db_def session_test_module_def Let_def)

text \<open>\<open>test_duration_computation\<close>: the session is created with
  \<open>duration_hours = 1.5\<close>.\<close>

lemma test_duration_computation:
  "create_session session_test_db duration_test_vals =
     Inr (session_test_db\<lparr>sessions := [new_session 1 session_test_module duration_test_vals],
                          next_session_id := 2\<rparr>, 1) \<and>
   se_duration_hours (new_session 1 session_test_module duration_test_vals) = 3 / 2"
proof -
  have m: "find_module session_test_db (sv_module_id duration_test_vals) = Some session_test_module"
    by (simp add: find_module_def session_test_db_def session_test_module_def duration_test_vals_def
        test_session_vals_def)
  show ?thesis
    unfolding create_session_def m
    by (simp add: session_constraints_create check_overlap_def overlap_search_def overlap_domain_def first_by_def Let_def session_test_db_def
        empty_db_def duration_test_vals_def test_session_vals_def new_session_def round_half_even_def)
qed

text \<open>The first session of \<open>test_overlap_validation\<close> is created, and so is a session
  that starts when it ends (touching endpoints are no overlap).\<close>

theorem create_session_ok_witness:
  "create_session session_test_db (test_session_vals ''Sessione 1'' 1 test_now (test_now + 7200)) =
     Inr (overlap_test_db, 1) \<and>
   (\<exists>db'. create_session overlap_test_db
            (test_session_vals ''Sessione 3'' 1 (test_now + 7200) (test_now + 10800)) = Inr (db', 2))"
proof -
  have "create_session session_test_db (test_session_vals ''Sessione 1'' 1 test_now (test_now + 7200)) =
     Inr (overlap_test_db, 1)"
    by (rule create_session_ok [THEN iffD2])
      (simp add: overlap_test_db_def session_test_db_def session_test_module_def find_module_def
        test_session_vals_def test_now_def empty_db_def)
  moreover have "create_session overlap_test_db
            (test_session_vals ''Sessione 3'' 1 (test_now + 7200) (test_now + 10800)) =
       Inr (overlap_test_db\<lparr>sessions := sessions overlap_test_db @
              [new_session 2 session_test_module
                 (test_session_vals ''Sessione 3'' 1 (test_now + 7200) (test_now + 10800))],
              next_session_id := 3\<rparr>, 2)"
    by (rule create_session_ok [THEN iffD2])
      (simp add: overlap_test_db_def session_test_db_def session_test_module_def find_module_def
        test_session_vals_def test_now_def empty_db_def)
  ultimately show ?thesis by blast
qed

text \<open>\<open>test_overlap_validation\<close>: a second session from 09:30 to 12:00
  is rejected, naming the first.\<close>

lemma test_overlap_validation:
  "create_session overlap_test_db (test_session_vals ''Sessione 2'' 1 (test_now + 1800) (test_now + 10800)) =
     Inl (Validation_error (Session_overlap ''Sessione 1'' test_now (test_now + 7200)))"
  by (simp add: create_session_def overlap_test_db_def session_test_db_def session_test_module_def
      find_module_def test_session_vals_def test_now_def empty_db_def session_constraints_def
      session_dates_error_def check_overlap_def overlap_search_def overlap_domain_def first_by_def
      new_session_def Let_def)

lemmas clone_test_defs = clone_test_db_def clone_test_event_def clone_test_module_def
  test_clone_wizard_def cloned_db_def empty_db_def test_event_vals_def test_session_vals_def test_today_def

lemma clone_test_eval: "clone_event clone_test_db test_clone_wizard = Inr (cloned_db, 2)"
proof -
  have "clone_event clone_test_db test_clone_wizard =
          Inr (clone_test_db\<lparr>events := events clone_test_db @
                  [new_event (next_event_id clone_test_db) (seq_code (code_seq clone_test_db))
                     (copy_vals clone_test_event test_clone_wizard)],
                next_event_id := Suc (next_event_id clone_test_db),
                code_seq := Suc (code_seq clone_test_db)\<rparr>, next_event_id clone_test_db)"
    by (rule clone_event_ok) (simp_all add: clone_test_defs find_event_def seq_code_def)
  then show ?thesis by (simp add: cloned_db_def clone_test_db_def empty_db_def)
qed

text \<open>\<open>test_clone_event_success\<close> asserts that the clone has as many
  modules and sessions as the original (one each); the model gives none.\<close>

lemma test_clone_event_success_counts:
  "length (module_ids cloned_db 1) = 1 \<and> event_session_count cloned_db 1 = 1 \<and>
   length (module_ids cloned_db 2) = 0 \<and> event_session_count cloned_db 2 = 0"
  by (simp add: clone_test_defs module_ids_def event_session_count_def event_sessions_def
      session_ids_def mapped_union_def)

theorem clone_event_result_witness:
  "clone_event clone_test_db test_clone_wizard = Inr (cloned_db, 2) \<and>
   (\<exists>e ne. find_event clone_test_db 1 = Some e \<and> events cloned_db = events clone_test_db @ [ne] \<and>
      ev_id ne = 2 \<and> ev_name ne = ''Evento Clonato'' \<and> ev_state ne = Draft \<and>
      ev_duration_days e \<le> ev_duration_days ne \<and>
      ev_code ne \<notin> ev_code ` set (events clone_test_db))"
proof -
  have c: "clone_event clone_test_db test_clone_wizard = Inr (cloned_db, 2)" by (rule clone_test_eval)
  have "\<forall>x\<in>set (events clone_test_db). ev_id x < next_event_id clone_test_db"
    by (simp add: clone_test_defs)
  from clone_event_result [OF c this] show ?thesis
    using c by (auto simp: test_clone_wizard_def)
qed

lemma clone_event_no_modules_example:
  "clone_event clone_test_db test_clone_wizard = Inr (cloned_db, 2) \<and>
   module_ids cloned_db 2 = [] \<and> event_session_count cloned_db 2 = 0 \<and>
   module_ids cloned_db 1 = [clone_test_module]"
proof -
  have c: "clone_event clone_test_db test_clone_wizard = Inr (cloned_db, 2)" by (rule clone_test_eval)
  have "\<forall>m\<in>set (modules clone_test_db). mo_event_id m \<noteq> next_event_id clone_test_db"
    by (simp add: clone_test_defs)
  from clone_event_no_modules [OF c this] show ?thesis
    using c by (simp add: clone_test_defs module_ids_def)
qed

theorem clone_event_too_short_witness:
  "clone_event clone_test_db (test_clone_wizard\<lparr>wz_new_date_end := test_today + 30\<rparr>) =
     Inl (Validation_error (Clone_duration_too_short 1 3))"
  using clone_event_too_short [of clone_test_db "test_clone_wizard\<lparr>wz_new_date_end := test_today + 30\<rparr>"
      clone_test_event]
  by (simp add: clone_test_defs find_event_def)

theorem clone_wizard_defaults_ok_witness:
  "create_wizard clone_test_db (clone_wizard_defaults clone_test_event) =
     Inr \<lparr>wz_event_id = 1, wz_new_name = ''Evento Base (Copia)'',
          wz_new_date_start = test_today, wz_new_date_end = test_today + 2\<rparr>"
  using clone_wizard_defaults_ok [of clone_test_db clone_test_event]
  by (simp add: clone_test_defs find_event_def clone_wizard_defaults_def)

theorem write_module_moves_sessions_witness:
  "write_module cloned_db 1 (move_to_event 2) = Inr moved_db \<and>
   se_event_id (hd (sessions moved_db)) = 2 \<and> check_overlap moved_db (hd (sessions moved_db)) = None \<and>
   map se_id (sessions moved_db) = [1]"
proof -
  have w: "write_module cloned_db 1 (move_to_event 2) = Inr moved_db"
    by (simp add: write_module_def move_to_event_def clone_test_defs moved_db_def find_module_def
        find_event_def apply_module_write_def resync_sessions_def check_overlap_def overlap_search_def
        overlap_domain_def first_by_def Let_def)
  have h: "hd (sessions moved_db) \<in> set (sessions moved_db) \<and> se_module_id (hd (sessions moved_db)) = 1"
    by (simp add: moved_db_def clone_test_defs resync_sessions_def new_session_def)
  from write_module_moves_sessions [OF w] h w show ?thesis
    by (simp add: move_to_event_def clone_test_defs)
qed

theorem write_event_code_witness:
  "write_event clone_test_db 1 (no_event_write\<lparr>ew_code := Some ''CORSO-1''\<rparr>) =
     Inr (clone_test_db\<lparr>events := [clone_test_event\<lparr>ev_code := ''CORSO-1''\<rparr>]\<rparr>)"
  using write_event_code [of clone_test_db 1 clone_test_event "''CORSO-1''"]
  by (simp add: clone_test_defs find_event_def)

theorem write_session_set_active_witness:
  "write_session overlap_test_db 1 (no_session_write\<lparr>sw_active := Some False\<rparr>) =
     Inr (replace_session overlap_test_db
            (new_session 1 session_test_module
               (test_session_vals ''Sessione 1'' 1 test_now (test_now + 7200))\<lparr>se_active := False\<rparr>))"
  using write_session_set_active [of overlap_test_db 1]
  by (simp add: overlap_test_db_def find_session_def)

lemmas count_test_defs = count_test_db_def count_test_session_def count_test_module_def
  empty_db_def test_session_vals_def test_now_def test_today_def new_session_def

lemma count_test_event_sessions:
  "set (event_sessions count_test_db 1) = set (sessions count_test_db)"
  by (auto simp: set_event_sessions count_test_defs)

lemma count_test_session_count: "event_session_count count_test_db 1 = 3"
  unfolding event_session_count_card count_test_event_sessions by (simp add: count_test_defs)

theorem event_session_count_sum_witness:
  "event_session_count count_test_db 1 = 3 \<and>
   map (\<lambda>m. module_session_count count_test_db (mo_id m)) (module_ids count_test_db 1) = [1, 2]"
proof -
  have "event_session_count count_test_db 1 =
          sum_list (map (\<lambda>m. module_session_count count_test_db (mo_id m)) (module_ids count_test_db 1))"
    by (rule event_session_count_sum) (simp_all add: count_test_defs)
  moreover have "map (\<lambda>m. module_session_count count_test_db (mo_id m)) (module_ids count_test_db 1) = [1, 2]"
    by (simp add: module_session_count_def module_ids_def session_ids_def module_order_def count_test_defs)
  ultimately show ?thesis by simp
qed

theorem unlink_session_count_witness:
  "unlink_session count_test_db 2 =
     Inr (count_test_db\<lparr>sessions := [count_test_session 1 1 test_now (test_now + 7200),
                                      count_test_session 3 2 (test_now + 21600) (test_now + 25200)]\<rparr>) \<and>
   event_session_count count_test_db 1 = 3 \<and>
   event_session_count (count_test_db\<lparr>sessions := [count_test_session 1 1 test_now (test_now + 7200),
                                      count_test_session 3 2 (test_now + 21600) (test_now + 25200)]\<rparr>) 1 = 2"
proof -
  have f: "find_session count_test_db 2 = Some (count_test_session 2 2 (test_now + 10800) (test_now + 18000))"
    by (simp add: find_session_def count_test_defs)
  have u: "unlink_session count_test_db 2 =
     Inr (count_test_db\<lparr>sessions := [count_test_session 1 1 test_now (test_now + 7200),
                                      count_test_session 3 2 (test_now + 21600) (test_now + 25200)]\<rparr>)"
    by (simp add: unlink_session_def f) (simp add: count_test_defs)
  note c = count_test_session_count
  have "count_test_session 2 2 (test_now + 10800) (test_now + 18000) \<in> set (event_sessions count_test_db 1)"
    unfolding count_test_event_sessions by (simp add: count_test_db_def)
  moreover have "event_session_count (count_test_db\<lparr>sessions := [count_test_session 1 1 test_now (test_now + 7200),
                                      count_test_session 3 2 (test_now + 21600) (test_now + 25200)]\<rparr>) 1 =
      (if count_test_session 2 2 (test_now + 10800) (test_now + 18000) \<in> set (event_sessions count_test_db 1)
       then event_session_count count_test_db 1 - 1 else event_session_count count_test_db 1)"
    by (rule unlink_session_count [OF _ f u]) (simp add: count_test_defs)
  ultimately show ?thesis using c u by simp
qed

theorem write_session_reschedule_witness:
  "write_session count_test_db 3 (reschedule_w (test_now + 18000) (test_now + 21600)) =
     Inr (replace_session count_test_db
            (count_test_session 3 2 (test_now + 21600) (test_now + 25200)\<lparr>
               se_date_start := test_now + 18000, se_date_end := test_now + 21600,
               se_duration_hours := session_duration_hours (Some (test_now + 18000)) (Some (test_now + 21600))\<rparr>)) \<and>
   (\<forall>db'. write_session count_test_db 3 (reschedule_w (test_now + 3600) (test_now + 9000)) \<noteq> Inr db')"
proof -
  have f: "find_session count_test_db 3 = Some (count_test_session 3 2 (test_now + 21600) (test_now + 25200))"
    by (simp add: find_session_def count_test_defs)
  from write_session_reschedule [OF f] show ?thesis
    by (simp add: reschedule_w_def) (simp add: count_test_defs)
qed

theorem create_session_overlap_witness:
  "create_session overlap_test_db (test_session_vals ''Sessione 2'' 1 (test_now + 1800) (test_now + 10800)) =
     Inl (Validation_error (Session_overlap ''Sessione 1'' test_now (test_now + 7200)))"
proof -
  let ?a = "new_session 1 session_test_module (test_session_vals ''Sessione 1'' 1 test_now (test_now + 7200))"
  have "\<exists>c0\<in>set (sessions overlap_test_db). se_active c0 \<and> se_event_id c0 = mo_event_id session_test_module \<and>
      se_date_start c0 < test_now + 10800 \<and> test_now + 1800 < se_date_end c0 \<and>
      create_session overlap_test_db (test_session_vals ''Sessione 2'' 1 (test_now + 1800) (test_now + 10800)) =
        Inl (Validation_error (Session_overlap (se_name c0) (se_date_start c0) (se_date_end c0))) \<and>
      (\<forall>c'\<in>set (sessions overlap_test_db). se_active c' \<and> se_id c' \<noteq> next_session_id overlap_test_db \<and>
         se_event_id c' = mo_event_id session_test_module \<and>
         se_date_start c' < test_now + 10800 \<and> test_now + 1800 < se_date_end c' \<longrightarrow>
         session_order c0 \<le> session_order c')"
    using create_session_overlap [of overlap_test_db "test_session_vals ''Sessione 2'' 1 (test_now + 1800) (test_now + 10800)"
        session_test_module ?a]
    by (simp add: overlap_test_db_def session_test_db_def find_module_def test_session_vals_def
        new_session_def session_test_module_def empty_db_def test_now_def)
  then show ?thesis
    by (simp add: overlap_test_db_def new_session_def test_session_vals_def)
qed

lemma event_creation_test_eval:
  "event_creation_test =
      Inr (empty_db\<lparr>events := [new_event 1 (seq_code 1) (test_event_vals ''Evento Test'' Course test_today (test_today + 2))],
                   next_event_id := 2, code_seq := 2\<rparr>, 1)"
  by (simp add: event_creation_test_def create_event_def code_unique_error_def participants_fk_error_def
      event_dates_error_def empty_db_def test_event_vals_def Let_def del: decimal.simps)

text \<open>\<open>test_event_creation_duration\<close> holds in the model: the event is
  created with a code of the sequence (\<open>EVT/...\<close>), a duration of three days
  and the state draft.\<close>

lemma test_event_creation_duration:
  "\<exists>db i e. event_creation_test = Inr (db, i) \<and> find_event db i = Some e \<and>
     take 4 (ev_code e) = ''EVT/'' \<and> ev_duration_days e = 3 \<and> ev_state e = Draft"
  by (simp add: event_creation_test_eval find_event_def new_event_def seq_code_def test_event_vals_def event_duration_days_def
        del: decimal.simps)

text \<open>\<open>test_session_count_computation\<close> holds in the model: after an
  event, a module and two sessions of it are created, the event's
  \<open>session_count\<close> is 2.\<close>

lemma test_session_count_computation:
  "\<exists>db i. session_count_test = Inr (db, i) \<and> event_session_count db 1 = 2"
proof -
  let ?m = "\<lparr>mo_id = 1, mo_name = ''Modulo'', mo_description = None, mo_notes = None,
             mo_event_id = 1, mo_sequence = 10, mo_active = True\<rparr>"
  let ?db1 = "empty_db\<lparr>events := [new_event 1 (seq_code 1) (test_event_vals ''Evento con sessioni'' Seminar test_today test_today)],
                   next_event_id := 2, code_seq := 2, modules := [?m], next_module_id := 2\<rparr>"
  have su: "then_create (create_event empty_db (test_event_vals ''Evento con sessioni'' Seminar test_today test_today))
          (\<lambda>db e. create_module db (test_module_vals ''Modulo'' e)) = Inr (?db1, 1)"
    by (simp add: create_event_def create_module_def code_unique_error_def participants_fk_error_def
        event_dates_error_def empty_db_def test_event_vals_def test_module_vals_def find_event_def Let_def
        del: decimal.simps)
  let ?s1 = "new_session 1 ?m (test_session_vals ''Sessione 1'' 1 test_now (test_now + 7200))"
  let ?db2 = "?db1\<lparr>sessions := [?s1], next_session_id := 2\<rparr>"
  have m1: "find_module ?db1 (sv_module_id (test_session_vals ''Sessione 1'' 1 test_now (test_now + 7200))) = Some ?m"
    by (simp add: find_module_def test_session_vals_def)
  have s1: "create_session ?db1 (test_session_vals ''Sessione 1'' 1 test_now (test_now + 7200)) = Inr (?db2, 1)"
    unfolding create_session_def m1
    by (simp add: session_constraints_create check_overlap_def overlap_search_def overlap_domain_def first_by_def
        new_session_def empty_db_def test_session_vals_def Let_def del: decimal.simps session_duration_hours_Some)
  let ?s2 = "new_session 2 ?m (test_session_vals ''Sessione 2'' 1 (test_now + 10800) (test_now + 18000))"
  let ?db3 = "?db2\<lparr>sessions := [?s1, ?s2], next_session_id := 3\<rparr>"
  have m2: "find_module ?db2 (sv_module_id (test_session_vals ''Sessione 2'' 1 (test_now + 10800) (test_now + 18000))) = Some ?m"
    by (simp add: find_module_def test_session_vals_def)
  have s2: "create_session ?db2 (test_session_vals ''Sessione 2'' 1 (test_now + 10800) (test_now + 18000)) = Inr (?db3, 2)"
    unfolding create_session_def m2
    by (simp add: session_constraints_create check_overlap_def overlap_search_def overlap_domain_def first_by_def
        new_session_def test_session_vals_def Let_def del: decimal.simps session_duration_hours_Some)
  have "event_session_count ?db3 1 = 2"
    by (simp add: event_session_count_def event_sessions_def module_ids_def session_ids_def mapped_union_def
        session_order_def module_order_def new_session_def test_session_vals_def del: decimal.simps)
  with su s1 s2 show ?thesis by (simp add: session_count_test_def del: decimal.simps)
qed

theorem create_event_dates_witness:
  "(\<exists>err. create_event empty_db (test_event_vals ''Evento'' Course (test_today + 2) test_today) = Inl err) \<and>
   ev_duration_days (last [new_event 1 (seq_code 1) (test_event_vals ''Evento Test'' Course test_today (test_today + 2))]) = 3"
proof -
  have "create_event empty_db (test_event_vals ''Evento Test'' Course test_today (test_today + 2)) =
      Inr (empty_db\<lparr>events := [new_event 1 (seq_code 1) (test_event_vals ''Evento Test'' Course test_today (test_today + 2))],
                   next_event_id := 2, code_seq := 2\<rparr>, 1)"
    using event_creation_test_eval by (simp add: event_creation_test_def)
  with create_event_dates [of "test_event_vals ''Evento Test'' Course test_today (test_today + 2)" empty_db]
    create_event_dates [of "test_event_vals ''Evento'' Course (test_today + 2) test_today" empty_db]
  show ?thesis by (simp add: test_event_vals_def del: decimal.simps)
qed

theorem state_writes_unconstrained_witness:
  "write_event clone_test_db 1 (no_event_write\<lparr>ew_state := Some Closed\<rparr>) =
     Inr (clone_test_db\<lparr>events := [clone_test_event\<lparr>ev_state := Closed\<rparr>]\<rparr>) \<and>
   write_session overlap_test_db 1 (no_session_write\<lparr>sw_state := Some Session_closed\<rparr>) =
     Inr (replace_session overlap_test_db
            (new_session 1 session_test_module (test_session_vals ''Sessione 1'' 1 test_now (test_now + 7200))
               \<lparr>se_state := Session_closed\<rparr>))"
proof -
  let ?a = "new_session 1 session_test_module (test_session_vals ''Sessione 1'' 1 test_now (test_now + 7200))"
  have e: "find_event clone_test_db 1 = Some clone_test_event"
    by (simp add: find_event_def clone_test_db_def clone_test_event_def)
  have s: "find_session overlap_test_db 1 = Some ?a"
    by (simp add: find_session_def overlap_test_db_def)
  have "write_event clone_test_db 1 (no_event_write\<lparr>ew_state := Some Closed\<rparr>) =
      Inr (clone_test_db\<lparr>events := map (\<lambda>x. if ev_id x = 1 then clone_test_event\<lparr>ev_state := Closed\<rparr> else x)
                                      (events clone_test_db)\<rparr>)"
    using state_writes_unconstrained [where db = clone_test_db and i = 1 and e = clone_test_event and st = Closed] e
    by blast
  moreover have "write_session overlap_test_db 1 (no_session_write\<lparr>sw_state := Some Session_closed\<rparr>) =
      Inr (replace_session overlap_test_db (?a\<lparr>se_state := Session_closed\<rparr>))"
    using state_writes_unconstrained [where db = overlap_test_db and j = 1 and s = ?a and ss = Session_closed] s
    by blast
  ultimately show ?thesis by (simp add: clone_test_db_def clone_test_event_def)
qed

end
