(* ===== verification/Report.thy ===== *)
theory Report
  imports Records
begin

text \<open>
  The aggregation views of \<open>TrainingEvent\<close> that read sessions:
  \<open>_get_sessions_grouped_by_day\<close> (src/addons/training_event/models/training_event.py),
  modelled as the loop it is (\<open>group_loop\<close>, its state the groups so far,
  the current day and the current sessions), and a reference definition
  (\<open>runs\<close>: the maximal runs of consecutive sessions with the same day) that
  the loop is proved to compute.
\<close>

section \<open>The grouping loop\<close>

record day_group =
  g_day :: "date option"
  g_sessions :: "session list"
  g_duration :: rat

text \<open>The sessions the loop scans: \<open>module_ids.mapped("session_ids")\<close>
  sorted by \<open>(date_start, sequence)\<close> (Python's \<open>sorted\<close> is stable).\<close>

definition report_sessions :: "db \<Rightarrow> rec_id \<Rightarrow> session list" where
  "report_sessions db e = sort_key (\<lambda>s. (se_date_start s, se_sequence s)) (event_sessions db e)"

text \<open>\<open>if current_sessions: grouped.append({...})\<close>.\<close>

definition flush_group :: "date option \<Rightarrow> session list \<Rightarrow> day_group list" where
  "flush_group d ss =
     (if ss \<noteq> [] then [\<lparr>g_day = d, g_sessions = ss, g_duration = sum_list (map se_duration_hours ss)\<rparr>]
      else [])"

text \<open>\<open>date_start\<close> is a required field, so the loop's
  \<open>if not session.date_start: continue\<close> never skips a stored session.\<close>

fun group_loop :: "day_group list \<Rightarrow> date option \<Rightarrow> session list \<Rightarrow> session list \<Rightarrow> day_group list" where
  "group_loop grouped cur cs [] = grouped @ flush_group cur cs"
| "group_loop grouped cur cs (s # ss) =
     (let day = day_of (se_date_start s)
      in if Some day \<noteq> cur then group_loop (grouped @ flush_group cur cs) (Some day) [s] ss
         else group_loop grouped cur (cs @ [s]) ss)"

definition sessions_grouped_by_day :: "db \<Rightarrow> rec_id \<Rightarrow> day_group list" where
  "sessions_grouped_by_day db e = group_loop [] None [] (report_sessions db e)"

section \<open>Reference definition\<close>

definition merge_head :: "'k \<Rightarrow> 'a list \<Rightarrow> ('k \<times> 'a list) list \<Rightarrow> ('k \<times> 'a list) list" where
  "merge_head k xs rs =
     (case rs of [] \<Rightarrow> [(k, xs)]
      | (k', ys) # rs' \<Rightarrow> if k' = k then (k, xs @ ys) # rs' else (k, xs) # rs)"

fun runs :: "('a \<Rightarrow> 'k) \<Rightarrow> 'a list \<Rightarrow> ('k \<times> 'a list) list" where
  "runs f [] = []"
| "runs f (x # xs) = merge_head (f x) [x] (runs f xs)"

definition mk_group :: "date \<times> session list \<Rightarrow> day_group" where
  "mk_group r = \<lparr>g_day = Some (fst r), g_sessions = snd r,
                 g_duration = sum_list (map se_duration_hours (snd r))\<rparr>"

section \<open>Lemmas\<close>

lemma merge_head_merge_head_same:
  "merge_head k xs (merge_head k ys rs) = merge_head k (xs @ ys) rs"
  by (auto simp: merge_head_def split: list.splits)

lemma merge_head_merge_head_other:
  "k' \<noteq> k \<Longrightarrow> merge_head k xs (merge_head k' ys rs) = (k, xs) # merge_head k' ys rs"
  by (auto simp: merge_head_def split: list.splits)

lemma group_loop_runs_cur:
  "cs \<noteq> [] \<Longrightarrow>
   group_loop grouped (Some d) cs ss =
     grouped @ map mk_group (merge_head d cs (runs (\<lambda>s. day_of (se_date_start s)) ss))"
proof (induction ss arbitrary: grouped d cs)
  case Nil
  then show ?case by (simp add: flush_group_def merge_head_def mk_group_def)
next
  case (Cons s ss)
  let ?f = "\<lambda>s. day_of (se_date_start s)"
  show ?case
  proof (cases "?f s = d")
    case True
    with Cons show ?thesis by (simp add: Let_def merge_head_merge_head_same)
  next
    case False
    with Cons show ?thesis
      by (simp add: Let_def merge_head_merge_head_other flush_group_def mk_group_def)
  qed
qed

text \<open>The grouping loop computes the maximal runs of consecutive sessions
  with the same calendar day, each with the sum of its durations.\<close>

theorem group_loop_eq_runs:
  "group_loop [] None [] ss = map mk_group (runs (\<lambda>s. day_of (se_date_start s)) ss)"
proof (cases ss)
  case Nil
  then show ?thesis by (simp add: flush_group_def)
next
  case (Cons s ss')
  then show ?thesis by (simp add: flush_group_def group_loop_runs_cur)
qed

lemma concat_runs [simp]: "concat (map snd (runs f xs)) = xs"
  by (induction xs) (auto simp: merge_head_def split: list.splits)

lemma runs_keys:
  "(k, ys) \<in> set (runs f xs) \<Longrightarrow> ys \<noteq> [] \<and> (\<forall>y\<in>set ys. f y = k)"
proof (induction xs arbitrary: k ys)
  case Nil
  then show ?case by simp
next
  case (Cons x xs)
  show ?case
  proof (cases "runs f xs")
    case Nil
    with Cons.prems show ?thesis by (simp add: merge_head_def)
  next
    case (Cons r rs)
    obtain k' ys' where r: "r = (k', ys')" by (cases r)
    have hd: "ys' \<noteq> [] \<and> (\<forall>y\<in>set ys'. f y = k')"
      using Cons.IH [of k' ys'] Cons r by simp
    have tl: "\<And>k2 ys2. (k2, ys2) \<in> set rs \<Longrightarrow> ys2 \<noteq> [] \<and> (\<forall>y\<in>set ys2. f y = k2)"
      using Cons.IH Cons by auto
    show ?thesis
    proof (cases "k' = f x")
      case True
      with Cons.prems Cons r hd tl show ?thesis by (auto simp: merge_head_def)
    next
      case False
      with Cons.prems Cons r hd tl show ?thesis by (auto simp: merge_head_def)
    qed
  qed
qed

lemma runs_first_key: "runs f xs = r # rs \<Longrightarrow> fst r = f (hd xs)"
  by (cases xs) (auto simp: merge_head_def split: list.splits if_splits)

lemma runs_sorted:
  "sorted (map f xs) \<Longrightarrow> sorted_wrt (<) (map fst (runs f xs))"
proof (induction xs)
  case Nil
  then show ?case by simp
next
  case (Cons x xs)
  have IH: "sorted_wrt (<) (map fst (runs f xs))" using Cons by simp
  show ?case
  proof (cases "runs f xs")
    case Nil
    then show ?thesis by (simp add: merge_head_def)
  next
    case (Cons r rs)
    then have "xs \<noteq> []" by auto
    then have "f x \<le> fst r"
      using \<open>sorted (map f (x # xs))\<close> runs_first_key [OF Cons] by (cases xs) auto
    then show ?thesis using IH Cons
      by (cases r) (auto simp: merge_head_def intro: order.strict_trans1)
  qed
qed

lemma sorted_report_days:
  "sorted (map (\<lambda>s. day_of (se_date_start s)) (report_sessions db e))"
proof -
  have "sorted (map (\<lambda>s. (se_date_start s, se_sequence s)) (report_sessions db e))"
    by (simp add: report_sessions_def)
  then have "sorted (map se_date_start (report_sessions db e))"
    unfolding sorted_map by (rule sorted_wrt_mono_rel [rotated]) auto
  then show ?thesis
    by (simp add: sorted_map sorted_wrt_mono_rel [where P = "\<lambda>x y. se_date_start x \<le> se_date_start y"] day_of_mono)
qed

lemma sum_runs: "sum_list (map (\<lambda>r. sum_list (map g (snd r))) rs) = sum_list (map g (concat (map snd rs)))"
  by (induction rs) auto

lemma sessions_grouped_by_day_total:
  "sum_list (map g_duration (sessions_grouped_by_day db e)) = sum_list (map se_duration_hours (report_sessions db e))"
proof -
  have "sum_list (map g_duration (sessions_grouped_by_day db e)) =
          sum_list (map (\<lambda>r. sum_list (map se_duration_hours (snd r)))
            (runs (\<lambda>s. day_of (se_date_start s)) (report_sessions db e)))"
    by (simp add: sessions_grouped_by_day_def group_loop_eq_runs mk_group_def comp_def)
  then show ?thesis by (simp only: sum_runs concat_runs)
qed

text \<open>C6. The day-grouped report partitions the event's sessions, in their
  sorted order, into non-empty groups of one calendar day each, with strictly
  increasing days and each group's duration the sum of its sessions'.\<close>

theorem sessions_grouped_by_day_spec:
  "concat (map g_sessions (sessions_grouped_by_day db e)) = report_sessions db e \<and>
   (\<forall>g\<in>set (sessions_grouped_by_day db e).
      g_sessions g \<noteq> [] \<and> (\<forall>s\<in>set (g_sessions g). g_day g = Some (day_of (se_date_start s))) \<and>
      g_duration g = sum_list (map se_duration_hours (g_sessions g))) \<and>
   (\<exists>ds. map g_day (sessions_grouped_by_day db e) = map Some ds \<and> sorted_wrt (<) ds)"
proof -
  let ?f = "\<lambda>s. day_of (se_date_start s)"
  let ?R = "runs ?f (report_sessions db e)"
  have G: "sessions_grouped_by_day db e = map mk_group ?R"
    by (simp add: sessions_grouped_by_day_def group_loop_eq_runs)
  have "concat (map g_sessions (map mk_group ?R)) = report_sessions db e"
    using concat_runs [of ?f "report_sessions db e"] by (simp add: mk_group_def comp_def)
  moreover have "\<forall>g\<in>set (map mk_group ?R).
      g_sessions g \<noteq> [] \<and> (\<forall>s\<in>set (g_sessions g). g_day g = Some (?f s)) \<and>
      g_duration g = sum_list (map se_duration_hours (g_sessions g))"
    using runs_keys by (fastforce simp: mk_group_def)
  moreover have "map g_day (map mk_group ?R) = map Some (map fst ?R)"
    by (simp add: mk_group_def)
  moreover have "sorted_wrt (<) (map fst ?R)"
    using sorted_report_days by (rule runs_sorted)
  ultimately show ?thesis unfolding G by blast
qed

text \<open>C7. \<open>_get_sessions_grouped_by_day\<close> equals the reference
  definition: the maximal runs, by calendar day, of the event's sessions in
  report order, each with the sum of its durations.\<close>

theorem sessions_grouped_by_day_runs:
  "sessions_grouped_by_day db e =
     map mk_group (runs (\<lambda>s. day_of (se_date_start s)) (report_sessions db e))"
  by (simp add: sessions_grouped_by_day_def group_loop_eq_runs)

end
