(* ===== verification/Export.thy ===== *)
theory Export
  imports Report Participant
begin

text \<open>
  The Excel export of an event (\<open>TrainingEvent.action_export_excel\<close> and the
  \<open>_fill_excel_*\<close> methods of src/addons/training_event/models/training_event.py):
  a workbook of four sheets, each the sequence of \<open>sheet.write(row, col, value)\<close>
  calls the code makes, in its order, and its \<open>set_column\<close> calls. The
  formats of single cells (bold headers, wrapped text) are presentation and
  are not modelled; the bytes of the xlsx file
  (xlsxwriter, base64) are not modelled. The data the code reads from other
  models (a user's name, a contact's email and phone, the formatted time of
  the file name) come in an \<open>export_env\<close>.
\<close>

section \<open>Cells and grids\<close>

datatype cell = Text string | Number int | Decimal rat | Stamp datetime

type_synonym cells = "(nat \<times> nat \<times> cell) list"

text \<open>A \<open>sheet.set_column("A:B", width[, wrap_format])\<close> call: first and
  last column (0 for A), width, and whether the wrap format is given.\<close>

type_synonym col_format = "nat \<times> nat \<times> nat \<times> bool"

record sheet =
  sheet_name :: string
  sheet_cells :: cells
  sheet_columns :: "col_format list"

text \<open>Every sheet is written row by row, column 0 upwards: \<open>grid_row r vs\<close>
  is the writes of one row, \<open>grid r0 rows\<close> those of consecutive rows from
  \<open>r0\<close> (the code's \<open>row = 1 ... row += 1\<close> loops).\<close>

definition grid_row :: "nat \<Rightarrow> cell list \<Rightarrow> cells" where
  "grid_row r vs = map (\<lambda>(c, v). (r, c, v)) (enumerate 0 vs)"

definition grid :: "nat \<Rightarrow> cell list list \<Rightarrow> cells" where
  "grid r0 rows = concat (map (\<lambda>(r, vs). grid_row r vs) (enumerate r0 rows))"

text \<open>What a cell of the file holds: the last value written there.\<close>

definition cell_at :: "cells \<Rightarrow> nat \<Rightarrow> nat \<Rightarrow> cell option" where
  "cell_at cs r c =
     (case filter (\<lambda>(r', c', _). r' = r \<and> c' = c) cs of [] \<Rightarrow> None | xs \<Rightarrow> Some (snd (snd (last xs))))"

definition data_row_count :: "cells \<Rightarrow> nat" where
  "data_row_count cs = card (fst ` set cs - {0})"

text \<open>The values written in column \<open>c\<close>, top to bottom.\<close>

definition column :: "cells \<Rightarrow> nat \<Rightarrow> cell list" where
  "column cs c = map (snd \<circ> snd) (filter (\<lambda>w. fst (snd w) = c) cs)"

definition pos :: "nat \<times> nat \<times> cell \<Rightarrow> nat \<times> nat" where
  "pos w = (fst w, fst (snd w))"

section \<open>Selection labels\<close>

text \<open>\<open>dict(self._fields[...].selection).get(value, "")\<close>: the label of a
  selection value, as the source writes it.\<close>

fun event_type_label :: "event_type \<Rightarrow> string" where
  "event_type_label Course = ''Corso''"
| "event_type_label Workshop = ''Workshop''"
| "event_type_label Seminar = ''Seminario''"
| "event_type_label Conference = ''Conferenza''"

fun event_state_label :: "event_state \<Rightarrow> string" where
  "event_state_label Draft = ''Bozza''"
| "event_state_label Programmed = ''Programmato''"
| "event_state_label Designed = ''Progettato''"
| "event_state_label In_progress = ''In Corso''"
| "event_state_label In_review = ''In Verifica''"
| "event_state_label Closed = ''Chiuso''"

fun session_state_label :: "session_state \<Rightarrow> string" where
  "session_state_label Idea = ''Ideata''"
| "session_state_label Session_designed = ''Progettata''"
| "session_state_label Session_closed = ''Chiusa''"

fun role_label :: "role \<Rightarrow> string" where
  "role_label Student = ''Allievo''"
| "role_label Trainer = ''Formatore''"

text \<open>\<open>value or ""\<close> on an optional text field.\<close>

definition or_empty :: "string option \<Rightarrow> string" where
  "or_empty x = (case x of None \<Rightarrow> [] | Some t \<Rightarrow> t)"

fun join :: "string \<Rightarrow> string list \<Rightarrow> string" where
  "join sep [] = []"
| "join sep [x] = x"
| "join sep (x # y # ys) = x @ sep @ join sep (y # ys)"

section \<open>The four sheets\<close>

text \<open>What the export reads from models outside the addon: the name, login
  and archive flag of a user (\<open>res.users\<close>), the email and phone of a contact (\<open>res.partner\<close>,
  through the related fields of \<open>training.participant\<close>), and
  \<open>fields.Datetime.now().strftime("%Y%m%d_%H%M%S")\<close>.\<close>

record export_env =
  ex_user_name :: "user_id \<Rightarrow> string"
  ex_user_login :: "user_id \<Rightarrow> string"
  ex_user_active :: "user_id \<Rightarrow> bool"
  ex_email :: "partner_id \<Rightarrow> string option"
  ex_phone :: "partner_id \<Rightarrow> string option"
  ex_now :: string

text \<open>\<open>event.participant_ids\<close>: the active participants of the relation, in
  the participant model's \<open>_order\<close> (\<open>name\<close>, then id).\<close>

definition event_participant_ids :: "db \<Rightarrow> event \<Rightarrow> participant list" where
  "event_participant_ids db e =
     sort_key (\<lambda>p. (pa_name p, pa_id p))
       (filter (\<lambda>p. pa_active p \<and> pa_id p \<in> set (ev_participant_ids e)) (participants db))"

definition info_sheet :: "db \<Rightarrow> event \<Rightarrow> sheet" where
  "info_sheet db e =
     \<lparr>sheet_name = ''Informazioni Evento'',
      sheet_cells = grid 0
        [[Text ''Codice'', Text (ev_code e)],
         [Text ''Titolo'', Text (ev_name e)],
         [Text ''Tipologia'', Text (event_type_label (ev_type e))],
         [Text ''Data Inizio'', Stamp (ev_date_start e * 86400)],
         [Text ''Data Fine'', Stamp (ev_date_end e * 86400)],
         [Text ''Durata (giorni)'', Number (ev_duration_days e)],
         [Text ''Stato'', Text (event_state_label (ev_state e))],
         [Text ''N. Moduli'', Number (int (length (module_ids db (ev_id e))))],
         [Text ''N. Sessioni'', Number (int (event_session_count db (ev_id e)))],
         [Text ''N. Partecipanti'', Number (int (length (event_participant_ids db e)))]],
      sheet_columns = [(0, 0, 20, False), (1, 1, 50, True)]\<rparr>"

text \<open>The modules, \<open>module_ids.sorted(key=lambda m: (m.sequence, m.name or ""))\<close>.\<close>

definition export_modules :: "db \<Rightarrow> event \<Rightarrow> module list" where
  "export_modules db e = sort_key (\<lambda>m. (mo_sequence m, mo_name m)) (module_ids db (ev_id e))"

definition module_row :: "db \<Rightarrow> event \<Rightarrow> module \<Rightarrow> cell list" where
  "module_row db e m =
     [Text (ev_code e), Number (mo_sequence m), Text (mo_name m), Text (or_empty (mo_description m)),
      Number (int (module_session_count db (mo_id m)))]"

definition modules_sheet :: "db \<Rightarrow> event \<Rightarrow> sheet" where
  "modules_sheet db e =
     \<lparr>sheet_name = ''Moduli'',
      sheet_cells = grid 0
        (map Text [''Codice Evento'', ''Sequenza'', ''Titolo Modulo'', ''Descrizione'', ''N. Sessioni''] #
         map (module_row db e) (export_modules db e)),
      sheet_columns = [(0, 0, 18, False), (1, 1, 12, False), (2, 2, 40, False), (3, 3, 50, True),
                       (4, 4, 15, False)]\<rparr>"

text \<open>The sessions are \<open>module_ids.mapped("session_ids")\<close> sorted by
  \<open>(date_start, sequence)\<close>: the list the day-grouped report scans. Their
  dates are required, so both date cells are always written.\<close>

text \<open>\<open>session.trainer_ids\<close>: a many2many read returns the active users
  of the relation in the \<open>_order\<close> of \<open>res.users\<close> (\<open>name, login\<close>, then id).\<close>

definition session_trainers :: "export_env \<Rightarrow> session \<Rightarrow> user_id list" where
  "session_trainers x s =
     sort_key (\<lambda>u. (ex_user_name x u, ex_user_login x u, u)) (filter (ex_user_active x) (se_trainer_ids s))"

definition session_row :: "export_env \<Rightarrow> db \<Rightarrow> event \<Rightarrow> session \<Rightarrow> cell list" where
  "session_row x db e s =
     [Text (ev_code e),
      Text (case find_module db (se_module_id s) of None \<Rightarrow> [] | Some m \<Rightarrow> mo_name m),
      Text (se_name s), Stamp (se_date_start s), Stamp (se_date_end s), Decimal (se_duration_hours s),
      Text (join '', '' (map (ex_user_name x) (session_trainers x s))),
      Text (session_state_label (se_state s)), Text (or_empty (se_materials s)),
      Text (or_empty (se_notes s))]"

definition sessions_sheet :: "export_env \<Rightarrow> db \<Rightarrow> event \<Rightarrow> sheet" where
  "sessions_sheet x db e =
     \<lparr>sheet_name = ''Sessioni'',
      sheet_cells = grid 0
        (map Text [''Codice Evento'', ''Modulo'', ''Titolo Sessione'', ''Data/Ora Inizio'',
                   ''Data/Ora Fine'', ''Durata (ore)'', ''Formatori'', ''Stato'', ''Materiali'', ''Note''] #
         map (session_row x db e) (report_sessions db (ev_id e))),
      sheet_columns = [(0, 0, 18, False), (1, 1, 30, False), (2, 2, 40, False), (3, 4, 22, False),
                       (5, 5, 15, False), (6, 6, 40, True), (7, 7, 15, False), (8, 9, 40, True)]\<rparr>"

definition participant_row :: "export_env \<Rightarrow> event \<Rightarrow> participant \<Rightarrow> cell list" where
  "participant_row x e p =
     [Text (ev_code e), Text (pa_name p), Text (or_empty (ex_email x (pa_partner_id p))),
      Text (or_empty (ex_phone x (pa_partner_id p))), Text (role_label (pa_role p))]"

definition participants_sheet :: "export_env \<Rightarrow> db \<Rightarrow> event \<Rightarrow> sheet" where
  "participants_sheet x db e =
     \<lparr>sheet_name = ''Partecipanti'',
      sheet_cells = grid 0
        (map Text [''Codice Evento'', ''Nome'', ''Email'', ''Telefono'', ''Ruolo''] #
         map (participant_row x e) (sort_key pa_name (event_participant_ids db e))),
      sheet_columns = [(0, 0, 18, False), (1, 1, 35, False), (2, 2, 40, False), (3, 3, 20, False),
                       (4, 4, 15, False)]\<rparr>"

section \<open>The workbook and the action\<close>

definition excel_workbook :: "export_env \<Rightarrow> db \<Rightarrow> event \<Rightarrow> sheet list" where
  "excel_workbook x db e =
     [info_sheet db e, modules_sheet db e, sessions_sheet x db e, participants_sheet x db e]"

definition export_filename :: "string \<Rightarrow> string \<Rightarrow> string" where
  "export_filename code stamp =
     ''evento_'' @ (if code = [] then ''senza_codice'' else code) @ ''_attivita_'' @ stamp @ ''.xlsx''"

text \<open>\<open>action_export_excel\<close> on one event (\<open>ensure_one\<close>): the file name
  and the workbook of the download action.\<close>

definition action_export_excel :: "export_env \<Rightarrow> db \<Rightarrow> rec_id \<Rightarrow> error + string \<times> sheet list" where
  "action_export_excel x db i =
     (case find_event db i of
        None \<Rightarrow> Inl Missing_error
      | Some e \<Rightarrow> Inr (export_filename (ev_code e) (ex_now x), excel_workbook x db e))"

section \<open>Lemmas on grids\<close>

lemma grid_row_upt: "grid_row r vs = map (\<lambda>c. (r, c, vs ! c)) [0..<length vs]"
  by (rule nth_equalityI) (simp_all add: grid_row_def enumerate_eq_zip)

lemma set_grid_row: "set (grid_row r vs) = {(r, c, vs ! c) | c. c < length vs}"
  by (auto simp: grid_row_upt)

lemma distinct_grid_row: "distinct (map pos (grid_row r vs))"
  by (simp add: grid_row_upt pos_def distinct_map inj_on_def)

lemma grid_Cons: "grid r0 (vs # rows) = grid_row r0 vs @ grid (Suc r0) rows"
  by (simp add: grid_def)

lemma grid_Nil [simp]: "grid r0 [] = []"
  by (simp add: grid_def)

lemma set_grid:
  "set (grid r0 rows) = {(r0 + k, c, rows ! k ! c) | k c. k < length rows \<and> c < length (rows ! k)}"
proof (induction rows arbitrary: r0)
  case Nil
  then show ?case by simp
next
  case (Cons vs rows)
  show ?case
  proof (rule set_eqI)
    fix w
    show "w \<in> set (grid r0 (vs # rows)) \<longleftrightarrow>
          w \<in> {(r0 + k, c, (vs # rows) ! k ! c) | k c. k < length (vs # rows) \<and> c < length ((vs # rows) ! k)}"
      unfolding grid_Cons set_append set_grid_row Cons.IH
      by (auto simp: nth_Cons' split: if_splits)
  qed
qed

lemma distinct_grid: "distinct (map pos (grid r0 rows))"
proof (induction rows arbitrary: r0)
  case Nil
  then show ?case by simp
next
  case (Cons vs rows)
  have "pos ` set (grid_row r0 vs) \<inter> pos ` set (grid (Suc r0) rows) = {}"
    by (auto simp: set_grid_row set_grid pos_def)
  with Cons.IH [of "Suc r0"] distinct_grid_row [of r0 vs] show ?case
    by (simp add: grid_Cons)
qed

lemma cell_at_distinct:
  assumes "distinct (map pos cs)" and "(r, c, v) \<in> set cs"
  shows "cell_at cs r c = Some v"
proof -
  have "filter (\<lambda>(r', c', _). r' = r \<and> c' = c) cs = [(r, c, v)]"
    using assms
  proof (induction cs)
    case Nil
    then show ?case by simp
  next
    case (Cons w cs)
    show ?case
    proof (cases "w = (r, c, v)")
      case True
      with Cons.prems have "\<forall>w'\<in>set cs. pos w' \<noteq> (r, c)" by (auto simp: pos_def)
      with True show ?thesis by (auto simp: filter_empty_iff pos_def)
    next
      case False
      with Cons.prems have "(r, c, v) \<in> set cs" "pos w \<noteq> (r, c)"
        by (auto simp: pos_def image_iff)
      with Cons show ?thesis by (auto simp: pos_def split: prod.splits)
    qed
  qed
  then show ?thesis by (simp add: cell_at_def)
qed

lemma cell_at_grid:
  "k < length rows \<Longrightarrow> c < length (rows ! k) \<Longrightarrow> cell_at (grid r0 rows) (r0 + k) c = Some (rows ! k ! c)"
  by (rule cell_at_distinct [OF distinct_grid]) (auto simp: set_grid)

lemma data_row_count_grid:
  assumes "\<forall>vs\<in>set rows. vs \<noteq> []"
  shows "data_row_count (grid 0 (h # rows)) = length rows"
proof -
  have "fst ` set (grid 0 (h # rows)) - {0} = Suc ` {..<length rows}"
  proof (rule set_eqI)
    fix r
    have "r \<in> fst ` set (grid 0 (h # rows)) \<longleftrightarrow>
          r < Suc (length rows) \<and> (h # rows) ! r \<noteq> []"
      by (force simp: set_grid image_iff)
    moreover have "0 < r \<Longrightarrow> r < Suc (length rows) \<Longrightarrow> (h # rows) ! r \<noteq> []"
      using assms by (cases r) auto
    ultimately show "r \<in> fst ` set (grid 0 (h # rows)) - {0} \<longleftrightarrow> r \<in> Suc ` {..<length rows}"
      by (cases r) auto
  qed
  then show ?thesis by (simp add: data_row_count_def card_image)
qed

section \<open>Lemmas on the export\<close>

lemma length_report_sessions: "length (report_sessions db e) = event_session_count db e"
  by (simp add: report_sessions_def event_session_count_def)

lemma action_export_excel_Inr:
  "action_export_excel x db i = Inr (fn, wb) \<longleftrightarrow>
   (\<exists>e. find_event db i = Some e \<and> fn = export_filename (ev_code e) (ex_now x) \<and> wb = excel_workbook x db e)"
  by (auto simp: action_export_excel_def split: option.splits)

lemma info_sheet_counts:
  "cell_at (sheet_cells (info_sheet db e)) 7 1 = Some (Number (int (length (module_ids db (ev_id e))))) \<and>
   cell_at (sheet_cells (info_sheet db e)) 8 1 = Some (Number (int (event_session_count db (ev_id e)))) \<and>
   cell_at (sheet_cells (info_sheet db e)) 9 1 = Some (Number (int (length (event_participant_ids db e))))"
  using cell_at_grid [of 7 _ 1 0] cell_at_grid [of 8 _ 1 0] cell_at_grid [of 9 _ 1 0]
  by (simp add: info_sheet_def numeral_eq_Suc)

text \<open>C20. The export is consistent across its sheets: the counts of the
  information sheet (modules, sessions, participants) are the numbers of
  data rows of the Moduli, Sessioni and Partecipanti sheets.\<close>

theorem export_counts_consistent:
  assumes "action_export_excel x db i = Inr (fn, wb)"
  shows "cell_at (sheet_cells (wb ! 0)) 7 1 = Some (Number (int (data_row_count (sheet_cells (wb ! 1))))) \<and>
         cell_at (sheet_cells (wb ! 0)) 8 1 = Some (Number (int (data_row_count (sheet_cells (wb ! 2))))) \<and>
         cell_at (sheet_cells (wb ! 0)) 9 1 = Some (Number (int (data_row_count (sheet_cells (wb ! 3)))))"
proof -
  obtain e where wb: "wb = excel_workbook x db e" using assms by (auto simp: action_export_excel_Inr)
  have m: "data_row_count (sheet_cells (modules_sheet db e)) = length (module_ids db (ev_id e))"
    by (simp add: modules_sheet_def data_row_count_grid module_row_def export_modules_def)
  have s: "data_row_count (sheet_cells (sessions_sheet x db e)) = event_session_count db (ev_id e)"
    by (simp add: sessions_sheet_def data_row_count_grid session_row_def length_report_sessions)
  have p: "data_row_count (sheet_cells (participants_sheet x db e)) = length (event_participant_ids db e)"
    by (simp add: participants_sheet_def data_row_count_grid participant_row_def)
  show ?thesis using m s p info_sheet_counts [of db e] by (simp add: wb excel_workbook_def)
qed

lemma filter_upt_eq: "c < n \<Longrightarrow> filter (\<lambda>x. x = c) [0..<n] = [c]"
  by (induction n) (auto simp: filter_empty_iff)

lemma column_grid_row: "c < length vs \<Longrightarrow> column (grid_row r vs) c = [vs ! c]"
  by (simp add: column_def grid_row_upt filter_map comp_def filter_upt_eq)

lemma column_grid:
  "\<forall>vs\<in>set rows. c < length vs \<Longrightarrow> column (grid r0 rows) c = map (\<lambda>vs. vs ! c) rows"
proof (induction rows arbitrary: r0)
  case Nil
  then show ?case by (simp add: column_def)
next
  case (Cons vs rows)
  then show ?case
    using column_grid_row [of c vs r0] by (simp add: grid_Cons column_def)
qed

text \<open>C21. The export and the day-grouped report agree: the Durata column
  of the Sessioni sheet lists one duration per session, below its header, and
  these durations add up to the total of the report's daily groups.\<close>

theorem export_durations_match_report:
  assumes "action_export_excel x db i = Inr (fn, wb)"
  shows "\<exists>ds. column (sheet_cells (wb ! 2)) 5 = Text ''Durata (ore)'' # map Decimal ds \<and>
              sum_list ds = sum_list (map g_duration (sessions_grouped_by_day db i))"
proof -
  obtain e where e: "find_event db i = Some e" and wb: "wb = excel_workbook x db e"
    using assms by (auto simp: action_export_excel_Inr)
  have i: "ev_id e = i" using find_event_mem [OF e] by simp
  have "column (sheet_cells (sessions_sheet x db e)) 5 =
          Text ''Durata (ore)'' # map Decimal (map se_duration_hours (report_sessions db i))"
    by (simp add: sessions_sheet_def column_grid session_row_def i comp_def)
  then show ?thesis
    by (intro exI [of _ "map se_duration_hours (report_sessions db i)"])
      (simp add: wb excel_workbook_def sessions_grouped_by_day_total)
qed

end
