(* ===== verification/Schedule.thy ===== *)
theory Schedule
  imports Session
begin

text \<open>
  The overlap validator seen through its contract (the addon's
  specification, 4.2): each event has a schedule, a set of booked slots
  (session id, start, end), and a booking is accepted when its end is after
  its start and it meets no slot of another session in an open interval.
  \<open>create_session_schedule\<close> shows that \<open>create_session\<close> answers as
  \<open>book\<close> does on the schedule of the module's event; with it, the progress
  property: a slot after the end of every active session of the event is
  always free, so the validator never blocks an event for good.
\<close>

section \<open>The abstract schedule\<close>

type_synonym slot = "rec_id \<times> datetime \<times> datetime"

definition meets :: "slot \<Rightarrow> slot \<Rightarrow> bool" where
  "meets x y \<longleftrightarrow> fst x \<noteq> fst y \<and> fst (snd y) < snd (snd x) \<and> fst (snd x) < snd (snd y)"

text \<open>A booking \<open>x\<close>; \<open>act\<close> says whether it takes its slot (an archived
  session is checked but holds none).\<close>

definition book :: "slot set \<Rightarrow> bool \<Rightarrow> slot \<Rightarrow> slot set option" where
  "book S act x =
     (if fst (snd x) < snd (snd x) \<and> (\<forall>y\<in>S. \<not> meets x y) then Some (if act then insert x S else S)
      else None)"

definition slot_of :: "session \<Rightarrow> slot" where
  "slot_of s = (se_id s, se_date_start s, se_date_end s)"

text \<open>The abstraction: the slots of the active sessions of an event.\<close>

definition schedule :: "db \<Rightarrow> rec_id \<Rightarrow> slot set" where
  "schedule db e = set (map slot_of (filter (\<lambda>s. se_active s \<and> se_event_id s = e) (sessions db)))"

text \<open>The first instant from which an event has no active session left.\<close>

definition free_from :: "db \<Rightarrow> rec_id \<Rightarrow> datetime" where
  "free_from db e = fold max (map se_date_end (filter (\<lambda>s. se_active s \<and> se_event_id s = e) (sessions db))) 0"

section \<open>Lemmas\<close>

lemma meets_slot_of: "meets (slot_of r) (slot_of c) \<longleftrightarrow> se_id r \<noteq> se_id c \<and> se_date_start c < se_date_end r \<and> se_date_start r < se_date_end c"
  by (simp add: meets_def slot_of_def)

lemma overlap_domain_meets:
  "overlap_domain r c \<longleftrightarrow> se_event_id c = se_event_id r \<and> meets (slot_of r) (slot_of c)"
  by (auto simp: overlap_domain_def meets_slot_of)

lemma check_overlap_book:
  "check_overlap db r = None \<longleftrightarrow> (\<forall>y\<in>schedule db (se_event_id r). \<not> meets (slot_of r) y)"
  by (auto simp: check_overlap_None_iff schedule_def overlap_domain_meets)

lemma schedule_append:
  "schedule (db\<lparr>sessions := sessions db @ [r], next_session_id := n\<rparr>) e =
     (if se_active r \<and> se_event_id r = e then insert (slot_of r) (schedule db e) else schedule db e)"
  by (auto simp: schedule_def)

lemma meets_irrefl [simp]: "\<not> meets x x"
  by (simp add: meets_def)

lemma set_schedule: "schedule db e = slot_of ` {s \<in> set (sessions db). se_active s \<and> se_event_id s = e}"
  by (auto simp: schedule_def)

lemma create_session_schedule:
  assumes "find_module db (sv_module_id v) = Some m"
  shows "book (schedule db (mo_event_id m)) (written (sv_active v) True)
            (slot_of (new_session (next_session_id db) m v)) =
         (case create_session db v of Inl _ \<Rightarrow> None | Inr (db', _) \<Rightarrow> Some (schedule db' (mo_event_id m)))"
proof -
  let ?r = "new_session (next_session_id db) m v"
  let ?db' = "db\<lparr>sessions := sessions db @ [?r], next_session_id := Suc (next_session_id db)\<rparr>"
  have sch: "schedule ?db' (mo_event_id m) =
      (if written (sv_active v) True then insert (slot_of ?r) (schedule db (mo_event_id m))
       else schedule db (mo_event_id m))"
    by (simp add: schedule_append new_session_def)
  have ov: "check_overlap ?db' ?r = None \<longleftrightarrow> (\<forall>y\<in>schedule db (mo_event_id m). \<not> meets (slot_of ?r) y)"
    by (simp add: check_overlap_book sch)
  have d: "fst (snd (slot_of ?r)) < snd (snd (slot_of ?r)) \<longleftrightarrow> sv_date_start v < sv_date_end v"
    by (simp add: slot_of_def)
  show ?thesis
  proof (cases "check_overlap ?db' ?r")
    case None
    with assms ov d sch show ?thesis
      by (simp add: create_session_def session_constraints_create Let_def book_def not_le)
  next
    case (Some e)
    with assms ov d show ?thesis
      by (auto simp: create_session_def session_constraints_create Let_def book_def not_le)
  qed
qed


lemma fold_max_ge_init: "z \<le> fold max xs (z :: 'a :: linorder)"
  by (induction xs arbitrary: z) (auto intro: order_trans [OF max.cobounded2])

lemma fold_max_ge: "x \<in> set xs \<Longrightarrow> x \<le> fold max xs (z :: 'a :: linorder)"
  by (induction xs arbitrary: z) (auto intro: order_trans [OF max.cobounded1 fold_max_ge_init])

lemma free_from_ge:
  "y \<in> schedule db e \<Longrightarrow> snd (snd y) \<le> free_from db e"
  by (auto simp: schedule_def free_from_def slot_of_def intro!: fold_max_ge)

lemma book_after_free_from:
  "free_from db e \<le> fst (snd x) \<Longrightarrow> fst (snd x) < snd (snd x) \<Longrightarrow> book (schedule db e) act x \<noteq> None"
  by (auto simp: book_def meets_def dest!: free_from_ge)

text \<open>C22. The overlap check never blocks an event for good: a create whose
  module exists and whose dates are well ordered and start after the end of
  every active session of the event commits.\<close>

theorem create_session_progress:
  assumes m: "find_module db (sv_module_id v) = Some m"
    and a: "free_from db (mo_event_id m) \<le> sv_date_start v" and d: "sv_date_start v < sv_date_end v"
  shows "\<exists>db' i. create_session db v = Inr (db', i)"
proof -
  have "book (schedule db (mo_event_id m)) (written (sv_active v) True)
          (slot_of (new_session (next_session_id db) m v)) \<noteq> None"
    using a d by (intro book_after_free_from) (simp_all add: slot_of_def)
  then show ?thesis
    unfolding create_session_schedule [OF m] by (auto split: sum.splits)
qed

end
