(* ===== verification/Spec2Isabelle.thy ===== *)
theory Spec2Isabelle
  imports System Tests Report Export Schedule
begin

text \<open>
  A model of the Odoo addon \<open>training_event\<close> (src/addons/training_event):
  training events, their modules, the sessions of each module, the
  participants, and the wizard that clones an event. The addon is four
  ORM models and one transient model. Each model's fields, defaults, stored
  computed fields, constraints and cascades determine what \<open>create\<close>,
  \<open>write\<close> and \<open>unlink\<close> do. Those are the operations modelled here, one
  definition each, over an explicit database state.

  \<^bold>\<open>Theories and what they model.\<close>
  \<^item> Prelude: the shared types (dates as day numbers, datetimes as seconds,
    ids as naturals), \<open>first_by\<close> (a \<open>search(limit=1)\<close> over a sort key),
    \<open>first_error\<close> (the first failing constraint), list and map lemmas.
  \<^item> Duration: \<open>_compute_duration_days\<close> (models/training_event.py),
    \<open>_compute_new_duration_days\<close> (wizard/training_event_clone_wizard.py) and
    \<open>_compute_duration_hours\<close> (models/training_session.py), the last with
    Python's \<open>round(x, 2)\<close> as half-even rounding of exact hundredths.
  \<^item> Records: the stored fields of the four models as records
    (\<open>event\<close>, \<open>module\<close>, \<open>session\<close>, \<open>participant\<close>), selection fields as
    datatypes, the database \<open>db\<close> with one id sequence per table, the error
    type, lookups by id, the \<open>_order\<close> of each model, one2many reads
    (active rows in \<open>_order\<close>) and the two \<open>session_count\<close> computes.
  \<^item> Session: \<open>TrainingSession\<close> (models/training_session.py): the
    constraints \<open>_check_dates\<close> and \<open>_check_overlap\<close> (its search domain, the
    implicit active filter, \<open>limit=1\<close> in \<open>_order\<close>), \<open>create_session\<close>,
    \<open>write_session\<close> (the constraints run only when a field they name is
    written) and \<open>unlink_session\<close>.
  \<^item> Event: \<open>TrainingEvent\<close> and \<open>TrainingModule\<close> (models/training_event.py,
    models/training_module.py): the \<open>EVT/\<close> sequence, the unique code,
    \<open>_check_dates\<close>, create, write and unlink of both models with the
    \<open>ondelete="cascade"\<close> of \<open>module.event_id\<close> and \<open>session.module_id\<close>,
    and the recompute of every session's stored related \<open>event_id\<close> when a
    module moves to another event.
  \<^item> Clone: the wizard, its two constraints, \<open>action_clone_event\<close> (the
    wizard's defaults) and \<open>action_clone\<close>, which is Odoo's \<open>copy\<close>.
  \<^item> Participant: models/training_participant.py: the unique
    (contact, role) pair and \<open>_check_trainer_user\<close>, on create and write.
  \<^item> Report: \<open>_get_sessions_grouped_by_day\<close> as the loop it is, and a
    reference definition by maximal runs that the loop is proved to compute.
  \<^item> Invariant: the database invariant \<open>wf_db\<close> (ids, foreign keys, stored
    computed fields, checked constraints) and the scheduling invariant
    \<open>no_overlap\<close>, with a preservation lemma for each operation.
  \<^item> Tests: the \<open>setUp\<close> of the addon's tests replayed as operations, and
    the tests as closed theorems (tests/test_training_session.py,
    tests/test_training_event.py, tests/test_clone_wizard.py).
  \<^item> System: the operations as one datatype \<open>op\<close>, \<open>step\<close> (one
    transaction, rolled back on error), \<open>run\<close> (a sequence of transactions),
    \<open>reachable\<close> (the states some sequence of committed operations reaches),
    and the pre-migration hook (migrations/18.0.1.0.0/pre-migrate.py).
  \<^item> Export: \<open>action_export_excel\<close> and the \<open>_fill_excel_*\<close> methods
    (models/training_event.py): each sheet as the list of its
    \<open>sheet.write(row, col, value)\<close> calls, built row by row (\<open>grid\<close>), with
    its \<open>set_column\<close> calls; \<open>cell_at\<close> reads a cell (last write wins).
    The colours of \<open>_get_calendar_state_colors\<close> are in Event.
  \<^item> Schedule: the contract of the overlap validator as an abstract model
    (each event's set of booked slots and \<open>book\<close>), the abstraction
    \<open>schedule\<close> from the database, the lemma that a create answers as
    \<open>book\<close> does, and the progress property stated with it.
  \<^item> This theory: the properties that span components, and the witnesses
    of the claims at concrete databases.

  \<^bold>\<open>Correspondence with the code.\<close> A \<open>create\<close> is \<open>db \<Rightarrow> vals \<Rightarrow>
  error + db \<times> rec_id\<close>: the new row takes the table's next id, its defaults
  and its stored computed fields, and then the constraints run in the ORM's
  order. A \<open>write\<close> takes a record of optional fields, where \<open>None\<close> means the
  field was not written; a \<open>Some None\<close> clears an optional field. The ORM
  runs only the constraints whose fields were written. A failed operation
  is \<open>Inl\<close> and leaves the database unchanged, as the transaction's rollback
  does. SQL constraints are \<open>Integrity_error\<close> and \<open>ValidationError\<close>s are
  \<open>Validation_error\<close>; a missing record or a dangling foreign key has its own
  error. The sequence and \<open>ir.sequence\<close> data are defined in XML outside src/;
  \<open>decimal\<close> and \<open>seq_code\<close> model the \<open>EVT/\<close> prefix with an unpadded
  number, and the counter \<open>code_seq\<close> is part of the database and rolled back
  with a failed create (a gap-free sequence); Odoo's standard sequence is not
  rolled back, and no property depends on this choice. The export reads the
  name, login and archive flag of users, the email and phone of contacts and the time of the file name from
  other models; they are the parameter \<open>export_env\<close>.

  \<^bold>\<open>What is proved.\<close> Creating a session commits exactly when its module
  exists, its end is after its start and no active session of the same event
  meets it in an open interval (C1). Every sequence of operations from the
  empty database that does not unarchive a session alone keeps \<open>wf_db\<close> and
  \<open>no_overlap\<close> (C2). Every reachable database is well-formed (C3). Unarchiving
  runs no constraint and reaches a database with two overlapping active
  sessions (C4). The clone appends one event with the wizard's name and
  dates, state draft, no participants and a fresh code (C5); it copies no
  module (lemma \<open>clone_event_no_modules\<close>), although the addon's
  \<open>test_clone_event_success\<close> expects the modules and sessions to be
  copied. The day report partitions the sessions by day in increasing order
  and equals a reference by maximal runs (C6, C7). The stored hours are within
  18 seconds of the exact length (C8). C9 to C15 cover participants, module
  moves, the unlink cascade, the wizard's duration check, archiving, the
  writable code and the wizard's defaults. Rescheduling, the error of a
  rejected create, and the session counts after an unlink and as a sum over
  modules are C16 to C19. The export's counts and its duration column agree
  with its sheets and with the report (C20, C21). A create after the end of
  every active session of the event always commits, so the overlap check
  never blocks an event (C22). An event whose end is before its start is
  rejected, and a created event's \<open>duration_days\<close> counts both ends (C23).
  No \<open>state\<close> field has a transition graph (C24). Component lemmas give,
  for each operation, its result on every branch and its preservation of the
  invariants; the addon's tests and the specification's day-grouping example
  are evaluated as lemmas of Tests and of this theory.

  \<^bold>\<open>Bounds.\<close> No definition uses fuel. Every loop of the code is a
  \<open>for\<close> over a finite recordset or list, and its model is structural
  recursion (\<open>group_loop\<close>) or a list function (\<open>grid\<close>), so each
  terminates by construction; \<open>decimal\<close> recurses on \<open>n div 10\<close>, which \<open>fun\<close> proves terminating, and \<open>run\<close>
  is by recursion on the operation list. Dates and datetimes are
  unbounded integers, since Python's \<open>date\<close> and \<open>datetime\<close> do not wrap.
  Float rounding is exact except on exact ties of \<open>seconds / 36\<close>, where
  the model rounds half to even and a binary float may not.

  \<^bold>\<open>Not modelled.\<close> The formats of single cells and the bytes of the
  xlsx file (xlsxwriter, base64) are presentation; the column indices of
  \<open>sheet.write\<close> are the consecutive indices \<open>grid\<close> assigns, as in the
  code. Record rules and access
  rights are not in the repository (the specification leaves access control
  to the host), so tests/test_security.py, which checks them, is not
  modelled. Views and
  the client's enforcement of \<open>readonly\<close>, concurrency between transactions,
  and \<open>name\<close> collation (modelled as string order) are also outside the
  model.
\<close>

section \<open>Scenarios\<close>

text \<open>The sessions of \<open>test_overlap_validation\<close>: the first, 09:00 to
  11:00, and the second, 09:30 to 12:00.\<close>

definition test_session_a :: session where
  "test_session_a = new_session 1 session_test_module (test_session_vals ''Sessione 1'' 1 test_now (test_now + 7200))"

definition test_session_b :: session where
  "test_session_b = new_session 2 session_test_module
     (test_session_vals ''Sessione 2'' 1 (test_now + 1800) (test_now + 10800))"

text \<open>The archive button of the form (\<open>active = False\<close>) and its reverse.\<close>

definition archive_w :: "bool \<Rightarrow> session_write" where
  "archive_w b = no_session_write\<lparr>sw_active := Some b\<rparr>"

text \<open>\<open>test_overlap_validation\<close> followed by archiving the first session.\<close>

definition overlap_scenario :: "op list" where
  "overlap_scenario =
     [Create_event (test_event_vals ''Evento'' Course test_today test_today),
      Create_module (test_module_vals ''Modulo'' 1),
      Create_session (test_session_vals ''Sessione 1'' 1 test_now (test_now + 7200)),
      Create_session (test_session_vals ''Sessione 2'' 1 (test_now + 1800) (test_now + 10800)),
      Write_session 1 (archive_w False)]"

text \<open>The first session is archived, the second created in its slot, the
  first unarchived.\<close>

definition unarchive_scenario :: "op list" where
  "unarchive_scenario =
     [Create_event (test_event_vals ''Evento'' Course test_today test_today),
      Create_module (test_module_vals ''Modulo'' 1),
      Create_session (test_session_vals ''Sessione 1'' 1 test_now (test_now + 7200)),
      Write_session 1 (archive_w False),
      Create_session (test_session_vals ''Sessione 2'' 1 (test_now + 1800) (test_now + 10800)),
      Write_session 1 (archive_w True)]"

definition archived_db :: db where
  "archived_db = overlap_test_db\<lparr>sessions := [test_session_a\<lparr>se_active := False\<rparr>]\<rparr>"

definition unarchive_final_db :: db where
  "unarchive_final_db = overlap_test_db\<lparr>sessions := [test_session_a, test_session_b], next_session_id := 3\<rparr>"

text \<open>The data the export reads from other models, for the examples.\<close>

definition test_export_env :: export_env where
  "test_export_env = \<lparr>ex_user_name = (\<lambda>_. ''Trainer Test''), ex_user_login = (\<lambda>_. ''trainer_test''),
     ex_user_active = (\<lambda>_. True), ex_email = (\<lambda>_. None),
     ex_phone = (\<lambda>_. None), ex_now = ''20240101_090000''\<rparr>"

section \<open>Lemmas\<close>

section \<open>Properties of the system\<close>

text \<open>C2. Every sequence of operations from the empty database that never
  unarchives a session alone keeps the database well-formed and keeps the
  active sessions of each event pairwise non-overlapping, failed operations
  being rolled back.\<close>

theorem run_no_overlap:
  assumes "\<forall>op\<in>set ops. \<not> unarchives op"
  shows "wf_db (run empty_db ops) \<and> no_overlap (run empty_db ops)"
  using wf_empty_db no_overlap_empty_db assms by (rule run_invariants)

text \<open>C3. Every database reachable from the empty one by committed operations
  is well-formed: distinct ids below their sequences, foreign keys that
  resolve, stored computed fields equal to their computation, and every
  constraint of the models satisfied.\<close>

theorem reachable_wf: "reachable db \<Longrightarrow> wf_db db"
proof (induction rule: reachable.induct)
  case init
  show ?case by (rule wf_empty_db)
next
  case (step db op db')
  then show ?case by (blast intro: step_wf)
qed

subsection \<open>The scenarios, evaluated\<close>

lemmas eval_defs = create_event_def create_module_def create_session_def write_session_def
  empty_db_def code_unique_error_def participants_fk_error_def event_dates_error_def
  find_event_def find_module_def find_session_def test_event_vals_def test_module_vals_def
  test_session_vals_def session_test_db_def session_test_module_def overlap_test_db_def
  session_constraints_def session_dates_error_def check_overlap_def overlap_search_def
  overlap_domain_def first_by_def written_module_def replace_session_def dates_written_def
  test_now_def committed_def archive_w_def Let_def

lemma scenario_step1:
  "step empty_db (Create_event (test_event_vals ''Evento'' Course test_today test_today)) =
     Inr (session_test_db\<lparr>modules := [], next_module_id := 1\<rparr>)"
  by (simp add: eval_defs)

lemma scenario_step2:
  "step (session_test_db\<lparr>modules := [], next_module_id := 1\<rparr>) (Create_module (test_module_vals ''Modulo'' 1)) =
     Inr session_test_db"
  by (simp add: eval_defs)

lemma scenario_step3:
  "step session_test_db (Create_session (test_session_vals ''Sessione 1'' 1 test_now (test_now + 7200))) =
     Inr overlap_test_db"
  by (simp add: eval_defs new_session_def)

lemma scenario_overlap_rejected:
  "step overlap_test_db (Create_session (test_session_vals ''Sessione 2'' 1 (test_now + 1800) (test_now + 10800))) =
     Inl (Validation_error (Session_overlap ''Sessione 1'' test_now (test_now + 7200)))"
  using test_overlap_validation by (simp add: committed_def)

lemma scenario_archive:
  "step overlap_test_db (Write_session 1 (archive_w False)) = Inr archived_db"
  by (simp add: eval_defs archived_db_def test_session_a_def apply_session_write_active_only)

lemma scenario_create_in_slot:
  "step archived_db (Create_session (test_session_vals ''Sessione 2'' 1 (test_now + 1800) (test_now + 10800))) =
     Inr (overlap_test_db\<lparr>sessions := [test_session_a\<lparr>se_active := False\<rparr>, test_session_b], next_session_id := 3\<rparr>)"
  by (simp add: eval_defs archived_db_def new_session_def test_session_a_def test_session_b_def)

lemma scenario_unarchive:
  "step (overlap_test_db\<lparr>sessions := [test_session_a\<lparr>se_active := False\<rparr>, test_session_b], next_session_id := 3\<rparr>)
      (Write_session 1 (archive_w True)) = Inr unarchive_final_db"
  by (simp add: eval_defs test_session_a_def test_session_b_def new_session_def
      unarchive_final_db_def apply_session_write_active_only)

lemma unarchive_final_reachable: "reachable unarchive_final_db"
proof -
  have "reachable (session_test_db\<lparr>modules := [], next_module_id := 1\<rparr>)"
    using reachable.init scenario_step1 by (rule reachable.step)
  then have "reachable session_test_db" using scenario_step2 by (rule reachable.step)
  then have "reachable overlap_test_db" using scenario_step3 by (rule reachable.step)
  then have "reachable archived_db" using scenario_archive by (rule reachable.step)
  then have "reachable (overlap_test_db\<lparr>sessions := [test_session_a\<lparr>se_active := False\<rparr>, test_session_b],
                                       next_session_id := 3\<rparr>)"
    using scenario_create_in_slot by (rule reachable.step)
  then show ?thesis using scenario_unarchive by (rule reachable.step)
qed

lemma unarchive_final_overlap: "\<not> no_overlap unarchive_final_db"
  by (simp add: no_overlap_def unarchive_final_db_def test_session_a_def test_session_b_def
      overlap_test_db_def session_test_db_def new_session_def overlap_domain_def test_session_vals_def
      session_test_module_def test_now_def)

lemma run_unarchive_scenario: "run empty_db unarchive_scenario = unarchive_final_db"
  by (simp only: unarchive_scenario_def run.simps scenario_step1 scenario_step2 scenario_step3
      scenario_archive scenario_create_in_slot scenario_unarchive sum.case)

lemma run_overlap_scenario: "run empty_db overlap_scenario = archived_db"
  by (simp only: overlap_scenario_def run.simps scenario_step1 scenario_step2 scenario_step3
      scenario_overlap_rejected scenario_archive sum.case)

subsection \<open>Claims on the scenarios\<close>

theorem run_no_overlap_witness:
  "run empty_db overlap_scenario = archived_db \<and> wf_db archived_db \<and> no_overlap archived_db"
proof -
  have u: "\<forall>op\<in>set overlap_scenario. \<not> unarchives op"
    by (simp add: overlap_scenario_def archive_w_def bare_unarchive_def)
  from run_no_overlap [OF u] show ?thesis by (simp add: run_overlap_scenario)
qed

theorem reachable_wf_witness: "reachable unarchive_final_db \<and> wf_db unarchive_final_db"
  using reachable_wf [OF unarchive_final_reachable] unarchive_final_reachable by simp

text \<open>C4. Unarchiving a session runs no constraint, so a reachable database
  can hold two active sessions of the same event that overlap: archive the
  first session of \<open>test_overlap_validation\<close>, create the second in its slot,
  unarchive the first.\<close>

theorem unarchive_breaks_no_overlap:
  "run empty_db unarchive_scenario = unarchive_final_db \<and>
   reachable unarchive_final_db \<and> \<not> no_overlap unarchive_final_db"
  using run_unarchive_scenario unarchive_final_reachable unarchive_final_overlap by blast

theorem unlink_event_cascade_witness:
  "wf_db clone_test_db \<and>
   unlink_event clone_test_db 1 = Inr (clone_test_db\<lparr>events := [], modules := [], sessions := []\<rparr>) \<and>
   set (sessions clone_test_db) \<noteq> {}"
proof -
  have wf: "wf_db clone_test_db"
    by (simp add: wf_db_def wf_ids_def wf_refs_def wf_stored_def wf_checked_def clone_test_defs
        new_session_def round_half_even_def)
  have u: "unlink_event clone_test_db 1 = Inr (clone_test_db\<lparr>events := [], modules := [], sessions := []\<rparr>)"
    by (simp add: unlink_event_def clone_test_defs find_event_def)
  from unlink_event_cascade [OF wf u] wf u show ?thesis by (simp add: clone_test_defs)
qed

lemma report_sessions_unarchive_final: "report_sessions unarchive_final_db 1 = [test_session_a, test_session_b]"
  by (simp add: report_sessions_def event_sessions_def module_ids_def session_ids_def mapped_union_def
      unarchive_final_db_def overlap_test_db_def session_test_db_def session_test_module_def
      test_session_a_def test_session_b_def new_session_def test_session_vals_def test_now_def)

theorem sessions_grouped_by_day_spec_witness:
  "concat (map g_sessions (sessions_grouped_by_day unarchive_final_db 1)) = [test_session_a, test_session_b] \<and>
   sessions_grouped_by_day unarchive_final_db 1 =
     [\<lparr>g_day = Some test_today, g_sessions = [test_session_a, test_session_b], g_duration = 9 / 2\<rparr>]"
proof -
  have "sessions_grouped_by_day unarchive_final_db 1 =
     [\<lparr>g_day = Some test_today, g_sessions = [test_session_a, test_session_b], g_duration = 9 / 2\<rparr>]"
    unfolding sessions_grouped_by_day_def report_sessions_unarchive_final
    by (simp add: flush_group_def
        test_session_a_def test_session_b_def new_session_def test_session_vals_def test_now_def
        test_today_def round_half_even_def day_of_def Let_def)
  with sessions_grouped_by_day_spec [of unarchive_final_db 1] show ?thesis
    unfolding report_sessions_unarchive_final by simp
qed

subsection \<open>The export of the session-count example\<close>

lemma count_test_export:
  "action_export_excel test_export_env count_test_db 1 =
     Inr (export_filename (seq_code 1) ''20240101_090000'',
          excel_workbook test_export_env count_test_db (hd (events count_test_db)))"
  by (simp add: action_export_excel_def find_event_def count_test_db_def test_export_env_def)

lemma count_test_report_durations:
  "sum_list (map se_duration_hours (report_sessions count_test_db 1)) = 5"
  by (simp add: report_sessions_def event_sessions_def module_ids_def session_ids_def mapped_union_def
      module_order_def session_order_def count_test_defs round_half_even_def Let_def)

theorem export_counts_consistent_witness:
  "\<exists>fn wb. action_export_excel test_export_env count_test_db 1 = Inr (fn, wb) \<and>
     data_row_count (sheet_cells (wb ! 1)) = 2 \<and> data_row_count (sheet_cells (wb ! 2)) = 3"
proof -
  let ?wb = "excel_workbook test_export_env count_test_db (hd (events count_test_db))"
  have a: "action_export_excel test_export_env count_test_db 1 =
             Inr (export_filename (seq_code 1) ''20240101_090000'', ?wb)" by (rule count_test_export)
  have "ev_id (hd (events count_test_db)) = 1" and "length (module_ids count_test_db 1) = 2"
    by (simp_all add: count_test_db_def module_ids_def count_test_module_def)
  with export_counts_consistent [OF a] info_sheet_counts [of count_test_db "hd (events count_test_db)"]
    count_test_session_count
  have "data_row_count (sheet_cells (?wb ! 1)) = 2 \<and> data_row_count (sheet_cells (?wb ! 2)) = 3"
    by (simp add: excel_workbook_def)
  with a show ?thesis by blast
qed

theorem export_durations_match_report_witness:
  "\<exists>fn wb ds. action_export_excel test_export_env count_test_db 1 = Inr (fn, wb) \<and>
     column (sheet_cells (wb ! 2)) 5 = Text ''Durata (ore)'' # map Decimal ds \<and> sum_list ds = 5"
proof -
  let ?wb = "excel_workbook test_export_env count_test_db (hd (events count_test_db))"
  have a: "action_export_excel test_export_env count_test_db 1 =
             Inr (export_filename (seq_code 1) ''20240101_090000'', ?wb)" by (rule count_test_export)
  from export_durations_match_report [OF a] obtain ds where
    "column (sheet_cells (?wb ! 2)) 5 = Text ''Durata (ore)'' # map Decimal ds"
    and "sum_list ds = sum_list (map g_duration (sessions_grouped_by_day count_test_db 1))" by blast
  with a show ?thesis
    by (metis sessions_grouped_by_day_total count_test_report_durations)
qed

subsection \<open>A free slot after the last session\<close>

theorem create_session_progress_witness:
  "free_from count_test_db 1 = test_now + 25200 \<and>
   (\<exists>db' i. create_session count_test_db (test_session_vals ''Sessione'' 1 (test_now + 25200) (test_now + 28800)) =
      Inr (db', i))"
proof -
  let ?v = "test_session_vals ''Sessione'' 1 (test_now + 25200) (test_now + 28800)"
  have m: "find_module count_test_db (sv_module_id ?v) = Some (count_test_module 1 ''Modulo 1'')"
    by (simp add: find_module_def count_test_defs test_session_vals_def)
  have f: "free_from count_test_db 1 = test_now + 25200"
    by (simp add: free_from_def count_test_defs new_session_def test_session_vals_def)
  have "\<exists>db' i. create_session count_test_db ?v = Inr (db', i)"
    using f by (intro create_session_progress [OF m]) (simp_all add: count_test_module_def test_session_vals_def)
  with f show ?thesis by simp
qed


subsection \<open>The specification's day-grouping example\<close>

text \<open>The day-grouping example of the specification: the sessions of
  day 1 at 09:00-11:00 and 14:00-16:00 and of day 2 at 09:00-10:00 make two
  groups, day 1 with both of its sessions and 4 hours, day 2 with one and 1
  hour.\<close>

lemma grouping_example:
  "map (\<lambda>g. (g_day g, map se_id (g_sessions g), g_duration g)) (sessions_grouped_by_day grouping_example_db 1) =
     [(Some test_today, [1, 2], 4), (Some (test_today + 1), [3], 1)]"
proof -
  have r: "report_sessions grouping_example_db 1 =
      [count_test_session 1 1 test_now (test_now + 7200),
       count_test_session 2 1 (test_now + 18000) (test_now + 25200),
       count_test_session 3 1 (test_now + 86400) (test_now + 90000)]"
    by (simp add: report_sessions_def event_sessions_def module_ids_def session_ids_def mapped_union_def
        module_order_def session_order_def grouping_example_db_def count_test_defs test_now_def)
  show ?thesis
    unfolding sessions_grouped_by_day_def r
    by (simp add: flush_group_def day_of_def count_test_defs test_now_def test_today_def round_half_even_def)
qed

end
